theory Spec2Isabelle
  imports Main "HOL-Library.Sublist"
begin

section \<open>JavaScript values as the rules see them\<close>

text \<open>
  Every document the engine evaluates is the result of \<^verbatim>\<open>JSON.parse\<close> on an untrusted
  response, read through property accesses that may produce \<^verbatim>\<open>undefined\<close>.  A value is
  therefore a JSON value or \<^verbatim>\<open>undefined\<close>.  An object is its list of own properties in
  the order \<^verbatim>\<open>Object.keys\<close> enumerates them.  Numbers are the integer-valued ones
  (documents with fractional numbers are outside this model); strings are lists of code
  units below 256.
\<close>

datatype jsval =
    Undefined
  | Null
  | JBool bool
  | JNum int
  | JStr string
  | JArr "jsval list"
  | JObj "(string \<times> jsval) list"

text \<open>A thrown value: an \<^verbatim>\<open>Error\<close> with its message, or any other value.\<close>

datatype thrown = ErrorObj string | NonError

type_synonym 'a js = "thrown + 'a"

definition bindE :: "'a js \<Rightarrow> ('a \<Rightarrow> 'b js) \<Rightarrow> 'b js" where
  "bindE m f = (case m of Inl e \<Rightarrow> Inl e | Inr x \<Rightarrow> f x)"

text \<open>\<^verbatim>\<open>!!v\<close>\<close>

fun truthy :: "jsval \<Rightarrow> bool" where
  "truthy Undefined = False"
| "truthy Null = False"
| "truthy (JBool b) = b"
| "truthy (JNum n) = (n \<noteq> 0)"
| "truthy (JStr s) = (s \<noteq> [])"
| "truthy (JArr xs) = True"
| "truthy (JObj kvs) = True"

text \<open>\<^verbatim>\<open>typeof v === 'object'\<close> (which holds of \<^verbatim>\<open>null\<close> too)\<close>

fun typeof_object :: "jsval \<Rightarrow> bool" where
  "typeof_object Null = True"
| "typeof_object (JArr xs) = True"
| "typeof_object (JObj kvs) = True"
| "typeof_object v = False"

fun isArray :: "jsval \<Rightarrow> bool" where
  "isArray (JArr xs) = True"
| "isArray v = False"

fun nullish :: "jsval \<Rightarrow> bool" where
  "nullish Undefined = True"
| "nullish Null = True"
| "nullish v = False"

subsection \<open>Decimal numerals and array indices\<close>

definition digit_char :: "nat \<Rightarrow> char" where
  "digit_char d = ''0123456789'' ! d"

fun show_nat :: "nat \<Rightarrow> string" where
  "show_nat n = (if n < 10 then [digit_char n] else show_nat (n div 10) @ [digit_char (n mod 10)])"

declare show_nat.simps [simp del]

definition show_int :: "int \<Rightarrow> string" where
  "show_int i = (if i < 0 then CHR ''-'' # show_nat (nat (- i)) else show_nat (nat i))"

text \<open>
  The element an array-like value holds under a property key: the key must be the
  canonical decimal numeral of an index in range.
\<close>

fun index_of_key :: "string \<Rightarrow> nat \<Rightarrow> nat \<Rightarrow> nat option" where
  "index_of_key k i 0 = None"
| "index_of_key k i (Suc n) = (if show_nat i = k then Some i else index_of_key k (Suc i) n)"

subsection \<open>Property access\<close>

text \<open>
  \<^verbatim>\<open>v?.k\<close>: the own property of an object, the length or an element of an array or a
  string, \<^verbatim>\<open>undefined\<close> otherwise.  None of the property names the engine reads is a
  method of a prototype, apart from \<^verbatim>\<open>length\<close>.
\<close>

fun get :: "jsval \<Rightarrow> string \<Rightarrow> jsval" where
  "get (JObj kvs) k = (case map_of kvs k of Some v \<Rightarrow> v | None \<Rightarrow> Undefined)"
| "get (JArr xs) k =
     (if k = ''length'' then JNum (int (length xs))
      else case index_of_key k 0 (length xs) of Some i \<Rightarrow> xs ! i | None \<Rightarrow> Undefined)"
| "get (JStr s) k =
     (if k = ''length'' then JNum (int (length s))
      else case index_of_key k 0 (length s) of Some i \<Rightarrow> JStr [s ! i] | None \<Rightarrow> Undefined)"
| "get v k = Undefined"

text \<open>\<^verbatim>\<open>v.k\<close>: a TypeError on \<^verbatim>\<open>undefined\<close> and \<^verbatim>\<open>null\<close>.\<close>

definition cannot_read :: "jsval \<Rightarrow> string \<Rightarrow> thrown" where
  "cannot_read v k = ErrorObj (''Cannot read properties of '' @
     (if v = Null then ''null'' else ''undefined'') @ '' (reading '' @ [CHR 0x27] @ k @ [CHR 0x27] @ '')'')"

definition get_strict :: "jsval \<Rightarrow> string \<Rightarrow> jsval js" where
  "get_strict v k = (if nullish v then Inl (cannot_read v k) else Inr (get v k))"

text \<open>
  \<^verbatim>\<open>const { k, ... } = v\<close>: the properties of the value, a TypeError on
  \<^verbatim>\<open>undefined\<close> and \<^verbatim>\<open>null\<close>.
\<close>

definition destructure :: "jsval \<Rightarrow> string \<Rightarrow> unit js" where
  "destructure v k =
     (if nullish v
      then Inl (ErrorObj (''Cannot destructure property '' @ [CHR 0x27] @ k @ [CHR 0x27] @
                          '' of '' @ [CHR 0x27] @ ''(intermediate value)'' @ [CHR 0x27] @ '' as it is '' @
                          (if v = Null then ''null'' else ''undefined'') @ ''.''))
      else Inr ())"

text \<open>\<^verbatim>\<open>a || b\<close> on values\<close>

definition js_or :: "jsval \<Rightarrow> jsval \<Rightarrow> jsval" where
  "js_or a b = (if truthy a then a else b)"

subsection \<open>Conversion to string and joining\<close>

fun intercalate :: "string \<Rightarrow> string list \<Rightarrow> string" where
  "intercalate sep [] = []"
| "intercalate sep [x] = x"
| "intercalate sep (x # y # ys) = x @ sep @ intercalate sep (y # ys)"

text \<open>
  \<^verbatim>\<open>String(v)\<close>, which a template literal applies too.  An array prints its elements
  separated by commas, \<^verbatim>\<open>null\<close> and \<^verbatim>\<open>undefined\<close> elements as the empty string.
\<close>

fun js_String :: "jsval \<Rightarrow> string"
  and js_elem_String :: "jsval \<Rightarrow> string"
  and js_elems :: "jsval list \<Rightarrow> string list" where
  "js_String Undefined = ''undefined''"
| "js_String Null = ''null''"
| "js_String (JBool b) = (if b then ''true'' else ''false'')"
| "js_String (JNum n) = show_int n"
| "js_String (JStr s) = s"
| "js_String (JArr xs) = intercalate '','' (js_elems xs)"
| "js_String (JObj kvs) = ''[object Object]''"
| "js_elem_String v = (if nullish v then [] else js_String v)"
| "js_elems [] = []"
| "js_elems (x # xs) = js_elem_String x # js_elems xs"

text \<open>\<^verbatim>\<open>xs.join(sep)\<close> on an array\<close>

definition join :: "string \<Rightarrow> jsval list \<Rightarrow> string" where
  "join sep xs = intercalate sep (js_elems xs)"

text \<open>\<^verbatim>\<open>Object.keys(v)\<close> for a value that is neither \<^verbatim>\<open>undefined\<close> nor \<^verbatim>\<open>null\<close>\<close>

fun keys :: "jsval \<Rightarrow> string list" where
  "keys (JObj kvs) = map fst kvs"
| "keys (JArr xs) = map show_nat [0..<length xs]"
| "keys (JStr s) = map show_nat [0..<length s]"
| "keys v = []"

text \<open>\<^verbatim>\<open>Object.entries(v)\<close>\<close>

definition entries :: "jsval \<Rightarrow> (string \<times> jsval) list" where
  "entries v = map (\<lambda>k. (k, get v k)) (keys v)"


subsection \<open>Platform functions\<close>

text \<open>
  The engine calls the platform's URL parser, JSON parser and serializer, base64 encoder
  and number conversion.  They are not part of the repository: every definition that
  needs one takes the platform as a parameter.  \<open>URL_parse\<close> is \<^verbatim>\<open>new URL(s)\<close>
  (\<open>None\<close> when it throws), \<open>JSON_parse\<close> is \<^verbatim>\<open>JSON.parse\<close> (with the error it
  throws), \<open>base64 v\<close> is \<^verbatim>\<open>Buffer.from(v).toString('base64')\<close>, which throws on
  some values, \<open>URL_resolve rel base\<close> is \<^verbatim>\<open>new URL(rel, base).toString()\<close>, and
  \<open>loop_bound s\<close> is the number of naturals below the number the string \<open>s\<close> converts
  to (none when it converts to \<^verbatim>\<open>NaN\<close>; a string that converts to infinity is outside
  this model).
\<close>

record url =
  protocol :: string
  origin :: string
  hostname :: string
  pathname :: string

record platform =
  URL_parse :: "string \<Rightarrow> url option"
  JSON_parse :: "string \<Rightarrow> jsval js"
  JSON_stringify :: "jsval \<Rightarrow> string"
  base64 :: "jsval \<Rightarrow> string js"
  URL_resolve :: "string \<Rightarrow> string \<Rightarrow> string option"
  loop_bound :: "string \<Rightarrow> nat"

text \<open>
  The number of turns of \<^verbatim>\<open>for (let i = 0; i < v; i++)\<close>: the value is converted to
  a number first.
\<close>

fun js_loop_bound :: "platform \<Rightarrow> jsval \<Rightarrow> nat" where
  "js_loop_bound P Undefined = 0"
| "js_loop_bound P Null = 0"
| "js_loop_bound P (JBool b) = (if b then 1 else 0)"
| "js_loop_bound P (JNum n) = nat n"
| "js_loop_bound P (JStr s) = loop_bound P s"
| "js_loop_bound P (JArr xs) = loop_bound P (js_String (JArr xs))"
| "js_loop_bound P (JObj kvs) = 0"

text \<open>\<^verbatim>\<open>v > 0\<close>\<close>

definition js_gt0 :: "platform \<Rightarrow> jsval \<Rightarrow> bool" where
  "js_gt0 P v = (0 < js_loop_bound P v)"

text \<open>
  \<^verbatim>\<open>v.join(sep)\<close> for a value that is not \<^verbatim>\<open>undefined\<close> or \<^verbatim>\<open>null\<close>: only an
  array has the method; on anything else the call is a TypeError naming the callee.
\<close>

definition call_join :: "string \<Rightarrow> jsval \<Rightarrow> string \<Rightarrow> string js" where
  "call_join callee v sep =
     (case v of JArr xs \<Rightarrow> Inr (join sep xs)
      | _ \<Rightarrow> Inl (ErrorObj (callee @ ''.join is not a function'')))"

section \<open>Rules, results and reports\<close>

datatype severity = Critical | Warning | Info

record compliance_result =
  passed :: bool
  ruleId :: string
  message :: string
  severity :: severity
  details :: "jsval option"
  docUrl :: "string option"

text \<open>
  A rule of the SDK rule sets: its \<^verbatim>\<open>check\<close> is a function of the document, which
  returns a result or throws.
\<close>

record compliance_rule =
  rule_id :: string
  rule_name :: string
  rule_description :: string
  rule_severity :: severity
  check :: "jsval \<Rightarrow> compliance_result js"

definition mk_result :: "bool \<Rightarrow> string \<Rightarrow> string \<Rightarrow> severity \<Rightarrow> compliance_result" where
  "mk_result p rid msg sev =
     \<lparr>passed = p, ruleId = rid, message = msg, severity = sev, details = None, docUrl = None\<rparr>"

subsection \<open>The rule-set runner of the SDKs\<close>

text \<open>
  \<^verbatim>\<open>checkA2ACompliance\<close>, \<^verbatim>\<open>checkUCPCompliance\<close> and \<^verbatim>\<open>checkMCPCompliance\<close> run the
  same loop: every rule's check inside its own \<^verbatim>\<open>try\<close>, a thrown error turned into a
  failing result of the rule's declared severity.
\<close>

definition error_message :: "thrown \<Rightarrow> string" where
  "error_message e = (case e of ErrorObj m \<Rightarrow> m | NonError \<Rightarrow> ''Unknown error'')"

definition rule_error_result :: "compliance_rule \<Rightarrow> thrown \<Rightarrow> compliance_result" where
  "rule_error_result rule e =
     mk_result False (rule_id rule) (''Rule check error: '' @ error_message e) (rule_severity rule)"

definition run_rule :: "compliance_rule \<Rightarrow> jsval \<Rightarrow> compliance_result" where
  "run_rule rule doc = (case check rule doc of Inr r \<Rightarrow> r | Inl e \<Rightarrow> rule_error_result rule e)"

fun run_rules :: "compliance_rule list \<Rightarrow> jsval \<Rightarrow> compliance_result list \<Rightarrow> compliance_result list" where
  "run_rules [] doc results = results"
| "run_rules (rule # rules) doc results = run_rules rules doc (results @ [run_rule rule doc])"

definition count_passed :: "compliance_result list \<Rightarrow> nat" where
  "count_passed results = length (filter (\<lambda>r. passed r) results)"

definition count_failed :: "compliance_result list \<Rightarrow> nat" where
  "count_failed results = length (filter (\<lambda>r. \<not> passed r \<and> severity r = Critical) results)"

definition count_warning :: "compliance_result list \<Rightarrow> nat" where
  "count_warning results = length (filter (\<lambda>r. \<not> passed r \<and> severity r = Warning) results)"

section \<open>The agent-protocol rule set of the SDK\<close>

definition isValidURL :: "platform \<Rightarrow> jsval \<Rightarrow> bool" where
  "isValidURL P v =
     (case URL_parse P (js_String v) of
        None \<Rightarrow> False
      | Some u \<Rightarrow> protocol u = ''http:'' \<or> protocol u = ''https:'')"

definition a2a_name_check :: "jsval \<Rightarrow> compliance_result js" where
  "a2a_name_check agentCard =
     bindE (get_strict agentCard ''name'') (\<lambda>name.
       Inr (mk_result (truthy name) ''agent-card-name''
              (if truthy name then ''Agent name present'' else ''Missing agent name'') Critical))"

definition a2a_description_check :: "jsval \<Rightarrow> compliance_result js" where
  "a2a_description_check agentCard =
     bindE (get_strict agentCard ''description'') (\<lambda>d.
       Inr (mk_result (truthy d) ''agent-card-description''
              (if truthy d then ''Agent description present'' else ''Missing agent description'')
              Critical))"

definition a2a_url_check :: "platform \<Rightarrow> jsval \<Rightarrow> compliance_result js" where
  "a2a_url_check P agentCard =
     bindE (get_strict agentCard ''url'') (\<lambda>u.
       let hasUrl = truthy u;
           isValidUrl = (if hasUrl then isValidURL P u else False)
       in Inr (mk_result isValidUrl ''agent-card-url''
                 (if isValidUrl then ''Agent URL valid'' else ''Missing or invalid agent URL'')
                 Critical))"

definition a2a_version_check :: "jsval \<Rightarrow> compliance_result js" where
  "a2a_version_check agentCard =
     bindE (get_strict agentCard ''version'') (\<lambda>v.
       Inr (mk_result (truthy v) ''agent-card-version''
              (if truthy v then ''Version present'' else ''Missing version'') Critical))"

definition a2a_capabilities_check :: "jsval \<Rightarrow> compliance_result js" where
  "a2a_capabilities_check agentCard =
     bindE (get_strict agentCard ''capabilities'') (\<lambda>c.
       Inr (mk_result (truthy c) ''agent-card-capabilities''
              (if truthy c then ''Capabilities declared'' else ''No capabilities declared'')
              Warning))"

definition a2a_streaming_check :: "jsval \<Rightarrow> compliance_result js" where
  "a2a_streaming_check agentCard =
     bindE (get_strict agentCard ''capabilities'') (\<lambda>caps.
       let hasStreaming = (get caps ''streaming'' \<noteq> Undefined)
       in Inr (mk_result True ''agent-card-streaming''
                 (if hasStreaming
                  then ''Streaming: '' @
                       (if truthy (get caps ''streaming'') then ''supported'' else ''not supported'')
                  else ''Streaming not declared'')
                 Info))"

definition a2a_push_check :: "jsval \<Rightarrow> compliance_result js" where
  "a2a_push_check agentCard =
     bindE (get_strict agentCard ''capabilities'') (\<lambda>caps.
       let hasPush = (get caps ''pushNotifications'' \<noteq> Undefined)
       in Inr (mk_result True ''agent-card-push-notifications''
                 (if hasPush
                  then ''Push notifications: '' @
                       (if truthy (get caps ''pushNotifications'') then ''supported''
                        else ''not supported'')
                  else ''Push notifications not declared'')
                 Info))"

definition a2a_authentication_check :: "platform \<Rightarrow> jsval \<Rightarrow> compliance_result js" where
  "a2a_authentication_check P agentCard =
     bindE (get_strict agentCard ''authentication'') (\<lambda>auth.
       let schemes = get auth ''schemes'';
           hasAuth = js_gt0 P (get schemes ''length'')
       in if hasAuth
          then bindE (call_join ''agentCard.authentication.schemes'' schemes '', '') (\<lambda>joined.
                 Inr (mk_result True ''agent-card-authentication''
                        (''Authentication schemes: '' @ joined) Critical))
          else Inr (mk_result False ''agent-card-authentication''
                      ''No authentication schemes declared'' Critical))"

definition a2a_provider_check :: "jsval \<Rightarrow> compliance_result js" where
  "a2a_provider_check agentCard =
     bindE (get_strict agentCard ''provider'') (\<lambda>provider.
       Inr (mk_result True ''agent-card-provider''
              (if truthy provider then ''Provider: '' @ js_String (get provider ''organization'')
               else ''Provider not specified'')
              Info))"

definition a2a_models_check :: "jsval \<Rightarrow> compliance_result js" where
  "a2a_models_check agentCard =
     bindE (get_strict agentCard ''supportedModels'') (\<lambda>models.
       if truthy (get models ''length'')
       then bindE (call_join ''agentCard.supportedModels'' models '', '') (\<lambda>joined.
              Inr (mk_result True ''agent-card-models'' (''Supported models: '' @ joined) Info))
       else Inr (mk_result True ''agent-card-models'' ''No models specified'' Info))"

definition A2A_COMPLIANCE_RULES :: "platform \<Rightarrow> compliance_rule list" where
  "A2A_COMPLIANCE_RULES P =
   [\<lparr>rule_id = ''agent-card-name'', rule_name = ''Agent Name'',
     rule_description = ''Agent card must have a name'',
     rule_severity = Critical, check = a2a_name_check\<rparr>,
    \<lparr>rule_id = ''agent-card-description'', rule_name = ''Agent Description'',
     rule_description = ''Agent card must have a description'',
     rule_severity = Critical, check = a2a_description_check\<rparr>,
    \<lparr>rule_id = ''agent-card-url'', rule_name = ''Agent URL'',
     rule_description = ''Agent card must have a valid URL'',
     rule_severity = Critical, check = a2a_url_check P\<rparr>,
    \<lparr>rule_id = ''agent-card-version'', rule_name = ''Version'',
     rule_description = ''Agent card must have a version string'',
     rule_severity = Critical, check = a2a_version_check\<rparr>,
    \<lparr>rule_id = ''agent-card-capabilities'', rule_name = ''Capabilities'',
     rule_description = ''Agent card must declare capabilities'',
     rule_severity = Warning, check = a2a_capabilities_check\<rparr>,
    \<lparr>rule_id = ''agent-card-streaming'', rule_name = ''Streaming Capability'',
     rule_description = ''If streaming is supported, it should be explicitly declared'',
     rule_severity = Info, check = a2a_streaming_check\<rparr>,
    \<lparr>rule_id = ''agent-card-push-notifications'', rule_name = ''Push Notifications'',
     rule_description = ''If push notifications are supported, it should be declared'',
     rule_severity = Info, check = a2a_push_check\<rparr>,
    \<lparr>rule_id = ''agent-card-authentication'', rule_name = ''Authentication'',
     rule_description = ''Agent card must declare supported authentication schemes'',
     rule_severity = Critical, check = a2a_authentication_check P\<rparr>,
    \<lparr>rule_id = ''agent-card-provider'', rule_name = ''Provider Information'',
     rule_description = ''Provider information should be included for enterprise use'',
     rule_severity = Info, check = a2a_provider_check\<rparr>,
    \<lparr>rule_id = ''agent-card-models'', rule_name = ''Supported Models'',
     rule_description = ''List of supported models should be included'',
     rule_severity = Info, check = a2a_models_check\<rparr>]"

record a2a_report =
  a2a_timestamp :: string
  a2a_agentId :: string
  a2a_agentName :: jsval
  a2a_agentCardUrl :: jsval
  a2a_results :: "compliance_result list"
  a2a_passedCount :: nat
  a2a_failedCount :: nat
  a2a_warningCount :: nat

text \<open>
  \<^verbatim>\<open>checkA2ACompliance\<close>.  The clock reading is the parameter \<open>now\<close>.  The report
  reads \<^verbatim>\<open>agentCard.name\<close> outside every \<^verbatim>\<open>try\<close>, so a card that is \<^verbatim>\<open>null\<close> makes
  the call itself throw.
\<close>

definition checkA2ACompliance :: "platform \<Rightarrow> string \<Rightarrow> jsval \<Rightarrow> string \<Rightarrow> a2a_report js" where
  "checkA2ACompliance P now agentCard agentId =
     (let results = run_rules (A2A_COMPLIANCE_RULES P) agentCard []
      in bindE (get_strict agentCard ''name'') (\<lambda>name.
         bindE (get_strict agentCard ''url'') (\<lambda>u.
           Inr \<lparr>a2a_timestamp = now, a2a_agentId = agentId, a2a_agentName = name,
                a2a_agentCardUrl = u, a2a_results = results,
                a2a_passedCount = count_passed results,
                a2a_failedCount = count_failed results,
                a2a_warningCount = count_warning results\<rparr>)))"


section \<open>Requests and responses\<close>

text \<open>
  \<^verbatim>\<open>fetch\<close> is the function \<open>net\<close> from the request to a response or a thrown error.
  A response's headers are listed under their lower-case names; reading its body
  (\<^verbatim>\<open>response.text()\<close>) may throw as well.
\<close>

record request =
  req_url :: string
  req_method :: string
  req_headers :: "(string \<times> jsval) list"
  req_body :: "string option"

record response =
  status :: nat
  statusText :: string
  resp_headers :: "(string \<times> string) list"
  resp_text :: "string js"

type_synonym network = "request \<Rightarrow> response js"

definition ok :: "response \<Rightarrow> bool" where
  "ok r = (200 \<le> status r \<and> status r \<le> 299)"

definition header_get :: "response \<Rightarrow> string \<Rightarrow> string option" where
  "header_get r name = map_of (resp_headers r) name"

text \<open>\<^verbatim>\<open>response.headers.get('content-type') || ''\<close>\<close>

definition content_type_of :: "response \<Rightarrow> string" where
  "content_type_of r = (case header_get r ''content-type'' of Some v \<Rightarrow> v | None \<Rightarrow> [])"

text \<open>\<^verbatim>\<open>obj[k] = v\<close> on a list of own properties: in place, or appended.\<close>

fun set_prop :: "string \<Rightarrow> 'v \<Rightarrow> (string \<times> 'v) list \<Rightarrow> (string \<times> 'v) list" where
  "set_prop k v [] = [(k, v)]"
| "set_prop k v ((k', v') # kvs) =
     (if k = k' then (k, v) # kvs else (k', v') # set_prop k v kvs)"

text \<open>
  The two characters of the engine's messages that lie beyond the code units of this
  model, written as their UTF-8 bytes: the arrow U+2192 and the dash U+2014.
\<close>

definition arrow :: string where
  "arrow = [CHR 0xE2, CHR 0x86, CHR 0x92]"

definition emdash :: string where
  "emdash = [CHR 0xE2, CHR 0x80, CHR 0x94]"

text \<open>The request headers the three compliance routes and the scanner build from the
  caller's \<^verbatim>\<open>authType\<close>, \<^verbatim>\<open>authValue\<close> and \<^verbatim>\<open>authHeader\<close>.\<close>

definition auth_headers ::
  "platform \<Rightarrow> jsval \<Rightarrow> jsval \<Rightarrow> jsval \<Rightarrow> (string \<times> jsval) list \<Rightarrow> (string \<times> jsval) list js" where
  "auth_headers P authType authValue authHeader headers =
     (if truthy authType \<and> authType \<noteq> JStr ''none'' \<and> truthy authValue
      then let name = js_String (js_or authHeader (JStr ''Authorization''))
           in if authType = JStr ''api_key'' then Inr (set_prop name authValue headers)
              else if authType = JStr ''bearer''
              then Inr (set_prop name (JStr (''Bearer '' @ js_String authValue)) headers)
              else if authType = JStr ''basic''
              then bindE (base64 P authValue) (\<lambda>b.
                     Inr (set_prop name (JStr (''Basic '' @ b)) headers))
              else Inr headers
      else Inr headers)"

section \<open>The agent-protocol compliance route\<close>

record spec_rule =
  sr_id :: string
  sr_name :: string
  sr_severity :: severity

definition A2A_SPEC_version :: string where "A2A_SPEC_version = ''2025-01-17''"
definition A2A_SPEC_base :: string where "A2A_SPEC_base = ''https://a2a-protocol.org''"
definition A2A_SPEC_agentCard :: string where "A2A_SPEC_agentCard = ''https://a2a-protocol.org/latest/''"
definition A2A_SPEC_authentication :: string where
  "A2A_SPEC_authentication = ''https://a2a-protocol.org/latest/''"
definition A2A_SPEC_skills :: string where "A2A_SPEC_skills = ''https://a2a-protocol.org/latest/''"

definition A2A_ROUTE_RULES :: "spec_rule list" where
  "A2A_ROUTE_RULES =
   [\<lparr>sr_id = ''agent-card-name'', sr_name = ''Agent Name'', sr_severity = Critical\<rparr>,
    \<lparr>sr_id = ''agent-card-description'', sr_name = ''Agent Description'', sr_severity = Critical\<rparr>,
    \<lparr>sr_id = ''agent-card-url'', sr_name = ''Agent URL'', sr_severity = Critical\<rparr>,
    \<lparr>sr_id = ''agent-card-version'', sr_name = ''Version'', sr_severity = Critical\<rparr>,
    \<lparr>sr_id = ''agent-card-capabilities'', sr_name = ''Capabilities'', sr_severity = Warning\<rparr>,
    \<lparr>sr_id = ''agent-card-skills'', sr_name = ''Skills Declaration'', sr_severity = Warning\<rparr>,
    \<lparr>sr_id = ''agent-card-input-modes'', sr_name = ''Default Input Modes'', sr_severity = Info\<rparr>,
    \<lparr>sr_id = ''agent-card-output-modes'', sr_name = ''Default Output Modes'', sr_severity = Info\<rparr>,
    \<lparr>sr_id = ''agent-card-authentication'', sr_name = ''Authentication'', sr_severity = Critical\<rparr>]"

text \<open>What \<^verbatim>\<open>fetchAgentCard\<close> of the route returns, and the locations it requested.\<close>

record fetched_card =
  card :: jsval
  resolvedUrl :: string
  fetch_error :: "string option"

text \<open>
  One turn of the loop over \<^verbatim>\<open>urlsToTry\<close>: \<open>Inr\<close> is the \<^verbatim>\<open>return\<close>, \<open>Inl\<close> the
  line pushed on \<^verbatim>\<open>errors\<close> before the next turn.
\<close>

definition confirms_a2a_route :: "jsval \<Rightarrow> bool" where
  "confirms_a2a_route json =
     (truthy json \<and> (truthy (get json ''name'') \<or> truthy (get json ''description'') \<or>
                      truthy (get json ''url'') \<or> truthy (get json ''skills'')))"

definition try_card_url ::
  "platform \<Rightarrow> network \<Rightarrow> (string \<times> jsval) list \<Rightarrow> string \<Rightarrow> string + fetched_card" where
  "try_card_url P net headers u =
     (case net \<lparr>req_url = u, req_method = ''GET'',
                req_headers = set_prop ''Accept'' (JStr ''application/json'') headers,
                req_body = None\<rparr> of
        Inl e \<Rightarrow> Inl (u @ '' '' @ arrow @ '' '' @
                       (case e of ErrorObj m \<Rightarrow> m | NonError \<Rightarrow> ''fetch failed''))
      | Inr response \<Rightarrow>
          if \<not> ok response
          then Inl (u @ '' '' @ arrow @ '' HTTP '' @ show_nat (status response))
          else let contentType = content_type_of response in
               case resp_text response of
                 Inl e \<Rightarrow> Inl (u @ '' '' @ arrow @ '' '' @
                                (case e of ErrorObj m \<Rightarrow> m | NonError \<Rightarrow> ''fetch failed''))
               | Inr txt \<Rightarrow>
                   (case JSON_parse P txt of
                      Inl e \<Rightarrow> Inl (u @ '' '' @ arrow @ '' Response is not valid JSON'')
                    | Inr json \<Rightarrow>
                        if confirms_a2a_route json
                        then Inr \<lparr>card = json, resolvedUrl = u, fetch_error = None\<rparr>
                        else if sublist ''text/html'' contentType
                        then Inl (u @ '' '' @ arrow @ '' Returned HTML, not JSON'')
                        else Inr \<lparr>card = json, resolvedUrl = u, fetch_error = None\<rparr>))"

text \<open>
  The loop, with the list of locations requested so far and the errors collected so far.
\<close>

fun try_card_urls ::
  "platform \<Rightarrow> network \<Rightarrow> (string \<times> jsval) list \<Rightarrow> string \<Rightarrow> string list \<Rightarrow>
   string list \<Rightarrow> string list \<Rightarrow> fetched_card \<times> string list" where
  "try_card_urls P net headers baseUrl [] errors requested =
     (\<lparr>card = Null, resolvedUrl = baseUrl,
       fetch_error = Some (''Could not fetch agent card. Tried: '' @ intercalate ''; '' errors)\<rparr>,
      requested)"
| "try_card_urls P net headers baseUrl (u # us) errors requested =
     (case try_card_url P net headers u of
        Inr found \<Rightarrow> (found, requested @ [u])
      | Inl line \<Rightarrow> try_card_urls P net headers baseUrl us (errors @ [line]) (requested @ [u]))"

text \<open>\<^verbatim>\<open>s.replace(/\/+$/, '')\<close>\<close>

definition strip_trailing_slashes :: "string \<Rightarrow> string" where
  "strip_trailing_slashes s = rev (dropWhile (\<lambda>c. c = CHR ''/'') (rev s))"

definition invalid_url :: thrown where
  "invalid_url = ErrorObj ''Invalid URL''"

text \<open>The candidate locations of the route's \<^verbatim>\<open>fetchAgentCard\<close>.  The identity comes
  from the request body, so it need not be a string: the URL parser converts it, and
  \<^verbatim>\<open>endsWith\<close> exists on strings only.\<close>

definition urlsToTry :: "platform \<Rightarrow> jsval \<Rightarrow> string list js" where
  "urlsToTry P baseUrl =
     (case URL_parse P (js_String baseUrl) of
        None \<Rightarrow> Inl invalid_url
      | Some urlObj \<Rightarrow>
          (case baseUrl of
             JStr b \<Rightarrow>
               if \<not> suffix ''.json'' b
               then let base = origin urlObj @ strip_trailing_slashes (pathname urlObj)
                    in Inr [b, base @ ''/.well-known/agent.json'',
                            origin urlObj @ ''/.well-known/agent.json'']
               else Inr [b]
           | _ \<Rightarrow> Inl (ErrorObj ''baseUrl.endsWith is not a function'')))"

definition fetchAgentCard_route ::
  "platform \<Rightarrow> network \<Rightarrow> jsval \<Rightarrow> (string \<times> jsval) list \<Rightarrow> (fetched_card \<times> string list) js" where
  "fetchAgentCard_route P net baseUrl headers =
     bindE (urlsToTry P baseUrl) (\<lambda>urls.
       Inr (try_card_urls P net headers (js_String baseUrl) urls [] []))"


text \<open>
  The body of the \<^verbatim>\<open>switch\<close> of the route: what it assigns to \<^verbatim>\<open>passed\<close>,
  \<^verbatim>\<open>message\<close> and \<^verbatim>\<open>docUrl\<close> for a rule id, on a card that is truthy.  A \<^verbatim>\<open>join\<close> on
  a value that is not an array and a property read on a \<^verbatim>\<open>null\<close> skill throw, which ends
  the whole request.
\<close>

fun mapE :: "('a \<Rightarrow> 'b js) \<Rightarrow> 'a list \<Rightarrow> 'b list js" where
  "mapE f [] = Inr []"
| "mapE f (x # xs) = bindE (f x) (\<lambda>y. bindE (mapE f xs) (\<lambda>ys. Inr (y # ys)))"

definition skill_label :: "jsval \<Rightarrow> jsval js" where
  "skill_label s =
     bindE (get_strict s ''name'') (\<lambda>n. if truthy n then Inr n else get_strict s ''id'')"

definition a2a_route_switch :: "platform \<Rightarrow> jsval \<Rightarrow> string \<Rightarrow> (bool \<times> string \<times> string) js" where
  \<open>a2a_route_switch P agentCard rid =
     (if rid = ''agent-card-name'' then
        (let passed = truthy (get agentCard ''name'') in
         Inr (passed,
              if passed then ''Agent name present: "'' @ js_String (get agentCard ''name'') @ ''"''
              else ''MISSING: Agent card must have "name" field.'',
              if \<not> passed then A2A_SPEC_agentCard else []))
      else if rid = ''agent-card-description'' then
        (let passed = truthy (get agentCard ''description'') in
         Inr (passed,
              if passed then ''Agent description present''
              else ''MISSING: Agent card must have "description" field.'',
              if \<not> passed then A2A_SPEC_agentCard else []))
      else if rid = ''agent-card-url'' then
        (let passed = isValidURL P (get agentCard ''url'') in
         Inr (passed,
              if passed then ''Agent URL valid: '' @ js_String (get agentCard ''url'')
              else ''MISSING: Agent card must have valid "url" field.'',
              if \<not> passed then A2A_SPEC_agentCard else []))
      else if rid = ''agent-card-version'' then
        (let passed = truthy (get agentCard ''version'') in
         Inr (passed,
              if passed then ''Version present: '' @ js_String (get agentCard ''version'')
              else ''MISSING: Agent card must have "version" field.'',
              if \<not> passed then A2A_SPEC_agentCard else []))
      else if rid = ''agent-card-capabilities'' then
        (let passed = truthy (get agentCard ''capabilities'') in
         Inr (passed,
              if passed then ''Capabilities declared''
              else ''MISSING: Agent card should declare "capabilities".'',
              if \<not> passed then A2A_SPEC_agentCard else []))
      else if rid = ''agent-card-skills'' then
        (case get agentCard ''skills'' of
           JArr skills \<Rightarrow>
             if 0 < length skills
             then bindE (mapE skill_label skills) (\<lambda>labels.
                    Inr (True,
                         show_nat (length skills) @ '' skill(s) declared: '' @ join '', '' labels,
                         []))
             else Inr (False,
                       ''MISSING: Agent card should declare "skills" array with at least one skill.'',
                       A2A_SPEC_skills)
         | _ \<Rightarrow> Inr (False,
                     ''MISSING: Agent card should declare "skills" array with at least one skill.'',
                     A2A_SPEC_skills))
      else if rid = ''agent-card-input-modes'' then
        (case get agentCard ''defaultInputModes'' of
           JArr modes \<Rightarrow>
             if 0 < length modes
             then Inr (True, ''Input modes: '' @ join '', '' modes, [])
             else Inr (False,
                       ''Not declared: "defaultInputModes" helps clients know accepted input formats.'',
                       A2A_SPEC_agentCard)
         | _ \<Rightarrow> Inr (False,
                     ''Not declared: "defaultInputModes" helps clients know accepted input formats.'',
                     A2A_SPEC_agentCard))
      else if rid = ''agent-card-output-modes'' then
        (case get agentCard ''defaultOutputModes'' of
           JArr modes \<Rightarrow>
             if 0 < length modes
             then Inr (True, ''Output modes: '' @ join '', '' modes, [])
             else Inr (False,
                       ''Not declared: "defaultOutputModes" helps clients know response formats.'',
                       A2A_SPEC_agentCard)
         | _ \<Rightarrow> Inr (False,
                     ''Not declared: "defaultOutputModes" helps clients know response formats.'',
                     A2A_SPEC_agentCard))
      else if rid = ''agent-card-authentication'' then
        (let schemes = get (get agentCard ''authentication'') ''schemes'';
             passed = js_gt0 P (get schemes ''length'')
         in if passed
            then bindE (call_join ''agentCard.authentication.schemes'' schemes '', '') (\<lambda>joined.
                   Inr (True, ''Authentication schemes: '' @ joined, []))
            else Inr (False, ''MISSING: Agent card must declare "authentication" with schemes.'',
                      A2A_SPEC_authentication))
      else Inr (False, [], []))\<close>

definition a2a_route_check :: "platform \<Rightarrow> jsval \<Rightarrow> spec_rule \<Rightarrow> compliance_result js" where
  "a2a_route_check P agentCard rule =
     bindE (a2a_route_switch P agentCard (sr_id rule)) (\<lambda>(p, msg, doc).
       Inr \<lparr>passed = p, ruleId = sr_id rule, message = msg, severity = sr_severity rule,
            details = None, docUrl = (if doc = [] then None else Some doc)\<rparr>)"

record a2a_route_report =
  ar_timestamp :: string
  ar_protocolVersion :: string
  ar_specUrl :: string
  ar_agentName :: jsval
  ar_results :: "compliance_result list"
  ar_passedCount :: nat
  ar_failedCount :: nat
  ar_warningCount :: nat
  ar_agentCard :: jsval
  ar_resolvedUrl :: string

text \<open>A route answers with a JSON body, or with an error and its HTTP status.\<close>

datatype 'a http_response = Json 'a | ErrorResponse nat string

definition internal_error :: "string \<Rightarrow> thrown \<Rightarrow> 'a http_response" where
  "internal_error dflt e = ErrorResponse 500 (case e of ErrorObj m \<Rightarrow> m | NonError \<Rightarrow> dflt)"

text \<open>
  \<^verbatim>\<open>POST\<close> of the agent-protocol compliance route, on the parsed request body.  Its
  warning count includes the failed results of severity info.
\<close>

definition count_warning_or_info :: "compliance_result list \<Rightarrow> nat" where
  "count_warning_or_info results =
     length (filter (\<lambda>r. \<not> passed r \<and> (severity r = Warning \<or> severity r = Info)) results)"

text \<open>The answer when no card could be fetched: one failed critical result, with the
  counts written as constants.\<close>

definition a2a_fetch_failure_report :: "string \<Rightarrow> fetched_card \<Rightarrow> a2a_route_report" where
  "a2a_fetch_failure_report now fetched =
     \<lparr>ar_timestamp = now, ar_protocolVersion = A2A_SPEC_version,
      ar_specUrl = A2A_SPEC_base, ar_agentName = JStr ''Unknown'',
      ar_results =
        [\<lparr>passed = False, ruleId = ''agent-card-fetch'',
          message = (case fetch_error fetched of
                       Some m \<Rightarrow> (if m = [] then
                          ''Could not fetch agent card from the provided URL.'' else m)
                     | None \<Rightarrow> ''Could not fetch agent card from the provided URL.''),
          severity = Critical, details = None,
          docUrl = Some A2A_SPEC_agentCard\<rparr>],
      ar_passedCount = 0, ar_failedCount = 1, ar_warningCount = 0,
      ar_agentCard = Null, ar_resolvedUrl = resolvedUrl fetched\<rparr>"

text \<open>The answer for a fetched card: the counts are computed from the results.\<close>

definition a2a_route_report_of ::
  "string \<Rightarrow> fetched_card \<Rightarrow> compliance_result list \<Rightarrow> a2a_route_report" where
  "a2a_route_report_of now fetched results =
     \<lparr>ar_timestamp = now, ar_protocolVersion = A2A_SPEC_version,
      ar_specUrl = A2A_SPEC_base,
      ar_agentName = js_or (get (card fetched) ''name'') (JStr ''Unknown''),
      ar_results = results,
      ar_passedCount = count_passed results,
      ar_failedCount = count_failed results,
      ar_warningCount = count_warning_or_info results,
      ar_agentCard = card fetched, ar_resolvedUrl = resolvedUrl fetched\<rparr>"

definition a2a_route_run :: "platform \<Rightarrow> network \<Rightarrow> string \<Rightarrow> jsval \<Rightarrow> a2a_route_report http_response js" where
  "a2a_route_run P net now body =
     bindE (destructure body ''agentCardUrl'') (\<lambda>_.
       let agentCardUrl = get body ''agentCardUrl'';
           authType = get body ''authType''; authValue = get body ''authValue'';
           authHeader = get body ''authHeader''
       in if \<not> truthy agentCardUrl then Inr (ErrorResponse 400 ''Agent Card URL required'')
          else
            bindE (auth_headers P authType authValue authHeader []) (\<lambda>headers.
            bindE (fetchAgentCard_route P net agentCardUrl headers) (\<lambda>(fetched, requested).
              let agentCard = card fetched in
              if \<not> truthy agentCard
              then Inr (Json (a2a_fetch_failure_report now fetched))
              else
                bindE (mapE (a2a_route_check P agentCard) A2A_ROUTE_RULES) (\<lambda>results.
                  Inr (Json (a2a_route_report_of now fetched results))))))"

definition a2a_route_POST :: "platform \<Rightarrow> network \<Rightarrow> string \<Rightarrow> jsval \<Rightarrow> a2a_route_report http_response" where
  "a2a_route_POST P net now body =
     (case a2a_route_run P net now body of
        Inr r \<Rightarrow> r
      | Inl e \<Rightarrow> internal_error ''Validation failed'' e)"


section \<open>The tool-protocol compliance route\<close>

definition MCP_SPEC_version :: string where "MCP_SPEC_version = ''2024-11-05''"
definition MCP_SPEC_base :: string where "MCP_SPEC_base = ''https://modelcontextprotocol.io''"
definition MCP_SPEC_initialize :: string where
  "MCP_SPEC_initialize = ''https://modelcontextprotocol.io/docs/basic-concepts/''"
definition MCP_SPEC_authentication :: string where
  "MCP_SPEC_authentication = ''https://modelcontextprotocol.io/docs/authentication/''"
definition MCP_SPEC_capabilities :: string where
  "MCP_SPEC_capabilities = ''https://modelcontextprotocol.io/docs/capabilities/''"

definition MCP_ROUTE_RULES :: "spec_rule list" where
  "MCP_ROUTE_RULES =
   [\<lparr>sr_id = ''protocol-version'', sr_name = ''Protocol Version'', sr_severity = Critical\<rparr>,
    \<lparr>sr_id = ''server-info'', sr_name = ''Server Info'', sr_severity = Critical\<rparr>,
    \<lparr>sr_id = ''capabilities-object'', sr_name = ''Capabilities Object'', sr_severity = Warning\<rparr>,
    \<lparr>sr_id = ''tools-capability'', sr_name = ''Tools Capability'', sr_severity = Info\<rparr>,
    \<lparr>sr_id = ''resources-capability'', sr_name = ''Resources Capability'', sr_severity = Info\<rparr>,
    \<lparr>sr_id = ''initialize-method'', sr_name = ''Initialize Method'', sr_severity = Critical\<rparr>,
    \<lparr>sr_id = ''ping-method'', sr_name = ''Ping Method'', sr_severity = Info\<rparr>,
    \<lparr>sr_id = ''authentication'', sr_name = ''Authentication'', sr_severity = Critical\<rparr>]"

text \<open>\<^verbatim>\<open>extractMCPResult\<close>: the payload the rules read, and the raw value for display.\<close>

definition extractMCPResult :: "jsval \<Rightarrow> jsval \<times> jsval" where
  "extractMCPResult json =
     (if truthy (get json ''jsonrpc'') \<and> truthy (get json ''result'') \<and>
         typeof_object (get json ''result'')
      then (get json ''result'', json)
      else if truthy (get json ''jsonrpc'') \<and> truthy (get json ''error'')
      then (Null, json)
      else (json, json))"

text \<open>\<^verbatim>\<open>text.split('\n')\<close>\<close>

fun split_on :: "char \<Rightarrow> string \<Rightarrow> string list" where
  "split_on c [] = [[]]"
| "split_on c (x # xs) =
     (if x = c then [] # split_on c xs
      else case split_on c xs of y # ys \<Rightarrow> (x # y) # ys | [] \<Rightarrow> [[x]])"

text \<open>The characters \<^verbatim>\<open>\s\<close> matches, among the code units below 256.\<close>

definition spaces :: string where
  "spaces = [CHR 0x09, CHR 0x0A, CHR 0x0B, CHR 0x0C, CHR 0x0D, CHR 0x20, CHR 0xA0]"

definition is_space :: "char \<Rightarrow> bool" where
  "is_space c = (c \<in> set spaces)"

text \<open>\<^verbatim>\<open>text.split('\n').find(l => l.startsWith('data:'))\<close>\<close>

definition find_data_line :: "string \<Rightarrow> string option" where
  "find_data_line txt = List.find (\<lambda>l. prefix ''data:'' l) (split_on (CHR 0x0A) txt)"

text \<open>\<^verbatim>\<open>dataLine.replace(/^data:\s*/, '')\<close> on a line that starts with \<^verbatim>\<open>data:\<close>\<close>

definition strip_data_prefix :: "string \<Rightarrow> string" where
  "strip_data_prefix l = dropWhile is_space (drop 5 l)"

definition response_json :: "platform \<Rightarrow> response \<Rightarrow> jsval js" where
  "response_json P r = bindE (resp_text r) (JSON_parse P)"

text \<open>
  Reading a response that may be a server-sent event stream: the first data line of the
  stream, or the JSON body.  Without a data line the initialize attempts keep the text,
  the ping reads \<^verbatim>\<open>null\<close>: \<open>no_line\<close> is that value.
\<close>

definition read_body :: "platform \<Rightarrow> (string \<Rightarrow> jsval) \<Rightarrow> response \<Rightarrow> jsval js" where
  "read_body P no_line r =
     (if sublist ''text/event-stream'' (content_type_of r)
      then bindE (resp_text r) (\<lambda>txt.
             case find_data_line txt of
               Some dataLine \<Rightarrow> JSON_parse P (strip_data_prefix dataLine)
             | None \<Rightarrow> Inr (no_line txt))
      else response_json P r)"

definition rawSSE :: "string \<Rightarrow> jsval" where
  "rawSSE txt = JObj [(''_rawSSE'', JStr txt)]"

definition initialize_body :: string where
  \<open>initialize_body = ''{"jsonrpc":"2.0","id":1,"method":"initialize","params":{"protocolVersion":"2024-11-05","capabilities":{},"clientInfo":{"name":"protocol-guard","version":"1.0.0"}}}''\<close>

definition ping_body :: string where
  \<open>ping_body = ''{"jsonrpc":"2.0","id":99,"method":"ping"}''\<close>

definition mcp_base_headers :: "(string \<times> jsval) list" where
  "mcp_base_headers = [(''Content-Type'', JStr ''application/json''),
                       (''Accept'', JStr ''application/json, text/event-stream'')]"

text \<open>The state the connection attempt leaves behind for the rules.\<close>

record mcp_probe =
  serverResponse :: jsval
  rawServerResponse :: jsval
  authTested :: bool
  authPassed :: bool

text \<open>The first attempt, inside its \<^verbatim>\<open>try\<close>: a thrown error leads to the fallback.\<close>

definition mcp_first_attempt ::
  "platform \<Rightarrow> network \<Rightarrow> string \<Rightarrow> (string \<times> jsval) list \<Rightarrow> jsval \<Rightarrow> mcp_probe js" where
  "mcp_first_attempt P net serverUrl headers authType =
     bindE (net \<lparr>req_url = serverUrl, req_method = ''POST'', req_headers = headers,
                 req_body = Some initialize_body\<rparr>) (\<lambda>response.
       if status response = 401 \<or> status response = 403
       then let raw = [(''_httpStatus'', JNum (int (status response))),
                       (''_statusText'', JStr (statusText response))]
            in Inr \<lparr>serverResponse = Null,
                    rawServerResponse =
                      (case response_json P response of
                         Inr b \<Rightarrow> JObj (raw @ [(''_body'', b)])
                       | Inl e \<Rightarrow> JObj raw),
                    authTested = True, authPassed = False\<rparr>
       else bindE (read_body P rawSSE response) (\<lambda>json.
              let (parsed, raw) = extractMCPResult json in
              if truthy authType \<and> authType \<noteq> JStr ''none''
              then Inr \<lparr>serverResponse = parsed, rawServerResponse = raw, authTested = True,
                        authPassed = truthy (get parsed ''serverInfo'')\<rparr>
              else Inr \<lparr>serverResponse = parsed, rawServerResponse = raw, authTested = False,
                        authPassed = False\<rparr>))"

text \<open>The fallback without credentials, in the \<^verbatim>\<open>catch\<close> of the first attempt.\<close>

definition mcp_fallback :: "platform \<Rightarrow> network \<Rightarrow> string \<Rightarrow> thrown \<Rightarrow> mcp_probe" where
  \<open>mcp_fallback P net serverUrl err =
     (let connectionError =
            (case err of ErrorObj m \<Rightarrow> (if m = [] then ''Connection failed'' else m)
                       | NonError \<Rightarrow> ''Connection failed'')
      in case bindE (net \<lparr>req_url = serverUrl, req_method = ''POST'',
                           req_headers = mcp_base_headers,
                           req_body = Some initialize_body\<rparr>) (read_body P rawSSE) of
           Inr json \<Rightarrow>
             (let (parsed, raw) = extractMCPResult json in
              \<lparr>serverResponse = parsed, rawServerResponse = raw, authTested = False,
               authPassed = False\<rparr>)
         | Inl e \<Rightarrow>
             \<lparr>serverResponse = Null,
              rawServerResponse = JObj [(''_error'', JStr connectionError),
                 (''_hint'', JStr ''Could not connect to MCP server. Verify the URL and that the server accepts JSON-RPC POST requests.'')],
              authTested = False, authPassed = False\<rparr>)\<close>

definition mcp_connect ::
  "platform \<Rightarrow> network \<Rightarrow> string \<Rightarrow> (string \<times> jsval) list \<Rightarrow> jsval \<Rightarrow> mcp_probe" where
  "mcp_connect P net serverUrl headers authType =
     (case mcp_first_attempt P net serverUrl headers authType of
        Inr probe \<Rightarrow> probe
      | Inl err \<Rightarrow> mcp_fallback P net serverUrl err)"

text \<open>The ping, sent only when the initialize payload is truthy: whether it passed and
  the message.  Without a ping both stay at their initial values.\<close>

definition mcp_ping ::
  "platform \<Rightarrow> network \<Rightarrow> string \<Rightarrow> (string \<times> jsval) list \<Rightarrow> jsval \<Rightarrow> bool \<times> string" where
  \<open>mcp_ping P net serverUrl headers sr =
     (if truthy sr
      then (case bindE (net \<lparr>req_url = serverUrl, req_method = ''POST'', req_headers = headers,
                             req_body = Some ping_body\<rparr>) (read_body P (\<lambda>txt. Null)) of
              Inr pingJson \<Rightarrow>
                if get pingJson ''jsonrpc'' = JStr ''2.0'' \<and> get pingJson ''id'' = JNum 99 \<and>
                   \<not> truthy (get pingJson ''error'')
                then (True, ''Server responds to JSON-RPC "ping" method'')
                else if truthy (get pingJson ''error'')
                then (False, ''Server returned error for ping: '' @
                        js_String (js_or (get (get pingJson ''error'') ''message'')
                                         (JStr ''method not found'')))
                else (False, ''Unexpected response format for ping method'')
            | Inl e \<Rightarrow>
                (False, ''Ping request failed or timed out (server may not implement ping)''))
      else (False, []))\<close>

definition mcp_route_switch ::
  "jsval \<Rightarrow> mcp_probe \<Rightarrow> bool \<times> string \<Rightarrow> string \<Rightarrow> bool \<times> string \<times> string" where
  \<open>mcp_route_switch authType probe ping rid =
     (let sr = serverResponse probe in
      if rid = ''protocol-version'' then
        (if truthy (get sr ''protocolVersion'')
         then (True, ''Protocol version present: "'' @ js_String (get sr ''protocolVersion'') @ ''"'', [])
         else (False, ''MISSING: Server must return "protocolVersion" in initialize response.'',
               MCP_SPEC_initialize))
      else if rid = ''server-info'' then
        (if truthy (get (get sr ''serverInfo'') ''name'') \<and>
            truthy (get (get sr ''serverInfo'') ''version'')
         then (True, ''Server info present: "'' @ js_String (get (get sr ''serverInfo'') ''name'') @
                     ''" v'' @ js_String (get (get sr ''serverInfo'') ''version''), [])
         else (False, ''MISSING: Server must return "serverInfo" with "name" and "version".'',
               MCP_SPEC_initialize))
      else if rid = ''capabilities-object'' then
        (if typeof_object (get sr ''capabilities'')
         then (True, ''Capabilities object present'', [])
         else (False, ''MISSING: Server must return a "capabilities" object.'',
               MCP_SPEC_capabilities))
      else if rid = ''tools-capability'' then
        (if truthy (get (get sr ''capabilities'') ''tools'')
         then (True, ''Tools capability declared'', [])
         else (True, ''Tools not declared (optional)'', MCP_SPEC_capabilities))
      else if rid = ''resources-capability'' then
        (if truthy (get (get sr ''capabilities'') ''resources'')
         then (True, ''Resources capability declared'', [])
         else (True, ''Resources not declared (optional)'', MCP_SPEC_capabilities))
      else if rid = ''initialize-method'' then
        (if truthy (get sr ''serverInfo'')
         then (True, ''Initialize request handled correctly'', [])
         else (False, ''FAILED: Server did not handle the "initialize" JSON-RPC request.'',
               MCP_SPEC_initialize))
      else if rid = ''ping-method'' then
        (fst ping,
         if snd ping = [] then ''Ping not tested (initialize failed)'' else snd ping,
         if \<not> fst ping then MCP_SPEC_initialize else [])
      else if rid = ''authentication'' then
        (if \<not> truthy authType \<or> authType = JStr ''none''
         then (True, ''No authentication configured'', MCP_SPEC_authentication)
         else if authTested probe
         then (if authPassed probe
               then (True, ''Authentication ('' @ js_String authType @ '') accepted'', [])
               else (False, ''AUTH FAILED: Server returned 401/403.'', MCP_SPEC_authentication))
         else (True, ''Authentication ('' @ js_String authType @ '') configured but couldn'' @
                     [CHR 0x27] @ ''t verify'', []))
      else (False, [], []))\<close>

definition mcp_route_check ::
  "jsval \<Rightarrow> mcp_probe \<Rightarrow> bool \<times> string \<Rightarrow> spec_rule \<Rightarrow> compliance_result" where
  "mcp_route_check authType probe ping rule =
     (case mcp_route_switch authType probe ping (sr_id rule) of
        (p, msg, doc) \<Rightarrow>
          \<lparr>passed = p, ruleId = sr_id rule, message = msg, severity = sr_severity rule,
           details = None, docUrl = (if doc = [] then None else Some doc)\<rparr>)"

record mcp_route_report =
  mr_timestamp :: string
  mr_protocolVersion :: string
  mr_specUrl :: string
  mr_serverName :: jsval
  mr_results :: "compliance_result list"
  mr_passedCount :: nat
  mr_failedCount :: nat
  mr_warningCount :: nat
  mr_serverResponse :: jsval

text \<open>The report the route answers with: the counts are computed from the results.\<close>

definition mcp_route_report_of ::
  "string \<Rightarrow> mcp_probe \<Rightarrow> compliance_result list \<Rightarrow> mcp_route_report" where
  "mcp_route_report_of now probe results =
     \<lparr>mr_timestamp = now, mr_protocolVersion = MCP_SPEC_version,
      mr_specUrl = MCP_SPEC_base,
      mr_serverName =
        js_or (get (get (serverResponse probe) ''serverInfo'') ''name'') (JStr ''Unknown''),
      mr_results = results,
      mr_passedCount = count_passed results,
      mr_failedCount = count_failed results,
      mr_warningCount = count_warning results,
      mr_serverResponse = js_or (rawServerResponse probe) Null\<rparr>"

definition mcp_route_run ::
  "platform \<Rightarrow> network \<Rightarrow> string \<Rightarrow> jsval \<Rightarrow> mcp_route_report http_response js" where
  "mcp_route_run P net now body =
     bindE (destructure body ''serverUrl'') (\<lambda>_.
       let serverUrl = get body ''serverUrl'';
           authType = get body ''authType''; authValue = get body ''authValue'';
           authHeader = get body ''authHeader''
       in if \<not> truthy serverUrl then Inr (ErrorResponse 400 ''Server URL required'')
          else
            bindE (auth_headers P authType authValue authHeader mcp_base_headers) (\<lambda>headers.
              let probe = mcp_connect P net (js_String serverUrl) headers authType;
                  ping = mcp_ping P net (js_String serverUrl) headers (serverResponse probe);
                  results = map (mcp_route_check authType probe ping) MCP_ROUTE_RULES
              in Inr (Json (mcp_route_report_of now probe results))))"

definition mcp_route_POST ::
  "platform \<Rightarrow> network \<Rightarrow> string \<Rightarrow> jsval \<Rightarrow> mcp_route_report http_response" where
  "mcp_route_POST P net now body =
     (case mcp_route_run P net now body of
        Inr r \<Rightarrow> r
      | Inl e \<Rightarrow> internal_error ''Test failed'' e)"


section \<open>The commerce-profile compliance route\<close>

definition UCP_SPEC_latestVersion :: string where "UCP_SPEC_latestVersion = ''2026-01-23''"
definition UCP_SPEC_specUrl :: string where
  "UCP_SPEC_specUrl = ''https://ucp.dev/latest/specification/overview''"
definition UCP_SPEC_repoUrl :: string where
  "UCP_SPEC_repoUrl = ''https://github.com/Universal-Commerce-Protocol/ucp''"

definition lowers :: string where "lowers = ''abcdefghijklmnopqrstuvwxyz''"
definition uppers :: string where "uppers = ''ABCDEFGHIJKLMNOPQRSTUVWXYZ''"
definition digits :: string where "digits = ''0123456789''"

definition is_digit :: "char \<Rightarrow> bool" where
  "is_digit c = (c \<in> set digits)"

definition is_lower :: "char \<Rightarrow> bool" where
  "is_lower c = (c \<in> set lowers)"

text \<open>\<^verbatim>\<open>DATE_REGEX.test(s)\<close> for \<^verbatim>\<open>/^\d{4}-\d{2}-\d{2}$/\<close>: four digits, two digits and
  two digits, separated by hyphens, and nothing else.\<close>

definition DATE_REGEX_test :: "string \<Rightarrow> bool" where
  "DATE_REGEX_test s =
     (length s = 10 \<and> list_all is_digit (take 4 s) \<and> s ! 4 = CHR ''-'' \<and>
      list_all is_digit (take 2 (drop 5 s)) \<and> s ! 7 = CHR ''-'' \<and>
      list_all is_digit (drop 8 s))"

text \<open>\<^verbatim>\<open>NAMESPACE_REGEX.test(s)\<close> for \<^verbatim>\<open>/^[a-z][a-z0-9-]*(\.[a-z][a-z0-9-]*){2,}$/\<close>: at
  least three segments between dots, each a lower-case letter followed by lower-case
  letters, digits and hyphens.\<close>

definition namespace_segment :: "string \<Rightarrow> bool" where
  "namespace_segment seg =
     (case seg of [] \<Rightarrow> False
      | c # cs \<Rightarrow> is_lower c \<and> list_all (\<lambda>d. is_lower d \<or> is_digit d \<or> d = CHR ''-'') cs)"

definition NAMESPACE_REGEX_test :: "string \<Rightarrow> bool" where
  "NAMESPACE_REGEX_test s =
     (let segs = split_on (CHR ''.'') s in 3 \<le> length segs \<and> list_all namespace_segment segs)"

definition str_array :: "string list \<Rightarrow> jsval" where
  "str_array xs = JArr (map JStr xs)"

text \<open>The keys of a value that is truthy and of type object, none otherwise.\<close>

definition object_keys_or_none :: "jsval \<Rightarrow> string list" where
  "object_keys_or_none v = (if truthy v \<and> typeof_object v then keys v else [])"

definition ucp_route_root :: "jsval \<Rightarrow> compliance_result" where
  \<open>ucp_route_root ucp =
     \<lparr>passed = (truthy ucp \<and> typeof_object ucp), ruleId = ''ucp-profile-root'',
      message = (if truthy ucp then ''Top-level "ucp" object present''
                 else ''Missing top-level "ucp" object in the profile''),
      severity = Critical, details = None,
      docUrl = Some (UCP_SPEC_specUrl @ ''#business-profile'')\<rparr>\<close>

definition ucp_route_version :: "jsval \<Rightarrow> compliance_result" where
  \<open>ucp_route_version ucp =
     (let version = get ucp ''version'';
          versionValid = (truthy version \<and> DATE_REGEX_test (js_String version))
      in \<lparr>passed = versionValid, ruleId = ''ucp-version'',
          message = (if versionValid then ''UCP version: '' @ js_String version
                     else if truthy version
                     then ''Invalid version format "'' @ js_String version @ ''" '' @ emdash @
                          '' expected YYYY-MM-DD''
                     else ''Missing ucp.version field''),
          severity = Critical, details = Some (JObj [(''version'', version)]),
          docUrl = Some (UCP_SPEC_specUrl @ ''#versioning'')\<rparr>)\<close>

definition ucp_route_services_present :: "string list \<Rightarrow> compliance_result" where
  "ucp_route_services_present serviceKeys =
     \<lparr>passed = (0 < length serviceKeys), ruleId = ''ucp-services-present'',
      message = (if 0 < length serviceKeys
                 then show_nat (length serviceKeys) @ '' service(s) declared: '' @
                      intercalate '', '' serviceKeys
                 else ''Missing or empty ucp.services object''),
      severity = Critical, details = None, docUrl = Some (UCP_SPEC_specUrl @ ''#services'')\<rparr>"

definition ucp_route_service_namespace :: "string list \<Rightarrow> compliance_result" where
  "ucp_route_service_namespace serviceKeys =
     (let invalidServiceNs = filter (\<lambda>k. \<not> NAMESPACE_REGEX_test k) serviceKeys
      in \<lparr>passed = (length invalidServiceNs = 0 \<and> 0 < length serviceKeys),
          ruleId = ''ucp-service-namespace'',
          message = (if length invalidServiceNs = 0
                     then ''All service keys follow reverse-domain notation''
                     else ''Invalid service namespace(s): '' @ intercalate '', '' invalidServiceNs),
          severity = Critical,
          details = Some (JObj [(''invalidKeys'', str_array invalidServiceNs)]),
          docUrl = Some (UCP_SPEC_specUrl @ ''#namespace-governance'')\<rparr>)"

text \<open>The service version-format rule of the route (its fifth check).\<close>

definition bad_version :: "jsval \<Rightarrow> bool" where
  "bad_version s = (\<not> truthy (get s ''version'') \<or> \<not> DATE_REGEX_test (js_String (get s ''version'')))"

definition ucp_route_service_version :: "jsval \<Rightarrow> string list \<Rightarrow> compliance_result" where
  "ucp_route_service_version services serviceKeys =
     (let badVersionSvc = filter (\<lambda>k. bad_version (get services k)) serviceKeys
      in \<lparr>passed = (length badVersionSvc = 0), ruleId = ''ucp-service-version'',
          message = (if length badVersionSvc = 0
                     then ''All services have valid YYYY-MM-DD versions''
                     else show_nat (length badVersionSvc) @
                          '' service(s) missing valid version: '' @
                          intercalate '', '' badVersionSvc),
          severity = Critical, details = Some (JObj [(''invalid'', str_array badVersionSvc)]),
          docUrl = Some (UCP_SPEC_specUrl @ ''#services'')\<rparr>)"

definition ucp_route_service_spec :: "jsval \<Rightarrow> string list \<Rightarrow> compliance_result" where
  "ucp_route_service_spec services serviceKeys =
     (let missingSpec = filter (\<lambda>k. \<not> truthy (get (get services k) ''spec'')) serviceKeys
      in \<lparr>passed = (length missingSpec = 0), ruleId = ''ucp-service-spec'',
          message = (if length missingSpec = 0 then ''All services have spec URLs''
                     else show_nat (length missingSpec) @ '' service(s) missing spec URL: '' @
                          intercalate '', '' missingSpec),
          severity = Critical, details = Some (JObj [(''missing'', str_array missingSpec)]),
          docUrl = Some (UCP_SPEC_specUrl @ ''#services'')\<rparr>)"

definition no_transport :: "jsval \<Rightarrow> bool" where
  "no_transport t =
     (if \<not> truthy t \<or> \<not> typeof_object t then True
      else \<not> (truthy (get t ''rest'') \<or> truthy (get t ''mcp'') \<or> truthy (get t ''a2a'') \<or>
              truthy (get t ''embedded'')))"

definition transport_info :: "string \<Rightarrow> jsval \<Rightarrow> jsval" where
  "transport_info name t =
     JObj [(''name'', JStr name), (''rest'', JBool (truthy (get t ''rest''))),
           (''mcp'', JBool (truthy (get t ''mcp''))), (''a2a'', JBool (truthy (get t ''a2a''))),
           (''embedded'', JBool (truthy (get t ''embedded'')))]"

definition ucp_route_service_transport :: "jsval \<Rightarrow> string list \<Rightarrow> compliance_result" where
  "ucp_route_service_transport services serviceKeys =
     (let noTransport = filter (\<lambda>k. no_transport (get (get services k) ''transport'')) serviceKeys;
          transportsInfo =
            map (\<lambda>k. transport_info k (js_or (get (get services k) ''transport'') (JObj [])))
                serviceKeys
      in \<lparr>passed = (length noTransport = 0), ruleId = ''ucp-service-transport'',
          message = (if length noTransport = 0 then ''All services have transport bindings''
                     else show_nat (length noTransport) @
                          '' service(s) missing transport bindings: '' @
                          intercalate '', '' noTransport),
          severity = Critical, details = Some (JObj [(''transports'', JArr transportsInfo)]),
          docUrl = Some (UCP_SPEC_specUrl @ ''#transport-layer'')\<rparr>)"

text \<open>The endpoints of one service that are declared and do not start with
  \<^verbatim>\<open>https://\<close>, as the route names them.\<close>

definition insecure_endpoint :: "jsval \<Rightarrow> string \<Rightarrow> bool" where
  "insecure_endpoint t binding =
     (truthy (get (get t binding) ''endpoint'') \<and>
      \<not> prefix ''https://'' (js_String (get (get t binding) ''endpoint'')))"

definition insecure_of_service :: "string \<Rightarrow> jsval \<Rightarrow> string list" where
  "insecure_of_service k t =
     (if \<not> truthy t then []
      else (if insecure_endpoint t ''rest'' then [k @ '' REST''] else []) @
           (if insecure_endpoint t ''mcp'' then [k @ '' MCP''] else []) @
           (if insecure_endpoint t ''a2a'' then [k @ '' A2A''] else []))"

definition ucp_route_endpoints_https :: "jsval \<Rightarrow> string list \<Rightarrow> compliance_result" where
  "ucp_route_endpoints_https services serviceKeys =
     (let insecure =
            concat (map (\<lambda>k. insecure_of_service k (get (get services k) ''transport'')) serviceKeys)
      in \<lparr>passed = (length insecure = 0), ruleId = ''ucp-endpoints-https'',
          message = (if length insecure = 0 then ''All transport endpoints use HTTPS''
                     else ''Non-HTTPS endpoint(s): '' @ intercalate '', '' insecure),
          severity = Critical, details = Some (JObj [(''insecure'', str_array insecure)]),
          docUrl = Some (UCP_SPEC_specUrl @ ''#security'')\<rparr>)"

definition ucp_route_capabilities_present :: "string list \<Rightarrow> compliance_result" where
  "ucp_route_capabilities_present capKeys =
     \<lparr>passed = (0 < length capKeys), ruleId = ''ucp-capabilities-present'',
      message = (if 0 < length capKeys
                 then show_nat (length capKeys) @ '' capability(ies) declared: '' @
                      intercalate '', '' capKeys
                 else ''Missing or empty ucp.capabilities object''),
      severity = Critical, details = Some (JObj [(''count'', JNum (int (length capKeys)))]),
      docUrl = Some (UCP_SPEC_specUrl @ ''#capabilities'')\<rparr>"

definition ucp_route_capability_namespace :: "string list \<Rightarrow> compliance_result" where
  "ucp_route_capability_namespace capKeys =
     (let invalidCapNs = filter (\<lambda>k. \<not> NAMESPACE_REGEX_test k) capKeys
      in \<lparr>passed = (length invalidCapNs = 0 \<and> 0 < length capKeys),
          ruleId = ''ucp-capability-namespace'',
          message = (if length invalidCapNs = 0
                     then ''All capability keys follow reverse-domain notation''
                     else ''Invalid capability namespace(s): '' @ intercalate '', '' invalidCapNs),
          severity = Critical, details = Some (JObj [(''invalidKeys'', str_array invalidCapNs)]),
          docUrl = Some (UCP_SPEC_specUrl @ ''#namespace-governance'')\<rparr>)"

definition ucp_route_capability_version :: "jsval \<Rightarrow> string list \<Rightarrow> compliance_result" where
  "ucp_route_capability_version caps capKeys =
     (let badVersionCap = filter (\<lambda>k. bad_version (get caps k)) capKeys
      in \<lparr>passed = (length badVersionCap = 0), ruleId = ''ucp-capability-version'',
          message = (if length badVersionCap = 0
                     then ''All capabilities have valid YYYY-MM-DD versions''
                     else show_nat (length badVersionCap) @
                          '' capability(ies) missing valid version''),
          severity = Critical, details = Some (JObj [(''invalid'', str_array badVersionCap)]),
          docUrl = Some (UCP_SPEC_specUrl @ ''#capabilities'')\<rparr>)"

definition ucp_route_capability_spec :: "jsval \<Rightarrow> string list \<Rightarrow> compliance_result" where
  "ucp_route_capability_spec caps capKeys =
     (let missingCapSpec = filter (\<lambda>k. \<not> truthy (get (get caps k) ''spec'')) capKeys
      in \<lparr>passed = (length missingCapSpec = 0), ruleId = ''ucp-capability-spec'',
          message = (if length missingCapSpec = 0 then ''All capabilities have spec URLs''
                     else show_nat (length missingCapSpec) @
                          '' capability(ies) missing spec URL''),
          severity = Critical, details = Some (JObj [(''missing'', str_array missingCapSpec)]),
          docUrl = Some (UCP_SPEC_specUrl @ ''#capabilities'')\<rparr>)"

definition ucp_route_capability_schema :: "jsval \<Rightarrow> string list \<Rightarrow> compliance_result" where
  "ucp_route_capability_schema caps capKeys =
     (let missingCapSchema = filter (\<lambda>k. \<not> truthy (get (get caps k) ''schema'')) capKeys
      in \<lparr>passed = (length missingCapSchema = 0), ruleId = ''ucp-capability-schema'',
          message = (if length missingCapSchema = 0 then ''All capabilities have schema URLs''
                     else show_nat (length missingCapSchema) @
                          '' capability(ies) missing schema URL''),
          severity = Critical, details = Some (JObj [(''missing'', str_array missingCapSchema)]),
          docUrl = Some (UCP_SPEC_specUrl @ ''#capabilities'')\<rparr>)"

text \<open>The extension rule is pushed only when some capability extends another.\<close>

definition ucp_route_capability_extends :: "jsval \<Rightarrow> string list \<Rightarrow> compliance_result list" where
  "ucp_route_capability_extends caps capKeys =
     (let extensions = filter (\<lambda>k. truthy (get (get caps k) ''extends'')) capKeys
      in if 0 < length extensions
         then let orphans =
                    filter (\<lambda>k. js_String (get (get caps k) ''extends'') \<notin> set capKeys) extensions
              in [\<lparr>passed = (length orphans = 0), ruleId = ''ucp-capability-extends'',
                   message = (if length orphans = 0
                              then show_nat (length extensions) @
                                   '' extension(s) all reference valid parents''
                              else ''Orphan extension(s): '' @ intercalate '', '' orphans),
                   severity = Warning,
                   details = Some (JObj [(''orphans'',
                       JArr (map (\<lambda>k. JObj [(''key'', JStr k),
                                              (''extends'', get (get caps k) ''extends'')]) orphans))]),
                   docUrl = Some (UCP_SPEC_specUrl @ ''#extensions'')\<rparr>]
         else [])"

definition bad_handler :: "jsval \<Rightarrow> bool" where
  "bad_handler h = (\<not> truthy (get h ''version'') \<or> \<not> truthy (get h ''spec'') \<or>
                    \<not> truthy (get h ''schema''))"

definition ucp_route_payment_handlers :: "jsval \<Rightarrow> compliance_result" where
  "ucp_route_payment_handlers handlers =
     (if truthy handlers \<and> typeof_object handlers \<and> 0 < length (keys handlers)
      then let handlerKeys = keys handlers;
               badHandlers = filter (\<lambda>k. bad_handler (get handlers k)) handlerKeys
           in \<lparr>passed = (length badHandlers = 0), ruleId = ''ucp-payment-handlers'',
               message = (if length badHandlers = 0
                          then show_nat (length handlerKeys) @ '' payment handler(s) fully specified''
                          else show_nat (length badHandlers) @
                               '' payment handler(s) missing required fields''),
               severity = Warning,
               details = Some (JObj [(''total'', JNum (int (length handlerKeys))),
                                     (''invalid'', str_array badHandlers)]),
               docUrl = Some (UCP_SPEC_specUrl @ ''#payment-architecture'')\<rparr>
      else \<lparr>passed = True, ruleId = ''ucp-payment-handlers'',
            message = ''No payment handlers declared (optional)'',
            severity = Info, details = None, docUrl = None\<rparr>)"

definition ucp_route_signing_keys :: "jsval \<Rightarrow> compliance_result" where
  "ucp_route_signing_keys signingKeys =
     (case signingKeys of
        JArr ks \<Rightarrow>
          if 0 < length ks
          then let badKeys = filter (\<lambda>k. \<not> truthy (get k ''kty'')) ks
               in \<lparr>passed = (length badKeys = 0), ruleId = ''ucp-signing-keys'',
                   message = (if length badKeys = 0
                              then show_nat (length ks) @ '' signing key(s) in valid JWK format''
                              else show_nat (length badKeys) @ '' signing key(s) missing kty field''),
                   severity = Info, details = Some (JObj [(''count'', JNum (int (length ks)))]),
                   docUrl = Some (UCP_SPEC_specUrl @ ''#security'')\<rparr>
          else \<lparr>passed = True, ruleId = ''ucp-signing-keys'',
                message = ''No signing keys declared (optional, used for webhook verification)'',
                severity = Info, details = None, docUrl = None\<rparr>
      | _ \<Rightarrow> \<lparr>passed = True, ruleId = ''ucp-signing-keys'',
               message = ''No signing keys declared (optional, used for webhook verification)'',
               severity = Info, details = None, docUrl = None\<rparr>)"

text \<open>The namespace authority of a key: its second and first segments, when it has two.\<close>

definition authority_of :: "string \<Rightarrow> string" where
  "authority_of k =
     (let parts = split_on (CHR ''.'') k
      in if 2 \<le> length parts then parts ! 1 @ ''.'' @ parts ! 0 else [])"

definition route_mismatch :: "platform \<Rightarrow> string \<Rightarrow> jsval \<Rightarrow> string list" where
  "route_mismatch P k specUrl =
     (case specUrl of
        JStr u \<Rightarrow>
          if u \<noteq> []
          then (case URL_parse P u of
                  None \<Rightarrow> []
                | Some parsed \<Rightarrow>
                    let specHost = hostname parsed; authority = authority_of k
                    in if authority \<noteq> [] \<and> \<not> suffix authority specHost
                       then [k @ '' '' @ arrow @ '' '' @ specHost] else [])
          else []
      | _ \<Rightarrow> [])"

definition ucp_route_spec_binding :: "platform \<Rightarrow> jsval \<Rightarrow> string list \<Rightarrow> compliance_result" where
  "ucp_route_spec_binding P services serviceKeys =
     (let mismatches = concat (map (\<lambda>k. route_mismatch P k (get (get services k) ''spec'')) serviceKeys)
      in \<lparr>passed = (length mismatches = 0), ruleId = ''ucp-spec-binding'',
          message = (if length mismatches = 0 then ''All spec URLs match their namespace authority''
                     else ''Mismatched spec binding(s): '' @ intercalate ''; '' mismatches),
          severity = Warning, details = Some (JObj [(''mismatches'', str_array mismatches)]),
          docUrl = Some (UCP_SPEC_specUrl @ ''#namespace-governance'')\<rparr>)"

definition ucp_route_vendor_namespace :: "string list \<Rightarrow> compliance_result" where
  "ucp_route_vendor_namespace capKeys =
     (let standard = filter (\<lambda>k. prefix ''dev.ucp.'' k) capKeys;
          vendor = filter (\<lambda>k. \<not> prefix ''dev.ucp.'' k) capKeys
      in \<lparr>passed = True, ruleId = ''ucp-vendor-namespace'',
          message = (if 0 < length vendor
                     then show_nat (length vendor) @ '' vendor capability(ies), '' @
                          show_nat (length standard) @ '' standard (dev.ucp.*)''
                     else ''All '' @ show_nat (length standard) @
                          '' capability(ies) use standard dev.ucp.* namespace''),
          severity = Info,
          details = Some (JObj [(''standard'', JNum (int (length standard))),
                                (''vendor'', JNum (int (length vendor)))]),
          docUrl = Some (UCP_SPEC_specUrl @ ''#namespace-governance'')\<rparr>)"

text \<open>\<^verbatim>\<open>runComplianceChecks\<close>: reading \<^verbatim>\<open>profile.ucp\<close> throws on a profile that is
  \<^verbatim>\<open>null\<close>.\<close>

definition runComplianceChecks :: "platform \<Rightarrow> jsval \<Rightarrow> compliance_result list js" where
  "runComplianceChecks P profile =
     bindE (get_strict profile ''ucp'') (\<lambda>ucp.
       let signingKeys = get profile ''signing_keys'' in
       if \<not> truthy ucp \<or> \<not> typeof_object ucp then Inr [ucp_route_root ucp]
       else
         let services = get ucp ''services'';
             serviceKeys = object_keys_or_none services;
             caps = get ucp ''capabilities'';
             capKeys = object_keys_or_none caps
         in Inr (
           [ucp_route_root ucp, ucp_route_version ucp,
            ucp_route_services_present serviceKeys, ucp_route_service_namespace serviceKeys] @
           (if truthy services \<and> 0 < length serviceKeys
            then [ucp_route_service_version services serviceKeys,
                  ucp_route_service_spec services serviceKeys,
                  ucp_route_service_transport services serviceKeys,
                  ucp_route_endpoints_https services serviceKeys]
            else []) @
           [ucp_route_capabilities_present capKeys, ucp_route_capability_namespace capKeys] @
           (if truthy caps \<and> 0 < length capKeys
            then [ucp_route_capability_version caps capKeys,
                  ucp_route_capability_spec caps capKeys,
                  ucp_route_capability_schema caps capKeys] @
                 ucp_route_capability_extends caps capKeys
            else []) @
           [ucp_route_payment_handlers (get ucp ''payment_handlers''),
            ucp_route_signing_keys signingKeys] @
           (if truthy services \<and> 0 < length serviceKeys
            then [ucp_route_spec_binding P services serviceKeys] else []) @
           (if 0 < length capKeys then [ucp_route_vendor_namespace capKeys] else [])))"


record ucp_route_report =
  ur_timestamp :: string
  ur_specVersion :: string
  ur_specUrl :: string
  ur_repoUrl :: string
  ur_profileUrl :: string
  ur_results :: "compliance_result list"
  ur_passedCount :: nat
  ur_failedCount :: nat
  ur_warningCount :: nat
  ur_rawProfile :: jsval

definition ucp_auth_headers ::
  "platform \<Rightarrow> jsval \<Rightarrow> jsval \<Rightarrow> jsval \<Rightarrow> (string \<times> jsval) list \<Rightarrow> (string \<times> jsval) list js" where
  "ucp_auth_headers P authType authValue authHeader headers =
     (if authType = JStr ''bearer'' \<and> truthy authValue
      then Inr (set_prop (js_String (js_or authHeader (JStr ''Authorization'')))
                  (JStr (''Bearer '' @ js_String authValue)) headers)
      else if authType = JStr ''basic'' \<and> truthy authValue
      then bindE (base64 P authValue) (\<lambda>b.
             Inr (set_prop (js_String (js_or authHeader (JStr ''Authorization'')))
                    (JStr (''Basic '' @ b)) headers))
      else if authType = JStr ''api_key'' \<and> truthy authValue
      then Inr (set_prop (js_String (js_or authHeader (JStr ''X-API-Key''))) authValue headers)
      else Inr headers)"

text \<open>What fetching the profile leaves behind: the profile, the error if any, the
  status and the content type seen.\<close>

record ucp_fetch =
  profileData :: jsval
  fetchError :: "string option"
  httpStatus :: "nat option"
  seen_content_type :: string

definition ucp_fetch_profile :: "platform \<Rightarrow> network \<Rightarrow> string \<Rightarrow> (string \<times> jsval) list \<Rightarrow> ucp_fetch" where
  "ucp_fetch_profile P net profileUrl headers =
     (case net \<lparr>req_url = profileUrl, req_method = ''GET'', req_headers = headers,
                req_body = None\<rparr> of
        Inl e \<Rightarrow>
          \<lparr>profileData = JObj [],
           fetchError = Some (case e of ErrorObj m \<Rightarrow> m | NonError \<Rightarrow> ''Network error''),
           httpStatus = None, seen_content_type = []\<rparr>
      | Inr response \<Rightarrow>
          if \<not> ok response
          then \<lparr>profileData = JObj [],
                fetchError = Some (''HTTP '' @ show_nat (status response) @ '' '' @
                                   statusText response),
                httpStatus = Some (status response),
                seen_content_type = content_type_of response\<rparr>
          else if \<not> sublist ''json'' (content_type_of response)
          then \<lparr>profileData = JObj [],
                fetchError = Some (''Expected JSON response but got: '' @ content_type_of response),
                httpStatus = Some (status response),
                seen_content_type = content_type_of response\<rparr>
          else (case response_json P response of
                  Inr v \<Rightarrow>
                    \<lparr>profileData = v, fetchError = None, httpStatus = Some (status response),
                     seen_content_type = content_type_of response\<rparr>
                | Inl e \<Rightarrow>
                    \<lparr>profileData = JObj [],
                     fetchError = Some (case e of ErrorObj m \<Rightarrow> m | NonError \<Rightarrow> ''Network error''),
                     httpStatus = Some (status response),
                     seen_content_type = content_type_of response\<rparr>))"

text \<open>\<^verbatim>\<open>!!fetchError\<close>: an error whose message is empty counts as no error.\<close>

definition has_error :: "string option \<Rightarrow> bool" where
  "has_error e = (case e of None \<Rightarrow> False | Some m \<Rightarrow> m \<noteq> [])"

definition ucp_discovery_result :: "string \<Rightarrow> ucp_fetch \<Rightarrow> compliance_result" where
  "ucp_discovery_result profileUrl f =
     \<lparr>passed = (\<not> has_error (fetchError f)), ruleId = ''ucp-discovery'',
      message = (case fetchError f of
                   Some m \<Rightarrow> (if m \<noteq> [] then ''Failed to fetch '' @ profileUrl @ '': '' @ m
                              else ''Business profile discovered at '' @ profileUrl)
                 | None \<Rightarrow> ''Business profile discovered at '' @ profileUrl),
      severity = Critical,
      details = Some (JObj [(''url'', JStr profileUrl),
                            (''httpStatus'', (case httpStatus f of None \<Rightarrow> Null
                                                                 | Some n \<Rightarrow> JNum (int n)))]),
      docUrl = Some (UCP_SPEC_specUrl @ ''#discovery'')\<rparr>"

definition ucp_content_type_result :: "ucp_fetch \<Rightarrow> compliance_result" where
  "ucp_content_type_result f =
     (let ct = seen_content_type f
      in \<lparr>passed = sublist ''application/json'' ct, ruleId = ''ucp-content-type'',
          message = (if sublist ''application/json'' ct
                     then ''Response Content-Type is application/json''
                     else ''Expected application/json but got: '' @
                          (if ct = [] then ''(none)'' else ct)),
          severity = Warning, details = None,
          docUrl = Some (UCP_SPEC_specUrl @ ''#business-profile'')\<rparr>)"

definition keys_strict :: "jsval \<Rightarrow> string list js" where
  "keys_strict v =
     (if nullish v then Inl (ErrorObj ''Cannot convert undefined or null to object'')
      else Inr (keys v))"

text \<open>The report the route answers with: the counts are computed from the results.\<close>

definition ucp_route_report_of ::
  "string \<Rightarrow> string \<Rightarrow> compliance_result list \<Rightarrow> jsval \<Rightarrow> ucp_route_report" where
  "ucp_route_report_of now profileUrl allResults rawProfile =
     \<lparr>ur_timestamp = now, ur_specVersion = UCP_SPEC_latestVersion,
      ur_specUrl = UCP_SPEC_specUrl, ur_repoUrl = UCP_SPEC_repoUrl,
      ur_profileUrl = profileUrl, ur_results = allResults,
      ur_passedCount = count_passed allResults,
      ur_failedCount = count_failed allResults,
      ur_warningCount = count_warning allResults,
      ur_rawProfile = rawProfile\<rparr>"

definition ucp_route_run ::
  "platform \<Rightarrow> network \<Rightarrow> string \<Rightarrow> jsval \<Rightarrow> ucp_route_report http_response js" where
  "ucp_route_run P net now body =
     bindE (destructure body ''endpoint'') (\<lambda>_.
       let endpoint = get body ''endpoint''; authType = get body ''authType'';
           authValue = get body ''authValue''; authHeader = get body ''authHeader''
       in if \<not> truthy endpoint then Inr (ErrorResponse 400 ''Endpoint URL required'')
          else case endpoint of
            JStr e \<Rightarrow>
              (let baseUrl = strip_trailing_slashes e;
                   profileUrl = baseUrl @ ''/.well-known/ucp''
               in bindE (ucp_auth_headers P authType authValue authHeader
                           [(''Accept'', JStr ''application/json'')]) (\<lambda>headers.
                  let f = ucp_fetch_profile P net profileUrl headers in
                  bindE (if has_error (fetchError f) then Inr []
                         else runComplianceChecks P (profileData f)) (\<lambda>structuralResults.
                  bindE (keys_strict (profileData f)) (\<lambda>profileKeys.
                    let allResults = [ucp_discovery_result profileUrl f,
                                      ucp_content_type_result f] @ structuralResults
                    in Inr (Json (ucp_route_report_of now profileUrl allResults
                                    (if 0 < length profileKeys then profileData f else Null)))))))
          | _ \<Rightarrow> Inl (ErrorObj ''endpoint.replace is not a function''))"

definition ucp_route_POST ::
  "platform \<Rightarrow> network \<Rightarrow> string \<Rightarrow> jsval \<Rightarrow> ucp_route_report http_response" where
  "ucp_route_POST P net now body =
     (case ucp_route_run P net now body of
        Inr r \<Rightarrow> r
      | Inl e \<Rightarrow> internal_error ''Test failed'' e)"


section \<open>The commerce-profile rule set of the SDK\<close>

definition SPEC_BASE :: string where
  "SPEC_BASE = ''https://ucp.dev/latest/specification/overview''"

text \<open>\<^verbatim>\<open>profile.ucp?.k\<close>: reading \<^verbatim>\<open>profile.ucp\<close> throws on a profile that is \<^verbatim>\<open>null\<close>.\<close>

definition ucp_field :: "jsval \<Rightarrow> string \<Rightarrow> jsval js" where
  "ucp_field profile k = bindE (get_strict profile ''ucp'') (\<lambda>ucp. Inr (get ucp k))"

definition sdk_profile_root :: "jsval \<Rightarrow> compliance_result js" where
  \<open>sdk_profile_root profile =
     bindE (get_strict profile ''ucp'') (\<lambda>ucp.
       Inr \<lparr>passed = (truthy ucp \<and> typeof_object ucp), ruleId = ''ucp-profile-root'',
            message = (if truthy ucp then ''Top-level "ucp" object present''
                       else ''Missing top-level "ucp" object''),
            severity = Critical, details = None,
            docUrl = Some (SPEC_BASE @ ''#business-profile'')\<rparr>)\<close>

definition sdk_version :: "jsval \<Rightarrow> compliance_result js" where
  \<open>sdk_version profile =
     bindE (ucp_field profile ''version'') (\<lambda>v.
       let valid = (truthy v \<and> DATE_REGEX_test (js_String v))
       in Inr \<lparr>passed = valid, ruleId = ''ucp-version'',
               message = (if valid then ''UCP version: '' @ js_String v
                          else if truthy v
                          then ''Invalid version format "'' @ js_String v @ ''" '' @ emdash @
                               '' expected YYYY-MM-DD''
                          else ''Missing ucp.version''),
               severity = Critical, details = Some (JObj [(''version'', v)]),
               docUrl = Some (SPEC_BASE @ ''#versioning'')\<rparr>)\<close>

definition sdk_services_present :: "jsval \<Rightarrow> compliance_result js" where
  "sdk_services_present profile =
     bindE (ucp_field profile ''services'') (\<lambda>svc.
       let hasServices = (truthy svc \<and> typeof_object svc \<and> 0 < length (keys svc))
       in Inr \<lparr>passed = hasServices, ruleId = ''ucp-services-present'',
               message = (if hasServices then show_nat (length (keys svc)) @ '' service(s) declared''
                          else ''Missing or empty ucp.services object''),
               severity = Critical, details = None,
               docUrl = Some (SPEC_BASE @ ''#services'')\<rparr>)"

definition sdk_service_namespace :: "jsval \<Rightarrow> compliance_result js" where
  "sdk_service_namespace profile =
     bindE (ucp_field profile ''services'') (\<lambda>svc.
       let ks = keys (js_or svc (JObj []));
           invalid = filter (\<lambda>k. \<not> NAMESPACE_REGEX_test k) ks
       in Inr \<lparr>passed = (length invalid = 0 \<and> 0 < length ks), ruleId = ''ucp-service-namespace'',
               message = (if length invalid = 0
                          then ''All service keys follow reverse-domain notation''
                          else ''Invalid service namespace(s): '' @ intercalate '', '' invalid),
               severity = Critical, details = Some (JObj [(''invalidKeys'', str_array invalid)]),
               docUrl = Some (SPEC_BASE @ ''#namespace-governance'')\<rparr>)"

text \<open>The service version-format rule of the SDK.\<close>

definition sdk_service_version :: "jsval \<Rightarrow> compliance_result js" where
  "sdk_service_version profile =
     bindE (ucp_field profile ''services'') (\<lambda>svc.
       let es = entries (js_or svc (JObj []));
           invalid = filter (\<lambda>(k, s). bad_version s) es
       in Inr \<lparr>passed = (length invalid = 0 \<and> 0 < length es), ruleId = ''ucp-service-version'',
               message = (if length invalid = 0 then ''All services have valid YYYY-MM-DD versions''
                          else show_nat (length invalid) @ '' service(s) missing valid version''),
               severity = Critical,
               details = Some (JObj [(''invalid'', str_array (map fst invalid))]),
               docUrl = Some (SPEC_BASE @ ''#services'')\<rparr>)"

definition sdk_service_spec :: "jsval \<Rightarrow> compliance_result js" where
  "sdk_service_spec profile =
     bindE (ucp_field profile ''services'') (\<lambda>svc.
       let es = entries (js_or svc (JObj []));
           missing = filter (\<lambda>(k, s). \<not> truthy (get s ''spec'')) es
       in Inr \<lparr>passed = (length missing = 0 \<and> 0 < length es), ruleId = ''ucp-service-spec'',
               message = (if length missing = 0 then ''All services have spec URLs''
                          else show_nat (length missing) @ '' service(s) missing spec URL''),
               severity = Critical,
               details = Some (JObj [(''missing'', str_array (map fst missing))]),
               docUrl = Some (SPEC_BASE @ ''#services'')\<rparr>)"

definition sdk_service_transport :: "jsval \<Rightarrow> compliance_result js" where
  "sdk_service_transport profile =
     bindE (ucp_field profile ''services'') (\<lambda>svc.
       let es = entries (js_or svc (JObj []));
           missing = filter (\<lambda>(k, s). no_transport (get s ''transport'')) es;
           transports = map (\<lambda>(name, s). transport_info name (get s ''transport'')) es
       in Inr \<lparr>passed = (length missing = 0 \<and> 0 < length es), ruleId = ''ucp-service-transport'',
               message = (if length missing = 0 then ''All services have transport bindings''
                          else show_nat (length missing) @ '' service(s) missing transport bindings''),
               severity = Critical, details = Some (JObj [(''transports'', JArr transports)]),
               docUrl = Some (SPEC_BASE @ ''#transport-layer'')\<rparr>)"

text \<open>
  The HTTPS rule of the SDK calls \<^verbatim>\<open>startsWith\<close> on the endpoint itself, which only a
  string has: a truthy endpoint of another type makes the check throw.
\<close>

definition sdk_insecure_endpoint :: "jsval \<Rightarrow> string \<Rightarrow> bool js" where
  "sdk_insecure_endpoint t binding =
     (let e = get (get t binding) ''endpoint''
      in if \<not> truthy e then Inr False
         else case e of
                JStr u \<Rightarrow> Inr (\<not> prefix ''https://'' u)
              | _ \<Rightarrow> Inl (ErrorObj (''t.'' @ binding @ ''.endpoint.startsWith is not a function'')))"

definition sdk_insecure_of_service :: "string \<times> jsval \<Rightarrow> string list js" where
  "sdk_insecure_of_service e =
     (let name = fst e; t = get (snd e) ''transport''
      in if \<not> truthy t then Inr []
         else bindE (sdk_insecure_endpoint t ''rest'') (\<lambda>r.
              bindE (sdk_insecure_endpoint t ''mcp'') (\<lambda>m.
              bindE (sdk_insecure_endpoint t ''a2a'') (\<lambda>a.
                Inr ((if r then [name @ '' REST''] else []) @
                     (if m then [name @ '' MCP''] else []) @
                     (if a then [name @ '' A2A''] else []))))))"

definition sdk_endpoints_https :: "jsval \<Rightarrow> compliance_result js" where
  "sdk_endpoints_https profile =
     bindE (ucp_field profile ''services'') (\<lambda>svc.
     bindE (mapE sdk_insecure_of_service (entries (js_or svc (JObj [])))) (\<lambda>found.
       let insecure = concat found
       in Inr \<lparr>passed = (length insecure = 0), ruleId = ''ucp-transport-endpoints-https'',
               message = (if length insecure = 0 then ''All transport endpoints use HTTPS''
                          else ''Non-HTTPS endpoints: '' @ intercalate '', '' insecure),
               severity = Critical, details = Some (JObj [(''insecure'', str_array insecure)]),
               docUrl = Some (SPEC_BASE @ ''#security'')\<rparr>))"

definition sdk_capabilities_present :: "jsval \<Rightarrow> compliance_result js" where
  "sdk_capabilities_present profile =
     bindE (ucp_field profile ''capabilities'') (\<lambda>caps.
       let hasCaps = (truthy caps \<and> typeof_object caps \<and> 0 < length (keys caps))
       in Inr \<lparr>passed = hasCaps, ruleId = ''ucp-capabilities-present'',
               message = (if hasCaps
                          then show_nat (length (keys caps)) @ '' capability(ies) declared''
                          else ''Missing or empty ucp.capabilities object''),
               severity = Critical,
               details = Some (JObj [(''count'',
                           JNum (if truthy caps then int (length (keys caps)) else 0))]),
               docUrl = Some (SPEC_BASE @ ''#capabilities'')\<rparr>)"

definition sdk_capability_namespace :: "jsval \<Rightarrow> compliance_result js" where
  "sdk_capability_namespace profile =
     bindE (ucp_field profile ''capabilities'') (\<lambda>caps.
       let ks = keys (js_or caps (JObj []));
           invalid = filter (\<lambda>k. \<not> NAMESPACE_REGEX_test k) ks
       in Inr \<lparr>passed = (length invalid = 0 \<and> 0 < length ks),
               ruleId = ''ucp-capability-namespace'',
               message = (if length invalid = 0
                          then ''All capability keys follow reverse-domain notation''
                          else ''Invalid capability namespace(s): '' @ intercalate '', '' invalid),
               severity = Critical, details = Some (JObj [(''invalidKeys'', str_array invalid)]),
               docUrl = Some (SPEC_BASE @ ''#namespace-governance'')\<rparr>)"

definition sdk_capability_version :: "jsval \<Rightarrow> compliance_result js" where
  "sdk_capability_version profile =
     bindE (ucp_field profile ''capabilities'') (\<lambda>caps.
       let es = entries (js_or caps (JObj []));
           invalid = filter (\<lambda>(k, c). bad_version c) es
       in Inr \<lparr>passed = (length invalid = 0 \<and> 0 < length es), ruleId = ''ucp-capability-version'',
               message = (if length invalid = 0
                          then ''All capabilities have valid YYYY-MM-DD versions''
                          else show_nat (length invalid) @ '' capability(ies) missing valid version''),
               severity = Critical,
               details = Some (JObj [(''invalid'', str_array (map fst invalid))]),
               docUrl = Some (SPEC_BASE @ ''#capabilities'')\<rparr>)"

definition sdk_capability_spec :: "jsval \<Rightarrow> compliance_result js" where
  "sdk_capability_spec profile =
     bindE (ucp_field profile ''capabilities'') (\<lambda>caps.
       let es = entries (js_or caps (JObj []));
           missing = filter (\<lambda>(k, c). \<not> truthy (get c ''spec'')) es
       in Inr \<lparr>passed = (length missing = 0 \<and> 0 < length es), ruleId = ''ucp-capability-spec'',
               message = (if length missing = 0 then ''All capabilities have spec URLs''
                          else show_nat (length missing) @ '' capability(ies) missing spec URL''),
               severity = Critical,
               details = Some (JObj [(''missing'', str_array (map fst missing))]),
               docUrl = Some (SPEC_BASE @ ''#capabilities'')\<rparr>)"

definition sdk_capability_schema :: "jsval \<Rightarrow> compliance_result js" where
  "sdk_capability_schema profile =
     bindE (ucp_field profile ''capabilities'') (\<lambda>caps.
       let es = entries (js_or caps (JObj []));
           missing = filter (\<lambda>(k, c). \<not> truthy (get c ''schema'')) es
       in Inr \<lparr>passed = (length missing = 0 \<and> 0 < length es), ruleId = ''ucp-capability-schema'',
               message = (if length missing = 0 then ''All capabilities have schema URLs''
                          else show_nat (length missing) @ '' capability(ies) missing schema URL''),
               severity = Critical,
               details = Some (JObj [(''missing'', str_array (map fst missing))]),
               docUrl = Some (SPEC_BASE @ ''#capabilities'')\<rparr>)"

text \<open>\<^verbatim>\<open>capKeys.has(c.extends)\<close>: only a string can be one of the keys.\<close>

definition is_key :: "string list \<Rightarrow> jsval \<Rightarrow> bool" where
  "is_key ks v = (case v of JStr e \<Rightarrow> e \<in> set ks | _ \<Rightarrow> False)"

definition sdk_capability_extends :: "jsval \<Rightarrow> compliance_result js" where
  "sdk_capability_extends profile =
     bindE (ucp_field profile ''capabilities'') (\<lambda>c0.
       let caps = js_or c0 (JObj []);
           capKeys = keys caps;
           extensions = filter (\<lambda>(k, c). truthy (get c ''extends'')) (entries caps);
           orphans = filter (\<lambda>(k, c). \<not> is_key capKeys (get c ''extends'')) extensions
       in if length extensions = 0
          then Inr \<lparr>passed = True, ruleId = ''ucp-capability-extends'',
                    message = ''No extensions declared'', severity = Warning,
                    details = None, docUrl = None\<rparr>
          else Inr \<lparr>passed = (length orphans = 0), ruleId = ''ucp-capability-extends'',
                    message = (if length orphans = 0
                               then show_nat (length extensions) @
                                    '' extension(s) all reference valid parents''
                               else ''Orphan extensions: '' @ intercalate '', '' (map fst orphans)),
                    severity = Warning,
                    details = Some (JObj [(''orphans'',
                        JArr (map (\<lambda>(k, c). JObj [(''key'', JStr k),
                                                    (''extends'', get c ''extends'')]) orphans))]),
                    docUrl = Some (SPEC_BASE @ ''#extensions'')\<rparr>)"

definition sdk_mismatch :: "platform \<Rightarrow> string \<times> jsval \<Rightarrow> string list" where
  "sdk_mismatch P e =
     (let key = fst e; spec = get (snd e) ''spec''
      in if truthy spec
         then (case URL_parse P (js_String spec) of
                 None \<Rightarrow> []
               | Some parsed \<Rightarrow>
                   let specHost = hostname parsed; authority = authority_of key
                   in if authority \<noteq> [] \<and> \<not> suffix authority specHost
                      then [key @ '' '' @ arrow @ '' '' @ specHost] else [])
         else [])"

definition sdk_spec_binding :: "platform \<Rightarrow> jsval \<Rightarrow> compliance_result js" where
  "sdk_spec_binding P profile =
     bindE (ucp_field profile ''services'') (\<lambda>svc.
       let mismatches = concat (map (sdk_mismatch P) (entries (js_or svc (JObj []))))
       in Inr \<lparr>passed = (length mismatches = 0), ruleId = ''ucp-spec-binding'',
               message = (if length mismatches = 0
                          then ''All spec URLs match their namespace authority''
                          else ''Mismatched spec bindings: '' @ intercalate ''; '' mismatches),
               severity = Warning, details = Some (JObj [(''mismatches'', str_array mismatches)]),
               docUrl = Some (SPEC_BASE @ ''#namespace-governance'')\<rparr>)"

definition sdk_payment_handlers :: "jsval \<Rightarrow> compliance_result js" where
  "sdk_payment_handlers profile =
     bindE (ucp_field profile ''payment_handlers'') (\<lambda>handlers.
       if \<not> truthy handlers \<or> length (keys handlers) = 0
       then Inr \<lparr>passed = True, ruleId = ''ucp-payment-handlers'',
                 message = ''No payment handlers declared (optional)'', severity = Warning,
                 details = None, docUrl = None\<rparr>
       else let es = entries handlers;
                invalid = filter (\<lambda>(k, h). bad_handler h) es
            in Inr \<lparr>passed = (length invalid = 0), ruleId = ''ucp-payment-handlers'',
                    message = (if length invalid = 0
                               then show_nat (length es) @ '' payment handler(s) fully specified''
                               else show_nat (length invalid) @
                                    '' payment handler(s) missing required fields (version, spec, schema)''),
                    severity = Warning,
                    details = Some (JObj [(''invalid'', str_array (map fst invalid)),
                                          (''total'', JNum (int (length es)))]),
                    docUrl = Some (SPEC_BASE @ ''#payment-architecture'')\<rparr>)"

text \<open>
  The signing-keys rule of the SDK filters the value with \<^verbatim>\<open>keys.filter\<close> and reads
  \<^verbatim>\<open>k.kty\<close> on every element: a value that is not an array, or a \<^verbatim>\<open>null\<close> element,
  makes the check throw.
\<close>

definition missing_kty :: "jsval \<Rightarrow> bool js" where
  "missing_kty k = bindE (get_strict k ''kty'') (\<lambda>kty. Inr (\<not> truthy kty))"

definition sdk_signing_keys :: "jsval \<Rightarrow> compliance_result js" where
  "sdk_signing_keys profile =
     bindE (get_strict profile ''signing_keys'') (\<lambda>ks.
       if \<not> truthy ks \<or> get ks ''length'' = JNum 0
       then Inr \<lparr>passed = True, ruleId = ''ucp-signing-keys'',
                 message = ''No signing keys declared (optional, used for webhook verification)'',
                 severity = Info, details = None, docUrl = None\<rparr>
       else case ks of
              JArr xs \<Rightarrow>
                bindE (mapE missing_kty xs)
                  (\<lambda>flags.
                    let invalid = length (filter (\<lambda>b. b) flags)
                    in Inr \<lparr>passed = (invalid = 0), ruleId = ''ucp-signing-keys'',
                            message = (if invalid = 0
                                       then show_nat (length xs) @ '' signing key(s) in valid JWK format''
                                       else show_nat invalid @ '' signing key(s) missing kty field''),
                            severity = Info,
                            details = Some (JObj [(''count'', JNum (int (length xs))),
                                                  (''invalid'', JNum (int invalid))]),
                            docUrl = Some (SPEC_BASE @ ''#security'')\<rparr>)
            | _ \<Rightarrow> Inl (ErrorObj ''keys.filter is not a function''))"

definition sdk_vendor_namespace :: "jsval \<Rightarrow> compliance_result js" where
  "sdk_vendor_namespace profile =
     bindE (ucp_field profile ''capabilities'') (\<lambda>c0.
       let caps = keys (js_or c0 (JObj []));
           standard = filter (\<lambda>k. prefix ''dev.ucp.'' k) caps;
           vendor = filter (\<lambda>k. \<not> prefix ''dev.ucp.'' k) caps
       in Inr \<lparr>passed = True, ruleId = ''ucp-vendor-namespace'',
               message = (if 0 < length vendor
                          then show_nat (length vendor) @ '' vendor capability(ies), '' @
                               show_nat (length standard) @ '' standard (dev.ucp.*)''
                          else ''All '' @ show_nat (length standard) @
                               '' capability(ies) use standard dev.ucp.* namespace''),
               severity = Info,
               details = Some (JObj [(''standard'', JNum (int (length standard))),
                                     (''vendor'', JNum (int (length vendor)))]),
               docUrl = Some (SPEC_BASE @ ''#namespace-governance'')\<rparr>)"


definition UCP_COMPLIANCE_RULES :: "platform \<Rightarrow> compliance_rule list" where
  \<open>UCP_COMPLIANCE_RULES P =
   [\<lparr>rule_id = ''ucp-profile-root'', rule_name = ''Profile Root Object'',
     rule_description = ''Business profile must contain a top-level "ucp" object'',
     rule_severity = Critical, check = sdk_profile_root\<rparr>,
    \<lparr>rule_id = ''ucp-version'', rule_name = ''UCP Version'',
     rule_description = ''ucp.version must exist and follow YYYY-MM-DD format'',
     rule_severity = Critical, check = sdk_version\<rparr>,
    \<lparr>rule_id = ''ucp-services-present'', rule_name = ''Services Object'',
     rule_description = ''ucp.services must be a non-empty object'',
     rule_severity = Critical, check = sdk_services_present\<rparr>,
    \<lparr>rule_id = ''ucp-service-namespace'', rule_name = ''Service Namespace'',
     rule_description = ''Service keys must follow reverse-domain notation (e.g. dev.ucp.shopping)'',
     rule_severity = Critical, check = sdk_service_namespace\<rparr>,
    \<lparr>rule_id = ''ucp-service-version'', rule_name = ''Service Versions'',
     rule_description = ''Each service must have a version in YYYY-MM-DD format'',
     rule_severity = Critical, check = sdk_service_version\<rparr>,
    \<lparr>rule_id = ''ucp-service-spec'', rule_name = ''Service Spec URLs'',
     rule_description = ''Each service must have a spec URL pointing to its canonical specification'',
     rule_severity = Critical, check = sdk_service_spec\<rparr>,
    \<lparr>rule_id = ''ucp-service-transport'', rule_name = ''Transport Bindings'',
     rule_description = ''Each service must declare at least one transport (rest, mcp, a2a, or embedded)'',
     rule_severity = Critical, check = sdk_service_transport\<rparr>,
    \<lparr>rule_id = ''ucp-transport-endpoints-https'', rule_name = ''HTTPS Endpoints'',
     rule_description = ''All transport endpoints must use HTTPS'',
     rule_severity = Critical, check = sdk_endpoints_https\<rparr>,
    \<lparr>rule_id = ''ucp-capabilities-present'', rule_name = ''Capabilities Object'',
     rule_description = ''ucp.capabilities must be a non-empty object'',
     rule_severity = Critical, check = sdk_capabilities_present\<rparr>,
    \<lparr>rule_id = ''ucp-capability-namespace'', rule_name = ''Capability Namespace'',
     rule_description = ''Capability keys must follow reverse-domain notation (e.g. dev.ucp.shopping.checkout)'',
     rule_severity = Critical, check = sdk_capability_namespace\<rparr>,
    \<lparr>rule_id = ''ucp-capability-version'', rule_name = ''Capability Versions'',
     rule_description = ''Each capability must have a version in YYYY-MM-DD format'',
     rule_severity = Critical, check = sdk_capability_version\<rparr>,
    \<lparr>rule_id = ''ucp-capability-spec'', rule_name = ''Capability Spec URLs'',
     rule_description = ''Each capability must have a spec URL'',
     rule_severity = Critical, check = sdk_capability_spec\<rparr>,
    \<lparr>rule_id = ''ucp-capability-schema'', rule_name = ''Capability Schema URLs'',
     rule_description = ''Each capability must have a JSON Schema URL'',
     rule_severity = Critical, check = sdk_capability_schema\<rparr>,
    \<lparr>rule_id = ''ucp-capability-extends'', rule_name = ''Extension Validity'',
     rule_description = ''Capabilities with "extends" must reference an existing parent capability'',
     rule_severity = Warning, check = sdk_capability_extends\<rparr>,
    \<lparr>rule_id = ''ucp-spec-binding'', rule_name = ''Spec URL Binding'',
     rule_description = ''Service/capability spec URL origin should match the namespace authority'',
     rule_severity = Warning, check = sdk_spec_binding P\<rparr>,
    \<lparr>rule_id = ''ucp-payment-handlers'', rule_name = ''Payment Handlers'',
     rule_description = ''If payment_handlers is present, each handler must have version, spec, and schema'',
     rule_severity = Warning, check = sdk_payment_handlers\<rparr>,
    \<lparr>rule_id = ''ucp-signing-keys'', rule_name = ''Signing Keys'',
     rule_description = ''If signing_keys is present, each key must have kty field (JWK format)'',
     rule_severity = Info, check = sdk_signing_keys\<rparr>,
    \<lparr>rule_id = ''ucp-vendor-namespace'', rule_name = ''Vendor Namespace'',
     rule_description = ''Custom capabilities should use vendor namespace (com.{vendor}.*) not dev.ucp.*'',
     rule_severity = Info, check = sdk_vendor_namespace\<rparr>]\<close>

record ucp_report =
  ucp_timestamp :: string
  ucp_baseUrl :: string
  ucp_specVersion :: jsval
  ucp_results :: "compliance_result list"
  ucp_passedCount :: nat
  ucp_failedCount :: nat
  ucp_warningCount :: nat

text \<open>\<^verbatim>\<open>checkUCPCompliance\<close>, with the clock reading as the parameter \<open>now\<close>.\<close>

definition checkUCPCompliance :: "platform \<Rightarrow> string \<Rightarrow> jsval \<Rightarrow> string \<Rightarrow> ucp_report js" where
  "checkUCPCompliance P now profile baseUrl =
     (let results = run_rules (UCP_COMPLIANCE_RULES P) profile []
      in bindE (ucp_field profile ''version'') (\<lambda>v.
           Inr \<lparr>ucp_timestamp = now, ucp_baseUrl = baseUrl,
                ucp_specVersion = js_or v (JStr ''unknown''), ucp_results = results,
                ucp_passedCount = count_passed results,
                ucp_failedCount = count_failed results,
                ucp_warningCount = count_warning results\<rparr>))"

section \<open>The tool-protocol rule set of the SDK\<close>

text \<open>The checks read the initialize response only; the server configuration is not
  looked at by any of them.\<close>

definition mcp_sdk_protocol_version :: "jsval \<Rightarrow> compliance_result js" where
  "mcp_sdk_protocol_version response =
     bindE (get_strict response ''protocolVersion'') (\<lambda>v.
       Inr (mk_result (truthy v) ''protocol-version''
              (if truthy v then ''Protocol version present'' else ''Missing protocol version'')
              Critical))"

definition mcp_sdk_server_info :: "jsval \<Rightarrow> compliance_result js" where
  "mcp_sdk_server_info response =
     bindE (get_strict response ''serverInfo'') (\<lambda>si.
       let hasInfo = (truthy si \<and> truthy (get si ''name'') \<and> truthy (get si ''version''))
       in Inr \<lparr>passed = hasInfo, ruleId = ''server-info'',
               message = (if hasInfo then ''Server info present'' else ''Missing server info''),
               severity = Critical,
               details = (if si = Undefined then None else Some si), docUrl = None\<rparr>)"

definition mcp_sdk_capabilities_object :: "jsval \<Rightarrow> compliance_result js" where
  "mcp_sdk_capabilities_object response =
     bindE (get_strict response ''capabilities'') (\<lambda>c.
       Inr (mk_result (typeof_object c) ''capabilities-object''
              (if typeof_object c then ''Capabilities object present''
               else ''Missing capabilities object'')
              Warning))"

definition mcp_sdk_declared :: "string \<Rightarrow> string \<Rightarrow> string \<Rightarrow> string \<Rightarrow> jsval \<Rightarrow> compliance_result js" where
  "mcp_sdk_declared rid field yes no response =
     bindE (get_strict response ''capabilities'') (\<lambda>caps.
       Inr (mk_result True rid (if get caps field \<noteq> Undefined then yes else no) Info))"

definition mcp_sdk_initialize :: "jsval \<Rightarrow> compliance_result js" where
  "mcp_sdk_initialize response =
     bindE (get_strict response ''serverInfo'') (\<lambda>si.
       Inr (mk_result (si \<noteq> Undefined) ''initialize-method''
              (if si \<noteq> Undefined then ''Initialize method works''
               else ''Initialize method not implemented'')
              Critical))"

definition mcp_sdk_notifications :: "jsval \<Rightarrow> compliance_result js" where
  "mcp_sdk_notifications response =
     bindE (get_strict response ''serverInfo'') (\<lambda>si.
       Inr (mk_result (si \<noteq> Undefined) ''notifications-initialized''
              (if si \<noteq> Undefined then ''Notification handler present''
               else ''Cannot verify notification handling'')
              Warning))"

definition mcp_sdk_ping :: "jsval \<Rightarrow> compliance_result js" where
  \<open>mcp_sdk_ping response =
     bindE (get_strict response ''serverInfo'') (\<lambda>si.
       let serverResponded = (si \<noteq> Undefined \<and> get response ''protocolVersion'' \<noteq> Undefined)
       in Inr (mk_result serverResponded ''ping-method''
                 (if serverResponded
                  then ''Server is responsive to JSON-RPC (ping requires a live network call '' @ emdash @
                       '' use the web compliance tester for a real ping check)''
                  else ''Server did not respond to JSON-RPC initialize '' @ emdash @
                       '' ping capability cannot be verified'')
                 Info))\<close>

definition MCP_COMPLIANCE_RULES :: "compliance_rule list" where
  "MCP_COMPLIANCE_RULES =
   [\<lparr>rule_id = ''protocol-version'', rule_name = ''Protocol Version'',
     rule_description = ''Server must return a valid protocol version'',
     rule_severity = Critical, check = mcp_sdk_protocol_version\<rparr>,
    \<lparr>rule_id = ''server-info'', rule_name = ''Server Info'',
     rule_description = ''Server must return server info with name and version'',
     rule_severity = Critical, check = mcp_sdk_server_info\<rparr>,
    \<lparr>rule_id = ''capabilities-object'', rule_name = ''Capabilities Object'',
     rule_description = ''Server must return a capabilities object (even if empty)'',
     rule_severity = Warning, check = mcp_sdk_capabilities_object\<rparr>,
    \<lparr>rule_id = ''tools-capability'', rule_name = ''Tools Capability'',
     rule_description = ''If tools are supported, capabilities.tools must be present'',
     rule_severity = Info,
     check = mcp_sdk_declared ''tools-capability'' ''tools'' ''Tools capability declared''
               ''Tools not declared''\<rparr>,
    \<lparr>rule_id = ''resources-capability'', rule_name = ''Resources Capability'',
     rule_description = ''If resources are supported, capabilities.resources must be present'',
     rule_severity = Info,
     check = mcp_sdk_declared ''resources-capability'' ''resources''
               ''Resources capability declared'' ''Resources not declared''\<rparr>,
    \<lparr>rule_id = ''prompts-capability'', rule_name = ''Prompts Capability'',
     rule_description = ''If prompts are supported, capabilities.prompts must be present'',
     rule_severity = Info,
     check = mcp_sdk_declared ''prompts-capability'' ''prompts'' ''Prompts capability declared''
               ''Prompts not declared''\<rparr>,
    \<lparr>rule_id = ''initialize-method'', rule_name = ''Initialize Method'',
     rule_description = ''Server must implement initialize method'',
     rule_severity = Critical, check = mcp_sdk_initialize\<rparr>,
    \<lparr>rule_id = ''notifications-initialized'', rule_name = ''Initialized Notification'',
     rule_description = ''Server must handle notifications/initialized after initialize'',
     rule_severity = Warning, check = mcp_sdk_notifications\<rparr>,
    \<lparr>rule_id = ''ping-method'', rule_name = ''Ping Method'',
     rule_description = ''Server should implement ping method for health checks'',
     rule_severity = Info, check = mcp_sdk_ping\<rparr>]"

record mcp_report =
  mcp_timestamp :: string
  mcp_serverId :: jsval
  mcp_serverName :: jsval
  mcp_protocolVersion :: jsval
  mcp_results :: "compliance_result list"
  mcp_passedCount :: nat
  mcp_failedCount :: nat
  mcp_warningCount :: nat

definition checkMCPCompliance :: "string \<Rightarrow> jsval \<Rightarrow> jsval \<Rightarrow> mcp_report js" where
  "checkMCPCompliance now server initializeResponse =
     (let results = run_rules MCP_COMPLIANCE_RULES initializeResponse []
      in bindE (get_strict server ''id'') (\<lambda>sid.
         bindE (get_strict server ''name'') (\<lambda>sname.
         bindE (get_strict initializeResponse ''protocolVersion'') (\<lambda>pv.
           Inr \<lparr>mcp_timestamp = now, mcp_serverId = js_or sid (JStr ''unknown''),
                mcp_serverName = sname, mcp_protocolVersion = pv, mcp_results = results,
                mcp_passedCount = count_passed results,
                mcp_failedCount = count_failed results,
                mcp_warningCount = count_warning results\<rparr>))))"


section \<open>Regular expressions of the pattern catalogs\<close>

text \<open>
  The patterns of the catalogs are sequences of quantified single-character atoms: a
  literal, the dot, a character class or a negated class, each with a greedy quantifier.
  \<^verbatim>\<open>text.match(pattern)\<close> for a pattern without the global flag finds the leftmost
  position where the sequence matches, preferring longer repetitions and backtracking;
  its element 0 is the matched text.  Under the flag \<^verbatim>\<open>i\<close> the letters of ASCII match in
  both cases.
\<close>

datatype atom = Lit char | Dot | Set string | NSet string

datatype piece = Piece atom nat "nat option"

record regex =
  rx_pieces :: "piece list"
  rx_icase :: bool
  rx_end :: bool

definition to_lower :: "char \<Rightarrow> char" where
  "to_lower c = (case map_of (zip uppers lowers) c of Some l \<Rightarrow> l | None \<Rightarrow> c)"

definition to_upper :: "char \<Rightarrow> char" where
  "to_upper c = (case map_of (zip lowers uppers) c of Some u \<Rightarrow> u | None \<Rightarrow> c)"

fun atom_ok :: "bool \<Rightarrow> atom \<Rightarrow> char \<Rightarrow> bool" where
  "atom_ok ic (Lit c) x = (if ic then to_lower x = to_lower c else x = c)"
| "atom_ok ic Dot x = (x \<noteq> CHR 0x0A \<and> x \<noteq> CHR 0x0D)"
| "atom_ok ic (Set cs) x =
     (if ic then x \<in> set cs \<or> to_lower x \<in> set cs \<or> to_upper x \<in> set cs else x \<in> set cs)"
| "atom_ok ic (NSet cs) x =
     (if ic then \<not> (x \<in> set cs \<or> to_lower x \<in> set cs \<or> to_upper x \<in> set cs)
      else x \<notin> set cs)"

text \<open>The longest run of the atom at the start of the text, up to the quantifier's maximum.\<close>

fun greedy_run :: "bool \<Rightarrow> piece \<Rightarrow> string \<Rightarrow> nat" where
  "greedy_run ic (Piece a mn mx) s =
     (let n = length (takeWhile (atom_ok ic a) s)
      in case mx of None \<Rightarrow> n | Some m \<Rightarrow> min n m)"

fun piece_min :: "piece \<Rightarrow> nat" where
  "piece_min (Piece a mn mx) = mn"

text \<open>Backtracking: the repetition counts from the longest run down to the minimum, the
  first for which the rest of the pattern matches.\<close>

primrec try_down :: "(string \<Rightarrow> nat option) \<Rightarrow> nat \<Rightarrow> nat \<Rightarrow> string \<Rightarrow> nat option" where
  "try_down cont 0 mn s = (if 0 < mn then None else cont s)"
| "try_down cont (Suc c) mn s =
     (if Suc c < mn then None
      else case cont (drop (Suc c) s) of
             Some m \<Rightarrow> Some (Suc c + m)
           | None \<Rightarrow> try_down cont c mn s)"

text \<open>The length of the match of the pieces at the start of the text.\<close>

primrec match_here :: "bool \<Rightarrow> bool \<Rightarrow> piece list \<Rightarrow> string \<Rightarrow> nat option" where
  "match_here ic e [] = (\<lambda>s. if e \<and> s \<noteq> [] then None else Some 0)"
| "match_here ic e (p # ps) =
     (\<lambda>s. try_down (match_here ic e ps) (greedy_run ic p s) (piece_min p) s)"

text \<open>\<^verbatim>\<open>text.match(pattern)\<close>: the matched text, \<open>None\<close> for \<^verbatim>\<open>null\<close>.\<close>

fun js_match :: "regex \<Rightarrow> string \<Rightarrow> string option" where
  "js_match r [] = (case match_here (rx_icase r) (rx_end r) (rx_pieces r) [] of
                      Some n \<Rightarrow> Some [] | None \<Rightarrow> None)"
| "js_match r (x # xs) =
     (case match_here (rx_icase r) (rx_end r) (rx_pieces r) (x # xs) of
        Some n \<Rightarrow> Some (take n (x # xs))
      | None \<Rightarrow> js_match r xs)"

definition lit :: "string \<Rightarrow> piece list" where
  "lit s = map (\<lambda>c. Piece (Lit c) 1 (Some 1)) s"

definition star :: "atom \<Rightarrow> piece list" where "star a = [Piece a 0 None]"
definition plus :: "atom \<Rightarrow> piece list" where "plus a = [Piece a 1 None]"
definition opt :: "atom \<Rightarrow> piece list" where "opt a = [Piece a 0 (Some 1)]"
definition one :: "atom \<Rightarrow> piece list" where "one a = [Piece a 1 (Some 1)]"
definition at_least :: "nat \<Rightarrow> atom \<Rightarrow> piece list" where "at_least n a = [Piece a n None]"
definition exactly :: "nat \<Rightarrow> atom \<Rightarrow> piece list" where "exactly n a = [Piece a n (Some n)]"

definition rx :: "piece list \<Rightarrow> regex" where
  "rx ps = \<lparr>rx_pieces = ps, rx_icase = False, rx_end = False\<rparr>"

definition rxi :: "piece list \<Rightarrow> regex" where
  "rxi ps = \<lparr>rx_pieces = ps, rx_icase = True, rx_end = False\<rparr>"


definition quote_chars :: string where "quote_chars = [CHR 0x22, CHR 0x27]"

definition alnum :: string where "alnum = lowers @ uppers @ digits"

section \<open>The pattern catalogs of the tool-server scanner\<close>

definition HIDDEN_INSTRUCTION_PATTERNS :: "regex list" where
  "HIDDEN_INSTRUCTION_PATTERNS =
   [rxi (lit ''<instructions>''),
    rxi (lit ''</instructions>''),
    rxi (lit ''<system>''),
    rxi (lit ''</system>''),
    rxi (lit ''<IMPORTANT>''),
    rxi (lit ''</IMPORTANT>''),
    rxi (lit ''<secret>''),
    rxi (lit ''</secret>''),
    rxi (lit ''do not mention''),
    rxi (lit ''do not tell''),
    rxi (lit ''do not inform''),
    rxi (lit ''never inform the user''),
    rxi (lit ''never mention''),
    rxi (lit (''don'' @ [CHR 0x27] @ ''t tell the user'')),
    rxi (lit (''don'' @ [CHR 0x27] @ ''t mention'')),
    rxi (lit ''hide this from''),
    rxi (lit ''keep this hidden''),
    rxi (lit ''before using this tool''),
    rxi (lit ''this is very important''),
    rxi (lit ''the application will crash'')]"


definition SHADOWING_PATTERNS :: "regex list" where
  "SHADOWING_PATTERNS =
   [rxi (lit ''when this tool is available''),
    rxi (lit ''modify the behavior of''),
    rxi (lit ''override'' @ star Dot @ lit ''behavior''),
    rxi (lit ''side effect on''),
    rxi (lit ''must send all'' @ star Dot @ lit ''to''),
    rxi (lit ''change the recipient''),
    rxi (lit ''redirect'' @ star Dot @ lit ''to''),
    rxi (lit ''proxy'' @ star Dot @ lit ''number''),
    rxi (lit ''must'' @ star Dot @ lit ''use'' @ star Dot @ lit ''instead'')]"


text \<open>The tail \<^verbatim>\<open>\s*[:=]\s*["'][^"']+["']\<close> of the assignment patterns.\<close>

definition quoted_assignment :: "piece list" where
  "quoted_assignment =
     star (Set spaces) @ one (Set '':='') @ star (Set spaces) @ one (Set quote_chars) @
     plus (NSet quote_chars) @ one (Set quote_chars)"

definition SECRET_PATTERNS :: "regex list" where
  "SECRET_PATTERNS =
   [rxi (lit ''api'' @ opt (Set ''_-'') @ lit ''key'' @ quoted_assignment),
    rxi (lit ''password'' @ quoted_assignment),
    rxi (lit ''secret'' @ quoted_assignment),
    rxi (lit ''token'' @ quoted_assignment),
    rxi (lit ''bearer'' @ plus (Set spaces) @ plus (Set (alnum @ ''_.+-''))),
    rx (lit ''sk-'' @ at_least 20 (Set alnum)),
    rx (lit ''ghp_'' @ exactly 36 (Set alnum)),
    rx (lit ''xox'' @ one (Set ''bporas'') @ lit ''-'' @ plus (Set (alnum @ ''-'')))]"


section \<open>The detectors of the tool-server scanner\<close>

datatype finding_severity = FCritical | FHigh | FMedium | FLow | FInfo

record finding =
  owaspId :: string
  owaspTitle :: string
  owaspUrl :: string
  f_severity :: finding_severity
  category :: string
  title :: string
  description :: string
  toolName :: "jsval option"
  evidence :: "string option"

definition MCP01_title :: string where
  "MCP01_title = ''Token Mismanagement & Secret Exposure''"
definition MCP01_url :: string where
  "MCP01_url = ''https://owasp.org/www-project-mcp-top-10/2025/MCP01-2025-Token-Mismanagement-and-Secret-Exposure''"
definition MCP03_title :: string where "MCP03_title = ''Tool Poisoning''"
definition MCP03_url :: string where
  "MCP03_url = ''https://owasp.org/www-project-mcp-top-10/2025/MCP03-2025%E2%80%93Tool-Poisoning''"
definition MCP06_title :: string where "MCP06_title = ''Intent Flow Subversion''"
definition MCP06_url :: string where
  "MCP06_url = ''https://owasp.org/www-project-mcp-top-10/2025/MCP06-2025%E2%80%93Intent-Flow-Subversion''"
definition MCP10_title :: string where "MCP10_title = ''Context Injection & Over-Sharing''"
definition MCP10_url :: string where
  "MCP10_url = ''https://owasp.org/www-project-mcp-top-10/2025/MCP10-2025%E2%80%93ContextInjection&OverSharing''"

text \<open>
  The loop every first-match detector runs: the patterns in catalog order, one finding
  pushed for the first that matches, then \<^verbatim>\<open>break\<close>.
\<close>

fun scan_first :: "regex list \<Rightarrow> string \<Rightarrow> (string \<Rightarrow> 'f) \<Rightarrow> 'f list" where
  "scan_first [] txt mk = []"
| "scan_first (pattern # patterns) txt mk =
     (case js_match pattern txt of
        Some m \<Rightarrow> [mk m]
      | None \<Rightarrow> scan_first patterns txt mk)"

text \<open>
  \<^verbatim>\<open>tool.description || ''\<close>, on which the detectors call \<^verbatim>\<open>match\<close>: the tools come
  from the server's answer, so the description need not be a string, and then the call
  throws.
\<close>

definition tool_desc :: "jsval \<Rightarrow> string js" where
  "tool_desc tool =
     bindE (get_strict tool ''description'') (\<lambda>d.
       if \<not> truthy d then Inr []
       else case d of JStr txt \<Rightarrow> Inr txt
                    | _ \<Rightarrow> Inl (ErrorObj ''desc.match is not a function''))"

definition tool_label :: "jsval \<Rightarrow> string" where
  \<open>tool_label tool = ''The tool "'' @ js_String (get tool ''name'') @ ''"''\<close>








text \<open>\<^verbatim>\<open>match[0].substring(0, 10) + '...[REDACTED]'\<close>\<close>

definition redact :: "string \<Rightarrow> string" where
  "redact m = take 10 m @ ''...[REDACTED]''"

definition analyzeToolForSecretLeakage :: "jsval \<Rightarrow> finding list js" where
  "analyzeToolForSecretLeakage tool =
     bindE (tool_desc tool) (\<lambda>desc.
       Inr (scan_first SECRET_PATTERNS desc (\<lambda>m.
         \<lparr>owaspId = ''MCP01'', owaspTitle = MCP01_title, owaspUrl = MCP01_url,
          f_severity = FCritical, category = ''Secret Exposure'',
          title = ''Potential secret/credential found in tool description'',
          description = tool_label tool @
            '' description may contain embedded credentials or tokens.'',
          toolName = Some (get tool ''name''), evidence = Some (redact m)\<rparr>)))"

text \<open>\<^verbatim>\<open>analyzeInstructionsField\<close>: the length heuristic, then the hidden-instruction,
  shadowing and secret catalogs, each with its own first-match loop.\<close>

definition instructions_hidden :: "string \<Rightarrow> finding list" where
  "instructions_hidden instructions =
     scan_first HIDDEN_INSTRUCTION_PATTERNS instructions (\<lambda>m.
       \<lparr>owaspId = ''MCP03'', owaspTitle = MCP03_title, owaspUrl = MCP03_url,
        f_severity = FCritical, category = ''Tool Poisoning'',
        title = ''Hidden instruction pattern detected in server instructions'',
        description = ''The server instructions field contains patterns that could manipulate AI agent behavior.'',
        toolName = None, evidence = Some m\<rparr>)"

definition instructions_shadowing :: "string \<Rightarrow> finding list" where
  "instructions_shadowing instructions =
     scan_first SHADOWING_PATTERNS instructions (\<lambda>m.
       \<lparr>owaspId = ''MCP06'', owaspTitle = MCP06_title, owaspUrl = MCP06_url,
        f_severity = FHigh, category = ''Intent Subversion'',
        title = ''Intent subversion pattern detected in server instructions'',
        description = ''The server instructions field contains patterns that attempt to redirect or modify expected behavior.'',
        toolName = None, evidence = Some m\<rparr>)"

definition instructions_secrets :: "string \<Rightarrow> finding list" where
  "instructions_secrets instructions =
     scan_first SECRET_PATTERNS instructions (\<lambda>m.
       \<lparr>owaspId = ''MCP01'', owaspTitle = MCP01_title, owaspUrl = MCP01_url,
        f_severity = FCritical, category = ''Secret Exposure'',
        title = ''Potential secret found in server instructions'',
        description = ''The server instructions field may contain embedded credentials or tokens.'',
        toolName = None, evidence = Some (redact m)\<rparr>)"

definition analyzeInstructionsField :: "jsval \<Rightarrow> finding list" where
  "analyzeInstructionsField initResult =
     (case get initResult ''instructions'' of
        JStr instructions \<Rightarrow>
          if instructions = [] then []
          else
            (if 200 < length instructions
             then [\<lparr>owaspId = ''MCP10'', owaspTitle = MCP10_title, owaspUrl = MCP10_url,
                    f_severity = FLow, category = ''Context Over-Sharing'',
                    title = ''Verbose server instructions may leak internal context'',
                    description = ''Server instructions field is '' @
                      show_nat (length instructions) @
                      '' characters long and may expose internal tool details, architecture, or operational context that could assist an attacker.'',
                    toolName = None,
                    evidence = Some (take 200 instructions @
                                     (if 200 < length instructions then ''...'' else []))\<rparr>]
             else []) @
            instructions_hidden instructions @
            instructions_shadowing instructions @
            instructions_secrets instructions
      | _ \<Rightarrow> [])"


section \<open>The agent scanner\<close>

record a2a_finding =
  a_category :: string
  a_severity :: finding_severity
  a_title :: string
  a_description :: string
  a_evidence :: "string option"
  a_recommendation :: "string option"

record named_pattern =
  np_pattern :: regex
  np_name :: string

definition INJECTION_PATTERNS :: "named_pattern list" where
  "INJECTION_PATTERNS =
   [\<lparr>np_pattern = rxi (lit ''<instructions>''), np_name = ''XML injection tag''\<rparr>,
    \<lparr>np_pattern = rxi (lit ''<system>''), np_name = ''System prompt injection''\<rparr>,
    \<lparr>np_pattern = rxi (lit ''ignore previous''), np_name = ''Prompt override attempt''\<rparr>,
    \<lparr>np_pattern = rxi (lit ''you are now''), np_name = ''Role hijacking''\<rparr>,
    \<lparr>np_pattern = rxi (lit ''do not mention''), np_name = ''Suppression directive''\<rparr>,
    \<lparr>np_pattern = rxi (lit ''never tell the user''), np_name = ''Information hiding''\<rparr>,
    \<lparr>np_pattern = rxi (lit ''override'' @ star Dot @ lit ''instruction''),
     np_name = ''Override directive''\<rparr>,
    \<lparr>np_pattern = rxi (lit ''forget'' @ star Dot @ lit ''previous''),
     np_name = ''Context reset attempt''\<rparr>,
    \<lparr>np_pattern = rxi (lit ''act as''), np_name = ''Role impersonation (may be benign)''\<rparr>]"

definition A2A_SECRET_PATTERNS :: "regex list" where
  "A2A_SECRET_PATTERNS =
   [rxi (lit ''api'' @ opt (Set ''_-'') @ lit ''key'' @ quoted_assignment),
    rxi (lit ''password'' @ quoted_assignment),
    rxi (lit ''secret'' @ quoted_assignment),
    rxi (lit ''bearer'' @ plus (Set spaces) @ at_least 20 (Set (alnum @ ''_.+-''))),
    rx (lit ''sk-'' @ at_least 20 (Set alnum)),
    rx (lit ''ghp_'' @ exactly 36 (Set alnum))]"




text \<open>
  The loop over the injection catalog for one field: every pattern that matches pushes a
  finding, and the loop goes on to the next pattern.
\<close>

definition injection_finding :: "string \<Rightarrow> named_pattern \<Rightarrow> string \<Rightarrow> a2a_finding" where
  \<open>injection_finding field_name p m =
     \<lparr>a_category = ''Prompt Injection'',
      a_severity = (if sublist ''benign'' (np_name p) then FLow else FHigh),
      a_title = np_name p @ '' in '' @ field_name,
      a_description = ''The field "'' @ field_name @
         ''" contains a pattern that could be used for prompt injection: "'' @ np_name p @ ''".'',
      a_evidence = Some m,
      a_recommendation = Some ''Review and sanitize agent card text fields.''\<rparr>\<close>

fun scan_all :: "named_pattern list \<Rightarrow> string \<Rightarrow> string \<Rightarrow> a2a_finding list" where
  "scan_all [] field_name txt = []"
| "scan_all (p # ps) field_name txt =
     (case js_match (np_pattern p) txt of
        Some m \<Rightarrow> injection_finding field_name p m # scan_all ps field_name txt
      | None \<Rightarrow> scan_all ps field_name txt)"

text \<open>One field: skipped when its value is falsy; \<^verbatim>\<open>match\<close> exists on strings only.\<close>

definition scan_field :: "string \<times> jsval \<Rightarrow> a2a_finding list js" where
  "scan_field f =
     (if \<not> truthy (snd f) then Inr []
      else case snd f of
             JStr txt \<Rightarrow> Inr (scan_all INJECTION_PATTERNS (fst f) txt)
           | _ \<Rightarrow> Inl (ErrorObj ''field.value.match is not a function''))"


definition analyzeSecretLeakage :: "platform \<Rightarrow> jsval \<Rightarrow> a2a_finding list" where
  "analyzeSecretLeakage P c =
     scan_first A2A_SECRET_PATTERNS (JSON_stringify P c) (\<lambda>m.
       \<lparr>a_category = ''Secret Leakage'', a_severity = FCritical,
        a_title = ''Potential secret/credential found in agent card'',
        a_description = ''The agent card contains what appears to be an embedded credential or API key.'',
        a_evidence = Some (redact m),
        a_recommendation = Some ''Remove all secrets from the agent card. Use proper secrets management.''\<rparr>)"

subsection \<open>Fetching the agent card in the scanner\<close>

text \<open>\<^verbatim>\<open>[...new Set(attempts)]\<close>: the first occurrence of every element, in order.\<close>

fun unique_acc :: "'a list \<Rightarrow> 'a list \<Rightarrow> 'a list" where
  "unique_acc seen [] = seen"
| "unique_acc seen (x # xs) = (if x \<in> set seen then unique_acc seen xs else unique_acc (seen @ [x]) xs)"

definition unique :: "'a list \<Rightarrow> 'a list" where
  "unique xs = unique_acc [] xs"

text \<open>\<^verbatim>\<open>url.replace(/\/$/, '')\<close>: one trailing slash removed.\<close>

definition strip_one_slash :: "string \<Rightarrow> string" where
  "strip_one_slash s = (if s \<noteq> [] \<and> last s = CHR ''/'' then butlast s else s)"

definition uniqueAttempts :: "platform \<Rightarrow> jsval \<Rightarrow> string list js" where
  "uniqueAttempts P u =
     (case u of
        JStr s \<Rightarrow>
          (case URL_resolve P ''/.well-known/agent.json'' s of
             None \<Rightarrow> Inl invalid_url
           | Some wk \<Rightarrow> Inr (unique [s, strip_one_slash s @ ''/.well-known/agent.json'', wk]))
      | _ \<Rightarrow> Inl (ErrorObj ''url.replace is not a function''))"

definition confirms_scanner :: "jsval \<Rightarrow> bool" where
  "confirms_scanner data =
     (truthy data \<and> typeof_object data \<and>
      (truthy (get data ''name'') \<or> truthy (get data ''skills'') \<or> truthy (get data ''url'')))"

text \<open>One turn of the loop over the attempts: the card when the location answers with
  one, \<open>None\<close> when the loop goes on.\<close>

definition try_attempt :: "platform \<Rightarrow> network \<Rightarrow> string \<Rightarrow> jsval option" where
  "try_attempt P net attempt =
     (case net \<lparr>req_url = attempt, req_method = ''GET'',
                req_headers = [(''Accept'', JStr ''application/json'')], req_body = None\<rparr> of
        Inl e \<Rightarrow> None
      | Inr res \<Rightarrow>
          if ok res
          then (case response_json P res of
                  Inl e \<Rightarrow> None
                | Inr data \<Rightarrow> if confirms_scanner data then Some data else None)
          else None)"

record scanned_card =
  sc_card :: jsval
  sc_resolvedUrl :: string

fun try_attempts ::
  "platform \<Rightarrow> network \<Rightarrow> string list \<Rightarrow> string list \<Rightarrow> scanned_card js \<times> string list" where
  "try_attempts P net [] requested =
     (Inl (ErrorObj ''Could not fetch agent card from any well-known location''), requested)"
| "try_attempts P net (attempt # attempts) requested =
     (case try_attempt P net attempt of
        Some data \<Rightarrow> (Inr \<lparr>sc_card = data, sc_resolvedUrl = attempt\<rparr>, requested @ [attempt])
      | None \<Rightarrow> try_attempts P net attempts (requested @ [attempt]))"

text \<open>The scanner's \<^verbatim>\<open>fetchAgentCard\<close>: the card or the thrown error, and the locations
  it requested.\<close>

definition fetchAgentCard_scanner ::
  "platform \<Rightarrow> network \<Rightarrow> jsval \<Rightarrow> scanned_card js \<times> string list" where
  "fetchAgentCard_scanner P net u =
     (case uniqueAttempts P u of
        Inl e \<Rightarrow> (Inl e, [])
      | Inr attempts \<Rightarrow> try_attempts P net attempts [])"


section \<open>A platform for the worked examples\<close>

text \<open>
  The examples below need the platform's answers on concrete inputs.  The functions of
  this section give them for plain inputs only: http and https URLs made of a lower-case
  host name and a path that needs no normalisation, the JSON texts listed in
  \<open>example_texts\<close>, and decimal numerals.  On other inputs they answer as if the input were
  invalid, which need not be what the platform does; no example depends on such an answer
  except for strings that are plainly not URLs or not JSON.
\<close>

definition plain_host :: "string \<Rightarrow> bool" where
  "plain_host h =
     (h \<noteq> [] \<and> list_all (\<lambda>c. is_lower c \<or> is_digit c \<or> c = CHR ''.'' \<or> c = CHR ''-'') h \<and>
      (case last (split_on (CHR ''.'') h) of [] \<Rightarrow> False | c # cs \<Rightarrow> is_lower c))"

definition plain_path :: "string \<Rightarrow> bool" where
  "plain_path p =
     (list_all (\<lambda>c. c \<in> set (alnum @ ''/._-~'')) p \<and>
      ''.'' \<notin> set (split_on (CHR ''/'') p) \<and> ''..'' \<notin> set (split_on (CHR ''/'') p))"

definition plain_URL_parse :: "string \<Rightarrow> url option" where
  "plain_URL_parse s =
     (let scheme = (if prefix ''https://'' s then ''https''
                    else if prefix ''http://'' s then ''http'' else []);
          rest = drop (length scheme + 3) s;
          h = takeWhile (\<lambda>c. c \<noteq> CHR ''/'') rest;
          p = dropWhile (\<lambda>c. c \<noteq> CHR ''/'') rest
      in if scheme \<noteq> [] \<and> plain_host h \<and> plain_path p
         then Some \<lparr>protocol = scheme @ '':'', origin = scheme @ ''://'' @ h, hostname = h,
                    pathname = (if p = [] then ''/'' else p)\<rparr>
         else None)"

definition plain_URL_resolve :: "string \<Rightarrow> string \<Rightarrow> string option" where
  "plain_URL_resolve rel base =
     (case plain_URL_parse base of
        Some u \<Rightarrow> if prefix ''/'' rel \<and> plain_path rel then Some (origin u @ rel) else None
      | None \<Rightarrow> None)"

definition example_texts :: "(string \<times> jsval) list" where
  \<open>example_texts =
   [(''{"name":"agent"}'', JObj [(''name'', JStr ''agent'')]),
    (''{"description":"an agent"}'', JObj [(''description'', JStr ''an agent'')]),
    (''{"jsonrpc":"2.0","id":1,"result":{"protocolVersion":"2024-11-05","serverInfo":{"name":"srv","version":"1"},"capabilities":{}}}'',
     JObj [(''jsonrpc'', JStr ''2.0''), (''id'', JNum 1),
           (''result'', JObj [(''protocolVersion'', JStr ''2024-11-05''),
                              (''serverInfo'', JObj [(''name'', JStr ''srv''), (''version'', JStr ''1'')]),
                              (''capabilities'', JObj [])])]),
    (''{"jsonrpc":"2.0","id":99,"error":{"code":-32601,"message":"Method not found"}}'',
     JObj [(''jsonrpc'', JStr ''2.0''), (''id'', JNum 99),
           (''error'', JObj [(''code'', JNum (-32601)), (''message'', JStr ''Method not found'')])])]\<close>

definition example_JSON_parse :: "string \<Rightarrow> jsval js" where
  "example_JSON_parse txt =
     (case map_of example_texts txt of
        Some v \<Rightarrow> Inr v
      | None \<Rightarrow> Inl (ErrorObj ''Unexpected token''))"

definition hex_digit :: "nat \<Rightarrow> char" where
  "hex_digit d = ''0123456789abcdef'' ! d"

definition escape_char :: "char \<Rightarrow> string" where
  "escape_char c =
     (if c = CHR 0x22 then [CHR 0x5C, CHR 0x22]
      else if c = CHR 0x5C then [CHR 0x5C, CHR 0x5C]
      else if c = CHR 0x08 then [CHR 0x5C, CHR ''b'']
      else if c = CHR 0x09 then [CHR 0x5C, CHR ''t'']
      else if c = CHR 0x0A then [CHR 0x5C, CHR ''n'']
      else if c = CHR 0x0C then [CHR 0x5C, CHR ''f'']
      else if c = CHR 0x0D then [CHR 0x5C, CHR ''r'']
      else if (of_char c :: nat) < 32
      then [CHR 0x5C, CHR ''u'', CHR ''0'', CHR ''0'', hex_digit (of_char c div 16),
            hex_digit (of_char c mod 16)]
      else [c])"

definition json_quote :: "string \<Rightarrow> string" where
  "json_quote txt = [CHR 0x22] @ concat (map escape_char txt) @ [CHR 0x22]"

text \<open>\<^verbatim>\<open>JSON.stringify\<close> of a value: properties that are \<^verbatim>\<open>undefined\<close> are left out,
  \<^verbatim>\<open>undefined\<close> elements of an array print as \<^verbatim>\<open>null\<close>.\<close>

fun plain_stringify :: "jsval \<Rightarrow> string"
  and stringify_elems :: "jsval list \<Rightarrow> string list"
  and stringify_props :: "(string \<times> jsval) list \<Rightarrow> string list"
  and stringify_prop :: "string \<times> jsval \<Rightarrow> string list" where
  "plain_stringify Undefined = ''null''"
| "plain_stringify Null = ''null''"
| "plain_stringify (JBool b) = (if b then ''true'' else ''false'')"
| "plain_stringify (JNum n) = show_int n"
| "plain_stringify (JStr txt) = json_quote txt"
| "plain_stringify (JArr xs) = ''['' @ intercalate '','' (stringify_elems xs) @ '']''"
| "plain_stringify (JObj kvs) = ''{'' @ intercalate '','' (stringify_props kvs) @ ''}''"
| "stringify_elems [] = []"
| "stringify_elems (x # xs) = plain_stringify x # stringify_elems xs"
| "stringify_props [] = []"
| "stringify_props (kv # kvs) = stringify_prop kv @ stringify_props kvs"
| "stringify_prop (k, v) = (if v = Undefined then [] else [json_quote k @ '':'' @ plain_stringify v])"

definition b64_alphabet :: string where
  "b64_alphabet = uppers @ lowers @ digits @ ''+/''"

fun b64 :: "nat list \<Rightarrow> string" where
  "b64 [] = []"
| "b64 [a] = [b64_alphabet ! (a div 4), b64_alphabet ! ((a mod 4) * 16), CHR ''='', CHR ''='']"
| "b64 [a, b] = [b64_alphabet ! (a div 4), b64_alphabet ! ((a mod 4) * 16 + b div 16),
                 b64_alphabet ! ((b mod 16) * 4), CHR ''='']"
| "b64 (a # b # c # rest) =
     [b64_alphabet ! (a div 4), b64_alphabet ! ((a mod 4) * 16 + b div 16),
      b64_alphabet ! ((b mod 16) * 4 + c div 64), b64_alphabet ! (c mod 64)] @ b64 rest"

definition utf8 :: "char \<Rightarrow> nat list" where
  "utf8 c = (let n = of_char c in if n < 128 then [n] else [192 + n div 64, 128 + n mod 64])"

definition plain_base64 :: "jsval \<Rightarrow> string js" where
  "plain_base64 v =
     (case v of
        JStr txt \<Rightarrow> Inr (b64 (concat (map utf8 txt)))
      | _ \<Rightarrow> Inl (ErrorObj ''The first argument must be of type string or an instance of Buffer, ArrayBuffer, or Array or an Array-like Object.''))"

definition digit_value :: "char \<Rightarrow> nat" where
  "digit_value c = length (takeWhile (\<lambda>d. d \<noteq> c) digits)"

definition plain_loop_bound :: "string \<Rightarrow> nat" where
  "plain_loop_bound txt =
     (if txt \<noteq> [] \<and> list_all is_digit txt
      then foldl (\<lambda>n c. 10 * n + digit_value c) 0 txt else 0)"

definition example_platform :: platform where
  "example_platform =
     \<lparr>URL_parse = plain_URL_parse, JSON_parse = example_JSON_parse,
      JSON_stringify = plain_stringify, base64 = plain_base64,
      URL_resolve = plain_URL_resolve, loop_bound = plain_loop_bound\<rparr>"


subsection \<open>Example networks and documents\<close>

definition ok_json :: "string \<Rightarrow> response" where
  "ok_json txt = \<lparr>status = 200, statusText = ''OK'',
                  resp_headers = [(''content-type'', ''application/json'')],
                  resp_text = Inr txt\<rparr>"

definition not_found :: response where
  "not_found = \<lparr>status = 404, statusText = ''Not Found'', resp_headers = [],
                resp_text = Inr []\<rparr>"

text \<open>Every location answers 404.\<close>

definition net_404 :: network where
  "net_404 req = Inr not_found"

text \<open>No connection can be made.\<close>

definition net_down :: network where
  "net_down req = Inl (ErrorObj ''fetch failed'')"

text \<open>Only the well-known location of the origin serves the card.\<close>

definition net_well_known :: network where
  \<open>net_well_known req =
     (if req_url req = ''https://x.test/.well-known/agent.json''
      then Inr (ok_json ''{"name":"agent"}'') else Inr not_found)\<close>

text \<open>The identity itself serves a card with a name.\<close>

definition net_card :: network where
  \<open>net_card req =
     (if req_url req = ''https://x.test/card.json''
      then Inr (ok_json ''{"name":"agent"}'') else Inr not_found)\<close>

text \<open>The identity itself serves a document with a description and nothing else.\<close>

definition net_description :: network where
  \<open>net_description req =
     (if req_url req = ''https://x.test/agent''
      then Inr (ok_json ''{"description":"an agent"}'') else Inr not_found)\<close>

text \<open>A tool server that answers the initialize request and rejects the ping.\<close>

definition net_mcp :: network where
  \<open>net_mcp req =
     (if req_body req = Some ping_body
      then Inr (ok_json ''{"jsonrpc":"2.0","id":99,"error":{"code":-32601,"message":"Method not found"}}'')
      else Inr (ok_json ''{"jsonrpc":"2.0","id":1,"result":{"protocolVersion":"2024-11-05","serverInfo":{"name":"srv","version":"1"},"capabilities":{}}}''))\<close>

definition card_name_only :: jsval where
  "card_name_only = JObj [(''name'', JStr ''agent'')]"



text \<open>A profile with one service whose version is not of the 4-2-2 shape.\<close>

definition profile_bad_version :: jsval where
  "profile_bad_version =
     JObj [(''ucp'', JObj [(''version'', JStr ''2026-01-23''),
        (''services'', JObj [(''dev.ucp.shopping'',
            JObj [(''version'', JStr ''2025-1-4''),
                  (''spec'', JStr ''https://ucp.dev/spec/shopping'')])])])]"

text \<open>A profile whose REST endpoint is a number.\<close>

definition profile_numeric_endpoint :: jsval where
  "profile_numeric_endpoint =
     JObj [(''ucp'', JObj [(''services'', JObj [(''dev.ucp.shopping'',
            JObj [(''version'', JStr ''2026-01-23''),
                  (''transport'', JObj [(''rest'', JObj [(''endpoint'', JNum 5)])])])])])]"

definition tool_of :: "string \<Rightarrow> jsval" where
  "tool_of desc = JObj [(''name'', JStr ''t''), (''description'', JStr desc)]"

subsection \<open>Reading results\<close>

definition json_of :: "'a http_response \<Rightarrow> 'a option" where
  "json_of r = (case r of Json x \<Rightarrow> Some x | ErrorResponse c m \<Rightarrow> None)"

definition returned :: "'a js \<Rightarrow> 'a option" where
  "returned r = (case r of Inr x \<Rightarrow> Some x | Inl e \<Rightarrow> None)"


text \<open>All matches of a catalog on a text, in catalog order: what an exhaustive detector
  would report, and the first of which a first-match detector reports.\<close>

definition matches_in_catalog_order :: "regex list \<Rightarrow> string \<Rightarrow> string list" where
  "matches_in_catalog_order patterns txt = List.map_filter (\<lambda>p. js_match p txt) patterns"


text \<open>The number of results that did not pass and have the given severity: the count
  the specification of the report speaks of.\<close>

definition failed_with :: "severity \<Rightarrow> compliance_result list \<Rightarrow> nat" where
  "failed_with sev results = length (filter (\<lambda>x. \<not> passed x \<and> severity x = sev) results)"

subsection \<open>Example requests\<close>

definition example_now :: string where
  "example_now = ''2026-01-01T00:00:00.000Z''"

definition a2a_request :: jsval where
  "a2a_request = JObj [(''agentCardUrl'', JStr ''https://x.test/card.json'')]"

definition ucp_request :: jsval where
  "ucp_request = JObj [(''endpoint'', JStr ''https://shop.test'')]"

definition mcp_request :: jsval where
  "mcp_request = JObj [(''serverUrl'', JStr ''https://x.test/mcp'')]"

definition mcp_request_none :: jsval where
  "mcp_request_none = JObj [(''serverUrl'', JStr ''https://x.test/mcp''), (''authType'', JStr ''none'')]"

definition mcp_server_config :: jsval where
  "mcp_server_config = JObj [(''name'', JStr ''srv''), (''url'', JStr ''https://x.test/mcp'')]"

definition mcp_init_response :: jsval where
  "mcp_init_response = JObj [(''protocolVersion'', JStr ''2024-11-05'')]"

section \<open>The counts of a report\<close>


lemma count_failed_eq: "count_failed rs = failed_with Critical rs"
  by (simp add: count_failed_def failed_with_def)
lemma count_warning_eq: "count_warning rs = failed_with Warning rs"
  by (simp add: count_warning_def failed_with_def)
lemma warning_or_info_split:
  "count_warning_or_info results = failed_with Warning results + failed_with Info results"
  by (induction results) (auto simp add: count_warning_or_info_def failed_with_def)

lemma mcp_route_shape:
  "mcp_route_POST P net now body = Json r \<Longrightarrow>
   \<exists>probe results. r = mcp_route_report_of now probe results"
  by (auto simp add: mcp_route_POST_def mcp_route_run_def internal_error_def bindE_def Let_def
      split: sum.splits if_splits)

lemma ucp_route_shape:
  "ucp_route_POST P net now body = Json r \<Longrightarrow>
   \<exists>profileUrl results raw. r = ucp_route_report_of now profileUrl results raw"
  by (auto simp add: ucp_route_POST_def ucp_route_run_def internal_error_def bindE_def Let_def
      split: sum.splits if_splits jsval.splits)

lemma a2a_route_shape:
  "a2a_route_POST P net now body = Json r \<Longrightarrow>
   (\<exists>fetched. r = a2a_fetch_failure_report now fetched) \<or>
   (\<exists>fetched results. r = a2a_route_report_of now fetched results)"
  by (auto simp add: a2a_route_POST_def a2a_route_run_def internal_error_def bindE_def Let_def
      split: sum.splits if_splits prod.splits)

lemma counts_mcp_route:
  "mcp_route_POST P net now body = Json r \<Longrightarrow>
   mr_failedCount r = failed_with Critical (mr_results r) \<and>
   mr_warningCount r = failed_with Warning (mr_results r)"
  by (auto dest!: mcp_route_shape simp add: mcp_route_report_of_def count_failed_eq count_warning_eq)

lemma counts_ucp_route:
  "ucp_route_POST P net now body = Json r \<Longrightarrow>
   ur_failedCount r = failed_with Critical (ur_results r) \<and>
   ur_warningCount r = failed_with Warning (ur_results r)"
  by (auto dest!: ucp_route_shape simp add: ucp_route_report_of_def count_failed_eq count_warning_eq)

lemma counts_a2a_route:
  "a2a_route_POST P net now body = Json r \<Longrightarrow>
   ar_failedCount r = failed_with Critical (ar_results r) \<and>
   ar_warningCount r = failed_with Warning (ar_results r) + failed_with Info (ar_results r)"
  by (auto dest!: a2a_route_shape simp add: a2a_route_report_of_def a2a_fetch_failure_report_def
      count_failed_eq warning_or_info_split failed_with_def)

lemma counts_ucp_sdk:
  "checkUCPCompliance P now profile baseUrl = Inr r \<Longrightarrow>
   ucp_failedCount r = failed_with Critical (ucp_results r) \<and>
   ucp_warningCount r = failed_with Warning (ucp_results r)"
  by (auto simp add: checkUCPCompliance_def bindE_def Let_def count_failed_eq count_warning_eq
      split: sum.splits)

lemma counts_a2a_sdk:
  "checkA2ACompliance P now agentCard agentId = Inr r \<Longrightarrow>
   a2a_failedCount r = failed_with Critical (a2a_results r) \<and>
   a2a_warningCount r = failed_with Warning (a2a_results r)"
  by (auto simp add: checkA2ACompliance_def bindE_def Let_def count_failed_eq count_warning_eq
      split: sum.splits)

lemma counts_mcp_sdk:
  "checkMCPCompliance now server response = Inr r \<Longrightarrow>
   mcp_failedCount r = failed_with Critical (mcp_results r) \<and>
   mcp_warningCount r = failed_with Warning (mcp_results r)"
  by (auto simp add: checkMCPCompliance_def bindE_def Let_def count_failed_eq count_warning_eq
      split: sum.splits)

lemma json_of_Some: "json_of x = Some r \<longleftrightarrow> x = Json r"
  by (cases x) (simp_all add: json_of_def)

lemma returned_Some: "returned x = Some r \<longleftrightarrow> x = Inr r"
  by (cases x) (simp_all add: returned_def)

text \<open>
  Claim C1, as amended.  In every report of the commerce-profile route and SDK, of the
  tool-protocol route and SDK and of the agent-protocol SDK, \<^verbatim>\<open>failedCount\<close> is the number
  of results that did not pass and are critical, and \<^verbatim>\<open>warningCount\<close> the number of
  results that did not pass and are warnings; a failed result of severity info is in
  neither.  In every report of the agent-protocol compliance route \<^verbatim>\<open>failedCount\<close> is
  the same number, and \<^verbatim>\<open>warningCount\<close> counts the failed results of severity warning
  and those of severity info.
\<close>

theorem C1_counts_by_runner:
  "(\<forall>r. ucp_route_POST P net now body = Json r \<longrightarrow>
        ur_failedCount r = failed_with Critical (ur_results r) \<and>
        ur_warningCount r = failed_with Warning (ur_results r)) \<and>
   (\<forall>r. checkUCPCompliance P now doc baseUrl = Inr r \<longrightarrow>
        ucp_failedCount r = failed_with Critical (ucp_results r) \<and>
        ucp_warningCount r = failed_with Warning (ucp_results r)) \<and>
   (\<forall>r. mcp_route_POST P net now body = Json r \<longrightarrow>
        mr_failedCount r = failed_with Critical (mr_results r) \<and>
        mr_warningCount r = failed_with Warning (mr_results r)) \<and>
   (\<forall>r. checkMCPCompliance now server doc = Inr r \<longrightarrow>
        mcp_failedCount r = failed_with Critical (mcp_results r) \<and>
        mcp_warningCount r = failed_with Warning (mcp_results r)) \<and>
   (\<forall>r. checkA2ACompliance P now doc agentId = Inr r \<longrightarrow>
        a2a_failedCount r = failed_with Critical (a2a_results r) \<and>
        a2a_warningCount r = failed_with Warning (a2a_results r)) \<and>
   (\<forall>r. a2a_route_POST P net now body = Json r \<longrightarrow>
        ar_failedCount r = failed_with Critical (ar_results r) \<and>
        ar_warningCount r = failed_with Warning (ar_results r) + failed_with Info (ar_results r))"
proof -
  have 1: "\<forall>r. ucp_route_POST P net now body = Json r \<longrightarrow>
        ur_failedCount r = failed_with Critical (ur_results r) \<and>
        ur_warningCount r = failed_with Warning (ur_results r)"
    using counts_ucp_route by simp
  have 2: "\<forall>r. checkUCPCompliance P now doc baseUrl = Inr r \<longrightarrow>
        ucp_failedCount r = failed_with Critical (ucp_results r) \<and>
        ucp_warningCount r = failed_with Warning (ucp_results r)"
    using counts_ucp_sdk by simp
  have 3: "\<forall>r. mcp_route_POST P net now body = Json r \<longrightarrow>
        mr_failedCount r = failed_with Critical (mr_results r) \<and>
        mr_warningCount r = failed_with Warning (mr_results r)"
    using counts_mcp_route by simp
  have 4: "\<forall>r. checkMCPCompliance now server doc = Inr r \<longrightarrow>
        mcp_failedCount r = failed_with Critical (mcp_results r) \<and>
        mcp_warningCount r = failed_with Warning (mcp_results r)"
    using counts_mcp_sdk by simp
  have 5: "\<forall>r. checkA2ACompliance P now doc agentId = Inr r \<longrightarrow>
        a2a_failedCount r = failed_with Critical (a2a_results r) \<and>
        a2a_warningCount r = failed_with Warning (a2a_results r)"
    using counts_a2a_sdk by simp
  have 6: "\<forall>r. a2a_route_POST P net now body = Json r \<longrightarrow>
        ar_failedCount r = failed_with Critical (ar_results r) \<and>
        ar_warningCount r = failed_with Warning (ar_results r) + failed_with Info (ar_results r)"
    using counts_a2a_route by simp
  show ?thesis by (intro 1 2 3 4 5 6 conjI)
qed

lemma ex_a2a_route:
  "map_option ar_warningCount (json_of (a2a_route_POST example_platform net_card example_now a2a_request)) = Some 4 \<and>
   map_option (failed_with Warning \<circ> ar_results)
     (json_of (a2a_route_POST example_platform net_card example_now a2a_request)) = Some 2"
  by code_simp

text \<open>
  The claim as stated fails on the agent-protocol compliance route: for a card that has a
  name and nothing else, the report's \<^verbatim>\<open>warningCount\<close> is 4, while only 2 of its results
  are failed warnings (the other two are failed results of severity info).
\<close>

theorem C1_counterexample:
  "map_option ar_warningCount
     (json_of (a2a_route_POST example_platform net_card example_now a2a_request)) = Some 4 \<and>
   map_option (failed_with Warning \<circ> ar_results)
     (json_of (a2a_route_POST example_platform net_card example_now a2a_request)) = Some 2"
  by (rule ex_a2a_route)

lemma ex_ucp_route:
  "map_option ur_failedCount (json_of (ucp_route_POST example_platform net_404 example_now ucp_request)) = Some 1 \<and>
   map_option ur_warningCount (json_of (ucp_route_POST example_platform net_404 example_now ucp_request)) = Some 1"
  by code_simp

lemma ex_ucp_sdk:
  "map_option ucp_failedCount (returned (checkUCPCompliance example_platform example_now profile_bad_version [])) = Some 7 \<and>
   map_option ucp_warningCount (returned (checkUCPCompliance example_platform example_now profile_bad_version [])) = Some 0"
  by code_simp

lemma ex_mcp_route:
  "map_option mr_failedCount (json_of (mcp_route_POST example_platform net_down example_now mcp_request)) = Some 3 \<and>
   map_option mr_warningCount (json_of (mcp_route_POST example_platform net_down example_now mcp_request)) = Some 1"
  by code_simp

lemma ex_mcp_sdk:
  "map_option mcp_failedCount (returned (checkMCPCompliance example_now mcp_server_config mcp_init_response)) = Some 2 \<and>
   map_option mcp_warningCount (returned (checkMCPCompliance example_now mcp_server_config mcp_init_response)) = Some 2"
  by code_simp

lemma ex_a2a_sdk:
  "map_option a2a_failedCount (returned (checkA2ACompliance example_platform example_now card_name_only [])) = Some 4 \<and>
   map_option a2a_warningCount (returned (checkA2ACompliance example_platform example_now card_name_only [])) = Some 1"
  by code_simp

theorem C1_witness:
  "(\<exists>r. ucp_route_POST example_platform net_404 example_now ucp_request = Json r \<and>
        failed_with Critical (ur_results r) = 1 \<and> failed_with Warning (ur_results r) = 1) \<and>
   (\<exists>r. checkUCPCompliance example_platform example_now profile_bad_version [] = Inr r \<and>
        failed_with Critical (ucp_results r) = 7 \<and> failed_with Warning (ucp_results r) = 0) \<and>
   (\<exists>r. mcp_route_POST example_platform net_down example_now mcp_request = Json r \<and>
        failed_with Critical (mr_results r) = 3 \<and> failed_with Warning (mr_results r) = 1) \<and>
   (\<exists>r. checkMCPCompliance example_now mcp_server_config mcp_init_response = Inr r \<and>
        failed_with Critical (mcp_results r) = 2 \<and> failed_with Warning (mcp_results r) = 2) \<and>
   (\<exists>r. checkA2ACompliance example_platform example_now card_name_only [] = Inr r \<and>
        failed_with Critical (a2a_results r) = 4 \<and> failed_with Warning (a2a_results r) = 1) \<and>
   (\<exists>r. a2a_route_POST example_platform net_card example_now a2a_request = Json r \<and>
        ar_warningCount r = 4 \<and>
        failed_with Warning (ar_results r) + failed_with Info (ar_results r) = 4)"
proof -
  note T = C1_counts_by_runner [where P = example_platform and now = example_now]
  have 1: "\<exists>r. ucp_route_POST example_platform net_404 example_now ucp_request = Json r \<and>
        failed_with Critical (ur_results r) = 1 \<and> failed_with Warning (ur_results r) = 1"
    using ex_ucp_route T [where net = net_404 and body = ucp_request]
    by (auto simp add: json_of_Some)
  have 2: "\<exists>r. checkUCPCompliance example_platform example_now profile_bad_version [] = Inr r \<and>
        failed_with Critical (ucp_results r) = 7 \<and> failed_with Warning (ucp_results r) = 0"
    using ex_ucp_sdk T [where doc = profile_bad_version and baseUrl = "[]"]
    by (auto simp add: returned_Some)
  have 3: "\<exists>r. mcp_route_POST example_platform net_down example_now mcp_request = Json r \<and>
        failed_with Critical (mr_results r) = 3 \<and> failed_with Warning (mr_results r) = 1"
    using ex_mcp_route T [where net = net_down and body = mcp_request]
    by (auto simp add: json_of_Some)
  have 4: "\<exists>r. checkMCPCompliance example_now mcp_server_config mcp_init_response = Inr r \<and>
        failed_with Critical (mcp_results r) = 2 \<and> failed_with Warning (mcp_results r) = 2"
    using ex_mcp_sdk T [where server = mcp_server_config and doc = mcp_init_response]
    by (auto simp add: returned_Some)
  have 5: "\<exists>r. checkA2ACompliance example_platform example_now card_name_only [] = Inr r \<and>
        failed_with Critical (a2a_results r) = 4 \<and> failed_with Warning (a2a_results r) = 1"
    using ex_a2a_sdk T [where doc = card_name_only and agentId = "[]"]
    by (auto simp add: returned_Some)
  have 6: "\<exists>r. a2a_route_POST example_platform net_card example_now a2a_request = Json r \<and>
        ar_warningCount r = 4 \<and>
        failed_with Warning (ar_results r) + failed_with Info (ar_results r) = 4"
    using ex_a2a_route T [where net = net_card and body = a2a_request]
    by (auto simp add: json_of_Some)
  show ?thesis by (intro 1 2 3 4 5 6 conjI)
qed

section \<open>Fault isolation between rules\<close>










section \<open>The authentication rule of an unauthenticated run\<close>










section \<open>Rules of severity info\<close>

























section \<open>The version-format rule of the commerce profile\<close>











lemma ex_bad_version_sdk:
  "map_option ruleId (returned (sdk_service_version profile_bad_version)) =
   Some ''ucp-service-version''"
  by code_simp



section \<open>Findings per field and catalog\<close>

lemma scan_first_take:
  "scan_first patterns txt mk = map mk (take 1 (matches_in_catalog_order patterns txt))"
  by (induction patterns)
     (simp_all add: matches_in_catalog_order_def map_filter_simps split: option.splits)



lemma scan_field_string:
  "scan_field (field_name, JStr txt) =
   Inr (if txt = [] then [] else scan_all INJECTION_PATTERNS field_name txt)"
  by (simp add: scan_field_def)






lemma secret_first:
  "map_option (map evidence) (returned (analyzeToolForSecretLeakage tool)) =
   map_option (\<lambda>desc. map (\<lambda>m. Some (redact m))
                        (take 1 (matches_in_catalog_order SECRET_PATTERNS desc)))
     (returned (tool_desc tool))"
  by (cases "tool_desc tool")
     (simp_all add: analyzeToolForSecretLeakage_def bindE_def returned_def scan_first_take
        comp_def)


lemma instructions_first:
  "map evidence (instructions_hidden txt) =
     map Some (take 1 (matches_in_catalog_order HIDDEN_INSTRUCTION_PATTERNS txt))"
  "map evidence (instructions_shadowing txt) =
     map Some (take 1 (matches_in_catalog_order SHADOWING_PATTERNS txt))"
  "map evidence (instructions_secrets txt) =
     map (\<lambda>m. Some (redact m)) (take 1 (matches_in_catalog_order SECRET_PATTERNS txt))"
  by (simp_all add: instructions_hidden_def instructions_shadowing_def instructions_secrets_def
      scan_first_take comp_def)

lemma card_secret_first:
  "map a_evidence (analyzeSecretLeakage P c) =
   map (\<lambda>m. Some (redact m))
     (take 1 (matches_in_catalog_order A2A_SECRET_PATTERNS (JSON_stringify P c)))"
  by (simp add: analyzeSecretLeakage_def scan_first_take comp_def)








section \<open>Redaction of secrets in the evidence\<close>

lemma redact_prefix: "take 10 m = take 10 m' \<Longrightarrow> redact m = redact m'"
  by (simp add: redact_def)

lemma redact_short: "length m \<le> 10 \<Longrightarrow> sublist m (redact m)"
  by (simp add: redact_def)

lemma redact_long: "23 < length m \<Longrightarrow> \<not> sublist m (redact m)"
proof
  assume a: "23 < length m" and b: "sublist m (redact m)"
  from b have "length m \<le> length (redact m)" by (rule sublist_length_le)
  with a show False by (simp add: redact_def)
qed

lemma redact_form: "redact m = take 10 m @ ''...[REDACTED]''"
  by (simp add: redact_def)

text \<open>
  What the redaction keeps and what it hides.  The evidence of a finding of a secret
  detector (on a tool description, on the server instructions and on the serialized agent
  card) is the first ten characters of the text matched by the first matching secret
  pattern, followed by \<^verbatim>\<open>...[REDACTED]\<close>; two matches that agree on their first ten
  characters give the same evidence.  The evidence does not contain a match of more than
  23 characters, and it contains every match of at most ten characters in full.
\<close>

lemma redacted_evidence:
  "map_option (map evidence) (returned (analyzeToolForSecretLeakage tool)) =
     map_option (\<lambda>desc. map (\<lambda>m. Some (redact m))
                          (take 1 (matches_in_catalog_order SECRET_PATTERNS desc)))
       (returned (tool_desc tool)) \<and>
   map evidence (instructions_secrets txt) =
     map (\<lambda>m. Some (redact m)) (take 1 (matches_in_catalog_order SECRET_PATTERNS txt)) \<and>
   map a_evidence (analyzeSecretLeakage P c) =
     map (\<lambda>m. Some (redact m))
       (take 1 (matches_in_catalog_order A2A_SECRET_PATTERNS (JSON_stringify P c))) \<and>
   redact m = take 10 m @ ''...[REDACTED]'' \<and>
   (take 10 m = take 10 m' \<longrightarrow> redact m = redact m') \<and>
   (23 < length m \<longrightarrow> \<not> sublist m (redact m)) \<and>
   (length m \<le> 10 \<longrightarrow> sublist m (redact m))"
proof -
  have 5: "take 10 m = take 10 m' \<longrightarrow> redact m = redact m'"
    using redact_prefix by blast
  have 6: "23 < length m \<longrightarrow> \<not> sublist m (redact m)"
    using redact_long by blast
  have 7: "length m \<le> 10 \<longrightarrow> sublist m (redact m)"
    using redact_short by blast
  show ?thesis
    by (intro secret_first instructions_first(3) card_secret_first redact_form 5 6 7 conjI)
qed

lemma ex_long_secret:
  "returned (tool_desc (tool_of ''key sk-abcdefghijklmnopqrstuvwxyz'')) =
     Some ''key sk-abcdefghijklmnopqrstuvwxyz'' \<and>
   matches_in_catalog_order SECRET_PATTERNS ''key sk-abcdefghijklmnopqrstuvwxyz'' =
     [''sk-abcdefghijklmnopqrstuvwxyz'']"
  by code_simp

lemma redacted_evidence_example:
  "map_option (map evidence)
     (returned (analyzeToolForSecretLeakage (tool_of ''key sk-abcdefghijklmnopqrstuvwxyz''))) =
     Some [Some ''sk-abcdefg...[REDACTED]''] \<and>
   redact ''sk-abcdefghijklmnopqrstuvwxyz'' = redact ''sk-abcdefg0123456789012345'' \<and>
   \<not> sublist ''sk-abcdefghijklmnopqrstuvwxyz'' (redact ''sk-abcdefghijklmnopqrstuvwxyz'') \<and>
   sublist ''Bearer abc'' (redact ''Bearer abc'')"
proof -
  note T = redacted_evidence [where tool = "tool_of ''key sk-abcdefghijklmnopqrstuvwxyz''"
      and m = "''sk-abcdefghijklmnopqrstuvwxyz''" and m' = "''sk-abcdefg0123456789012345''"]
  note S = redacted_evidence [where m = "''Bearer abc''"]
  have 1: "map_option (map evidence)
     (returned (analyzeToolForSecretLeakage (tool_of ''key sk-abcdefghijklmnopqrstuvwxyz''))) =
     Some [Some ''sk-abcdefg...[REDACTED]'']"
    using T [THEN conjunct1] ex_long_secret by (simp add: redact_def)
  have 2: "redact ''sk-abcdefghijklmnopqrstuvwxyz'' = redact ''sk-abcdefg0123456789012345''"
    using T [THEN conjunct2, THEN conjunct2, THEN conjunct2, THEN conjunct2, THEN conjunct1]
    by simp
  have 3: "\<not> sublist ''sk-abcdefghijklmnopqrstuvwxyz'' (redact ''sk-abcdefghijklmnopqrstuvwxyz'')"
    using T [THEN conjunct2, THEN conjunct2, THEN conjunct2, THEN conjunct2, THEN conjunct2,
        THEN conjunct1]
    by simp
  have 4: "sublist ''Bearer abc'' (redact ''Bearer abc'')"
    using S [THEN conjunct2, THEN conjunct2, THEN conjunct2, THEN conjunct2, THEN conjunct2,
        THEN conjunct2]
    by simp
  show ?thesis by (intro 1 2 3 4 conjI)
qed

text \<open>
  Claim C5.  The evidence of a finding of a secret detector is to be the first ten
  characters of the match and the marker, and never the whole matched credential.  On a
  short secret the code keeps all of it: in the tool description \<^verbatim>\<open>Bearer abc\<close> the
  bearer pattern matches the ten characters \<^verbatim>\<open>Bearer abc\<close>, and the evidence of the
  finding, \<^verbatim>\<open>Bearer abc...[REDACTED]\<close>, contains them all, the token included.
\<close>

theorem C5_short_secret_kept:
  "matches_in_catalog_order SECRET_PATTERNS ''Bearer abc'' = [''Bearer abc''] \<and>
   map_option (map evidence) (returned (analyzeToolForSecretLeakage (tool_of ''Bearer abc''))) =
     Some [Some ''Bearer abc...[REDACTED]''] \<and>
   sublist ''Bearer abc'' ''Bearer abc...[REDACTED]'' \<and>
   sublist ''abc'' ''Bearer abc...[REDACTED]''"
  by code_simp


section \<open>Discovery of the agent card: falling back to the well-known location\<close>

lemma try_attempts_skip:
  "try_attempt P net a = None \<Longrightarrow>
   try_attempts P net (a # attempts) requested = try_attempts P net attempts (requested @ [a])"
  by simp

lemma try_attempts_hit:
  "try_attempt P net a = Some data \<Longrightarrow>
   try_attempts P net (a # attempts) requested =
   (Inr \<lparr>sc_card = data, sc_resolvedUrl = a\<rparr>, requested @ [a])"
  by simp

lemma scanner_third:
  assumes r: "URL_resolve P ''/.well-known/agent.json'' s = Some wk"
    and 1: "try_attempt P net s = None"
    and 2: "try_attempt P net (strip_one_slash s @ ''/.well-known/agent.json'') = None"
    and 3: "try_attempt P net wk = Some data"
  shows "fetchAgentCard_scanner P net (JStr s) =
         (Inr \<lparr>sc_card = data, sc_resolvedUrl = wk\<rparr>,
          unique [s, strip_one_slash s @ ''/.well-known/agent.json'', wk])"
proof -
  from 1 3 have a: "wk \<noteq> s" by auto
  from 2 3 have b: "wk \<noteq> strip_one_slash s @ ''/.well-known/agent.json''" by auto
  show ?thesis
  proof (cases "strip_one_slash s @ ''/.well-known/agent.json'' = s")
    case True
    with a b r 1 3 show ?thesis
      by (simp add: fetchAgentCard_scanner_def uniqueAttempts_def unique_def)
  next
    case False
    with a b r 1 2 3 show ?thesis
      by (simp add: fetchAgentCard_scanner_def uniqueAttempts_def unique_def)
  qed
qed

lemma route_json_only:
  assumes "suffix ''.json'' b" and "URL_parse P b \<noteq> None"
    and "try_card_url P net headers b = Inl line"
  shows "fetchAgentCard_route P net (JStr b) headers =
         Inr (\<lparr>card = Null, resolvedUrl = b,
               fetch_error = Some (''Could not fetch agent card. Tried: '' @ line)\<rparr>, [b])"
  using assms
  by (auto simp add: fetchAgentCard_route_def urlsToTry_def bindE_def)


lemma route_third:
  assumes "\<not> suffix ''.json'' b" and "URL_parse P b = Some u"
    and "try_card_url P net headers b = Inl l1"
    and "try_card_url P net headers
           (origin u @ strip_trailing_slashes (pathname u) @ ''/.well-known/agent.json'') = Inl l2"
    and "try_card_url P net headers (origin u @ ''/.well-known/agent.json'') = Inr found"
  shows "fetchAgentCard_route P net (JStr b) headers =
         Inr (found, [b, origin u @ strip_trailing_slashes (pathname u) @ ''/.well-known/agent.json'',
                      origin u @ ''/.well-known/agent.json''])"
  using assms
  by (simp add: fetchAgentCard_route_def urlsToTry_def bindE_def Let_def)

text \<open>
  Claim C6, as amended.  In the scanner, an identity that does not answer with a
  confirming document, whose own \<^verbatim>\<open>/.well-known/agent.json\<close> does not either, and whose
  origin serves a confirming document at \<^verbatim>\<open>/.well-known/agent.json\<close> is resolved to that
  last location, after a request to each candidate.  In the compliance route an
  identity that ends in \<^verbatim>\<open>.json\<close> is the only candidate: when it fails, discovery
  fails with the error of that one request, and no well-known location is requested; the
  route goes on to the well-known locations only for an identity that does not end in
  \<^verbatim>\<open>.json\<close>.
\<close>

theorem C6_discovery_fallback:
  "(\<forall>s wk data.
      URL_resolve P ''/.well-known/agent.json'' s = Some wk \<and>
      try_attempt P net s = None \<and>
      try_attempt P net (strip_one_slash s @ ''/.well-known/agent.json'') = None \<and>
      try_attempt P net wk = Some data \<longrightarrow>
      fetchAgentCard_scanner P net (JStr s) =
        (Inr \<lparr>sc_card = data, sc_resolvedUrl = wk\<rparr>,
         unique [s, strip_one_slash s @ ''/.well-known/agent.json'', wk])) \<and>
   (\<forall>b line.
      suffix ''.json'' b \<and> URL_parse P b \<noteq> None \<and> try_card_url P net headers b = Inl line \<longrightarrow>
      fetchAgentCard_route P net (JStr b) headers =
        Inr (\<lparr>card = Null, resolvedUrl = b,
              fetch_error = Some (''Could not fetch agent card. Tried: '' @ line)\<rparr>, [b])) \<and>
   (\<forall>b u l1 l2 found.
      \<not> suffix ''.json'' b \<and> URL_parse P b = Some u \<and>
      try_card_url P net headers b = Inl l1 \<and>
      try_card_url P net headers
        (origin u @ strip_trailing_slashes (pathname u) @ ''/.well-known/agent.json'') = Inl l2 \<and>
      try_card_url P net headers (origin u @ ''/.well-known/agent.json'') = Inr found \<longrightarrow>
      fetchAgentCard_route P net (JStr b) headers =
        Inr (found, [b, origin u @ strip_trailing_slashes (pathname u) @ ''/.well-known/agent.json'',
                     origin u @ ''/.well-known/agent.json'']))"
proof -
  have 1: "\<forall>s wk data.
      URL_resolve P ''/.well-known/agent.json'' s = Some wk \<and>
      try_attempt P net s = None \<and>
      try_attempt P net (strip_one_slash s @ ''/.well-known/agent.json'') = None \<and>
      try_attempt P net wk = Some data \<longrightarrow>
      fetchAgentCard_scanner P net (JStr s) =
        (Inr \<lparr>sc_card = data, sc_resolvedUrl = wk\<rparr>,
         unique [s, strip_one_slash s @ ''/.well-known/agent.json'', wk])"
    using scanner_third by blast
  have 2: "\<forall>b line.
      suffix ''.json'' b \<and> URL_parse P b \<noteq> None \<and> try_card_url P net headers b = Inl line \<longrightarrow>
      fetchAgentCard_route P net (JStr b) headers =
        Inr (\<lparr>card = Null, resolvedUrl = b,
              fetch_error = Some (''Could not fetch agent card. Tried: '' @ line)\<rparr>, [b])"
    using route_json_only by blast
  have 3: "\<forall>b u l1 l2 found.
      \<not> suffix ''.json'' b \<and> URL_parse P b = Some u \<and>
      try_card_url P net headers b = Inl l1 \<and>
      try_card_url P net headers
        (origin u @ strip_trailing_slashes (pathname u) @ ''/.well-known/agent.json'') = Inl l2 \<and>
      try_card_url P net headers (origin u @ ''/.well-known/agent.json'') = Inr found \<longrightarrow>
      fetchAgentCard_route P net (JStr b) headers =
        Inr (found, [b, origin u @ strip_trailing_slashes (pathname u) @ ''/.well-known/agent.json'',
                     origin u @ ''/.well-known/agent.json''])"
    using route_third by blast
  show ?thesis by (intro 1 2 3 conjI)
qed

text \<open>
  The claim as stated fails in the compliance route: for the identity
  \<^verbatim>\<open>https://x.test/card.json\<close> that answers 404, with the card served at
  \<^verbatim>\<open>https://x.test/.well-known/agent.json\<close>, the route requests the identity only and
  reports that the card could not be fetched.
\<close>

theorem C6_counterexample:
  "map_option fst
     (returned (fetchAgentCard_route example_platform net_well_known
                  (JStr ''https://x.test/card.json'') [])) =
     Some \<lparr>card = Null, resolvedUrl = ''https://x.test/card.json'',
           fetch_error =
             Some (''Could not fetch agent card. Tried: https://x.test/card.json '' @ arrow @
                   '' HTTP 404'')\<rparr> \<and>
   map_option snd
     (returned (fetchAgentCard_route example_platform net_well_known
                  (JStr ''https://x.test/card.json'') [])) =
     Some [''https://x.test/card.json''] \<and>
   map_option (map ruleId \<circ> ar_results)
     (json_of (a2a_route_POST example_platform net_well_known example_now a2a_request)) =
     Some [''agent-card-fetch''] \<and>
   map_option (map passed \<circ> ar_results)
     (json_of (a2a_route_POST example_platform net_well_known example_now a2a_request)) =
     Some [False]"
  by code_simp

lemma ex_scanner_json:
  "URL_resolve example_platform ''/.well-known/agent.json'' ''https://x.test/card.json'' =
     Some ''https://x.test/.well-known/agent.json'' \<and>
   try_attempt example_platform net_well_known ''https://x.test/card.json'' = None \<and>
   try_attempt example_platform net_well_known
     (strip_one_slash ''https://x.test/card.json'' @ ''/.well-known/agent.json'') = None \<and>
   try_attempt example_platform net_well_known ''https://x.test/.well-known/agent.json'' =
     Some (JObj [(''name'', JStr ''agent'')]) \<and>
   unique [''https://x.test/card.json'',
           strip_one_slash ''https://x.test/card.json'' @ ''/.well-known/agent.json'',
           ''https://x.test/.well-known/agent.json''] =
     [''https://x.test/card.json'', ''https://x.test/card.json/.well-known/agent.json'',
      ''https://x.test/.well-known/agent.json'']"
  by code_simp

lemma ex_route_json:
  "suffix ''.json'' ''https://x.test/card.json'' \<and>
   URL_parse example_platform ''https://x.test/card.json'' \<noteq> None \<and>
   try_card_url example_platform net_well_known [] ''https://x.test/card.json'' =
     Inl (''https://x.test/card.json '' @ arrow @ '' HTTP 404'')"
  by code_simp

lemma ex_route_plain:
  "\<not> suffix ''.json'' ''https://x.test/agent'' \<and>
   URL_parse example_platform ''https://x.test/agent'' =
     Some \<lparr>protocol = ''https:'', origin = ''https://x.test'', hostname = ''x.test'',
           pathname = ''/agent''\<rparr> \<and>
   try_card_url example_platform net_well_known [] ''https://x.test/agent'' =
     Inl (''https://x.test/agent '' @ arrow @ '' HTTP 404'') \<and>
   try_card_url example_platform net_well_known []
     (''https://x.test'' @ strip_trailing_slashes ''/agent'' @ ''/.well-known/agent.json'') =
     Inl (''https://x.test/agent/.well-known/agent.json '' @ arrow @ '' HTTP 404'') \<and>
   try_card_url example_platform net_well_known [] (''https://x.test'' @ ''/.well-known/agent.json'') =
     Inr \<lparr>card = JObj [(''name'', JStr ''agent'')],
          resolvedUrl = ''https://x.test/.well-known/agent.json'', fetch_error = None\<rparr>"
  by code_simp

theorem C6_witness:
  "fetchAgentCard_scanner example_platform net_well_known (JStr ''https://x.test/card.json'') =
     (Inr \<lparr>sc_card = JObj [(''name'', JStr ''agent'')],
           sc_resolvedUrl = ''https://x.test/.well-known/agent.json''\<rparr>,
      [''https://x.test/card.json'', ''https://x.test/card.json/.well-known/agent.json'',
       ''https://x.test/.well-known/agent.json'']) \<and>
   fetchAgentCard_route example_platform net_well_known (JStr ''https://x.test/card.json'') [] =
     Inr (\<lparr>card = Null, resolvedUrl = ''https://x.test/card.json'',
           fetch_error = Some (''Could not fetch agent card. Tried: '' @
                               ''https://x.test/card.json '' @ arrow @ '' HTTP 404'')\<rparr>,
          [''https://x.test/card.json'']) \<and>
   fetchAgentCard_route example_platform net_well_known (JStr ''https://x.test/agent'') [] =
     Inr (\<lparr>card = JObj [(''name'', JStr ''agent'')],
           resolvedUrl = ''https://x.test/.well-known/agent.json'', fetch_error = None\<rparr>,
          [''https://x.test/agent'', ''https://x.test/agent/.well-known/agent.json'',
           ''https://x.test/.well-known/agent.json''])"
proof -
  note T = C6_discovery_fallback [where P = example_platform and net = net_well_known
      and headers = "[]"]
  have 1: "fetchAgentCard_scanner example_platform net_well_known (JStr ''https://x.test/card.json'') =
     (Inr \<lparr>sc_card = JObj [(''name'', JStr ''agent'')],
           sc_resolvedUrl = ''https://x.test/.well-known/agent.json''\<rparr>,
      [''https://x.test/card.json'', ''https://x.test/card.json/.well-known/agent.json'',
       ''https://x.test/.well-known/agent.json''])"
    using T [THEN conjunct1, rule_format, of "''https://x.test/card.json''"
        "''https://x.test/.well-known/agent.json''" "JObj [(''name'', JStr ''agent'')]"]
      ex_scanner_json
    by simp
  have 2: "fetchAgentCard_route example_platform net_well_known (JStr ''https://x.test/card.json'') [] =
     Inr (\<lparr>card = Null, resolvedUrl = ''https://x.test/card.json'',
           fetch_error = Some (''Could not fetch agent card. Tried: '' @
                               ''https://x.test/card.json '' @ arrow @ '' HTTP 404'')\<rparr>,
          [''https://x.test/card.json''])"
    using T [THEN conjunct2, THEN conjunct1, rule_format, of "''https://x.test/card.json''"
        "''https://x.test/card.json '' @ arrow @ '' HTTP 404''"]
      ex_route_json
    by simp
  have 3: "fetchAgentCard_route example_platform net_well_known (JStr ''https://x.test/agent'') [] =
     Inr (\<lparr>card = JObj [(''name'', JStr ''agent'')],
           resolvedUrl = ''https://x.test/.well-known/agent.json'', fetch_error = None\<rparr>,
          [''https://x.test/agent'', ''https://x.test/agent/.well-known/agent.json'',
           ''https://x.test/.well-known/agent.json''])"
    using T [THEN conjunct2, THEN conjunct2, rule_format, of "''https://x.test/agent''"
        "\<lparr>protocol = ''https:'', origin = ''https://x.test'', hostname = ''x.test'',
           pathname = ''/agent''\<rparr>"
        "''https://x.test/agent '' @ arrow @ '' HTTP 404''"
        "''https://x.test/agent/.well-known/agent.json '' @ arrow @ '' HTTP 404''"
        "\<lparr>card = JObj [(''name'', JStr ''agent'')],
          resolvedUrl = ''https://x.test/.well-known/agent.json'', fetch_error = None\<rparr>"]
      ex_route_plain
    by (simp add: strip_trailing_slashes_def)
  show ?thesis by (intro 1 2 3 conjI)
qed


section \<open>Discovery of the agent card: stopping at the first confirming candidate\<close>

lemma route_try_confirming:
  assumes "net \<lparr>req_url = u, req_method = ''GET'',
                req_headers = set_prop ''Accept'' (JStr ''application/json'') headers,
                req_body = None\<rparr> = Inr response"
    and "ok response" and "resp_text response = Inr txt" and "JSON_parse P txt = Inr json"
    and "confirms_a2a_route json"
  shows "try_card_url P net headers u = Inr \<lparr>card = json, resolvedUrl = u, fetch_error = None\<rparr>"
  using assms by (simp add: try_card_url_def Let_def)

lemma route_short_circuit:
  assumes "urlsToTry P baseUrl = Inr (u # us)"
    and "net \<lparr>req_url = u, req_method = ''GET'',
                req_headers = set_prop ''Accept'' (JStr ''application/json'') headers,
                req_body = None\<rparr> = Inr response"
    and "ok response" and "resp_text response = Inr txt" and "JSON_parse P txt = Inr json"
    and "confirms_a2a_route json"
  shows "fetchAgentCard_route P net baseUrl headers =
         Inr (\<lparr>card = json, resolvedUrl = u, fetch_error = None\<rparr>, [u])"
proof -
  from assms(2-6) have "try_card_url P net headers u =
      Inr \<lparr>card = json, resolvedUrl = u, fetch_error = None\<rparr>"
    by (rule route_try_confirming)
  with assms(1) show ?thesis
    by (simp add: fetchAgentCard_route_def bindE_def)
qed

lemma scanner_short_circuit:
  assumes "uniqueAttempts P ident = Inr (a # as)"
    and "net \<lparr>req_url = a, req_method = ''GET'',
               req_headers = [(''Accept'', JStr ''application/json'')], req_body = None\<rparr> = Inr res"
    and "ok res" and "response_json P res = Inr data"
  shows "fetchAgentCard_scanner P net ident =
         (if confirms_scanner data then (Inr \<lparr>sc_card = data, sc_resolvedUrl = a\<rparr>, [a])
          else try_attempts P net as [a])"
  using assms by (simp add: fetchAgentCard_scanner_def try_attempt_def)

lemma first_candidate:
  "urlsToTry P (JStr b) = Inr us \<Longrightarrow> hd us = b \<and> us \<noteq> []"
  "uniqueAttempts P (JStr b) = Inr as \<Longrightarrow> hd as = b \<and> as \<noteq> []"
  by (auto simp add: urlsToTry_def uniqueAttempts_def unique_def Let_def
      split: option.splits if_splits)

lemma confirming_fields:
  "confirms_a2a_route (JObj kvs) =
     (truthy (get (JObj kvs) ''name'') \<or> truthy (get (JObj kvs) ''description'') \<or>
      truthy (get (JObj kvs) ''url'') \<or> truthy (get (JObj kvs) ''skills''))"
  "confirms_scanner (JObj kvs) =
     (truthy (get (JObj kvs) ''name'') \<or> truthy (get (JObj kvs) ''skills'') \<or>
      truthy (get (JObj kvs) ''url''))"
  by (simp_all add: confirms_a2a_route_def confirms_scanner_def)


text \<open>
  Claim C7, as amended.  The first candidate location is the identity itself.  In the
  compliance route, when it answers with a successful, parseable response that has a
  truthy \<^verbatim>\<open>name\<close>, \<^verbatim>\<open>description\<close>, \<^verbatim>\<open>url\<close> or \<^verbatim>\<open>skills\<close>, the fetcher returns it
  as resolved and requests no other location.  In the scanner the same holds when the
  response is an object with a truthy \<^verbatim>\<open>name\<close>, \<^verbatim>\<open>skills\<close> or \<^verbatim>\<open>url\<close>; a
  \<^verbatim>\<open>description\<close> does not confirm there, and the scanner goes on to the remaining
  candidates.
\<close>

theorem C7_short_circuit:
  "(\<forall>u us response txt json.
      urlsToTry P baseUrl = Inr (u # us) \<and>
      net \<lparr>req_url = u, req_method = ''GET'',
           req_headers = set_prop ''Accept'' (JStr ''application/json'') headers,
           req_body = None\<rparr> = Inr response \<and>
      ok response \<and> resp_text response = Inr txt \<and> JSON_parse P txt = Inr json \<and>
      confirms_a2a_route json \<longrightarrow>
      fetchAgentCard_route P net baseUrl headers =
        Inr (\<lparr>card = json, resolvedUrl = u, fetch_error = None\<rparr>, [u])) \<and>
   (\<forall>a as res data.
      uniqueAttempts P baseUrl = Inr (a # as) \<and>
      net \<lparr>req_url = a, req_method = ''GET'',
           req_headers = [(''Accept'', JStr ''application/json'')], req_body = None\<rparr> = Inr res \<and>
      ok res \<and> response_json P res = Inr data \<longrightarrow>
      fetchAgentCard_scanner P net baseUrl =
        (if confirms_scanner data then (Inr \<lparr>sc_card = data, sc_resolvedUrl = a\<rparr>, [a])
         else try_attempts P net as [a])) \<and>
   (\<forall>b us. urlsToTry P (JStr b) = Inr us \<longrightarrow> hd us = b \<and> us \<noteq> []) \<and>
   (\<forall>b as. uniqueAttempts P (JStr b) = Inr as \<longrightarrow> hd as = b \<and> as \<noteq> []) \<and>
   confirms_a2a_route (JObj kvs) =
     (truthy (get (JObj kvs) ''name'') \<or> truthy (get (JObj kvs) ''description'') \<or>
      truthy (get (JObj kvs) ''url'') \<or> truthy (get (JObj kvs) ''skills'')) \<and>
   confirms_scanner (JObj kvs) =
     (truthy (get (JObj kvs) ''name'') \<or> truthy (get (JObj kvs) ''skills'') \<or>
      truthy (get (JObj kvs) ''url''))"
proof -
  have 1: "\<forall>u us response txt json.
      urlsToTry P baseUrl = Inr (u # us) \<and>
      net \<lparr>req_url = u, req_method = ''GET'',
           req_headers = set_prop ''Accept'' (JStr ''application/json'') headers,
           req_body = None\<rparr> = Inr response \<and>
      ok response \<and> resp_text response = Inr txt \<and> JSON_parse P txt = Inr json \<and>
      confirms_a2a_route json \<longrightarrow>
      fetchAgentCard_route P net baseUrl headers =
        Inr (\<lparr>card = json, resolvedUrl = u, fetch_error = None\<rparr>, [u])"
    using route_short_circuit by blast
  have 2: "\<forall>a as res data.
      uniqueAttempts P baseUrl = Inr (a # as) \<and>
      net \<lparr>req_url = a, req_method = ''GET'',
           req_headers = [(''Accept'', JStr ''application/json'')], req_body = None\<rparr> = Inr res \<and>
      ok res \<and> response_json P res = Inr data \<longrightarrow>
      fetchAgentCard_scanner P net baseUrl =
        (if confirms_scanner data then (Inr \<lparr>sc_card = data, sc_resolvedUrl = a\<rparr>, [a])
         else try_attempts P net as [a])"
    using scanner_short_circuit by blast
  have 3: "\<forall>b us. urlsToTry P (JStr b) = Inr us \<longrightarrow> hd us = b \<and> us \<noteq> []"
    using first_candidate(1) by blast
  have 4: "\<forall>b as. uniqueAttempts P (JStr b) = Inr as \<longrightarrow> hd as = b \<and> as \<noteq> []"
    using first_candidate(2) by blast
  show ?thesis by (intro 1 2 3 4 confirming_fields conjI)
qed

text \<open>
  The claim as stated fails in the scanner: the identity \<^verbatim>\<open>https://x.test/agent\<close> answers
  with the document \<^verbatim>\<open>{"description":"an agent"}\<close>, which has one of the four fields of
  the claim, and the scanner requests the two well-known locations after it and returns
  no card.
\<close>

theorem C7_counterexample:
  \<open>map_option ok
     (returned (net_description
        \<lparr>req_url = ''https://x.test/agent'', req_method = ''GET'',
         req_headers = [(''Accept'', JStr ''application/json'')], req_body = None\<rparr>)) =
     Some True \<and>
   Option.bind
     (returned (net_description
        \<lparr>req_url = ''https://x.test/agent'', req_method = ''GET'',
         req_headers = [(''Accept'', JStr ''application/json'')], req_body = None\<rparr>))
     (returned \<circ> response_json example_platform) =
     Some (JObj [(''description'', JStr ''an agent'')]) \<and>
   fetchAgentCard_scanner example_platform net_description (JStr ''https://x.test/agent'') =
     (Inl (ErrorObj ''Could not fetch agent card from any well-known location''),
      [''https://x.test/agent'', ''https://x.test/agent/.well-known/agent.json'',
       ''https://x.test/.well-known/agent.json''])\<close>
  by code_simp

lemma ex_route_description:
  \<open>urlsToTry example_platform (JStr ''https://x.test/agent'') =
     Inr (''https://x.test/agent'' #
          [''https://x.test/agent/.well-known/agent.json'',
           ''https://x.test/.well-known/agent.json'']) \<and>
   net_description
     \<lparr>req_url = ''https://x.test/agent'', req_method = ''GET'',
      req_headers = set_prop ''Accept'' (JStr ''application/json'') [],
      req_body = None\<rparr> = Inr (ok_json ''{"description":"an agent"}'') \<and>
   ok (ok_json ''{"description":"an agent"}'') \<and>
   resp_text (ok_json ''{"description":"an agent"}'') = Inr ''{"description":"an agent"}'' \<and>
   JSON_parse example_platform ''{"description":"an agent"}'' =
     Inr (JObj [(''description'', JStr ''an agent'')]) \<and>
   confirms_a2a_route (JObj [(''description'', JStr ''an agent'')])\<close>
  by code_simp

lemma ex_scanner_card:
  \<open>uniqueAttempts example_platform (JStr ''https://x.test/card.json'') =
     Inr (''https://x.test/card.json'' #
          [''https://x.test/card.json/.well-known/agent.json'',
           ''https://x.test/.well-known/agent.json'']) \<and>
   net_card
     \<lparr>req_url = ''https://x.test/card.json'', req_method = ''GET'',
      req_headers = [(''Accept'', JStr ''application/json'')],
      req_body = None\<rparr> = Inr (ok_json ''{"name":"agent"}'') \<and>
   ok (ok_json ''{"name":"agent"}'') \<and>
   response_json example_platform (ok_json ''{"name":"agent"}'') =
     Inr (JObj [(''name'', JStr ''agent'')]) \<and>
   confirms_scanner (JObj [(''name'', JStr ''agent'')])\<close>
  by code_simp

theorem C7_witness:
  "fetchAgentCard_route example_platform net_description (JStr ''https://x.test/agent'') [] =
     Inr (\<lparr>card = JObj [(''description'', JStr ''an agent'')],
           resolvedUrl = ''https://x.test/agent'', fetch_error = None\<rparr>,
          [''https://x.test/agent'']) \<and>
   fetchAgentCard_scanner example_platform net_card (JStr ''https://x.test/card.json'') =
     (Inr \<lparr>sc_card = JObj [(''name'', JStr ''agent'')],
           sc_resolvedUrl = ''https://x.test/card.json''\<rparr>,
      [''https://x.test/card.json''])"
proof -
  note R = C7_short_circuit [where P = example_platform and net = net_description
      and headers = "[]" and baseUrl = "JStr ''https://x.test/agent''", THEN conjunct1,
      rule_format, of "''https://x.test/agent''"
        "[''https://x.test/agent/.well-known/agent.json'',
          ''https://x.test/.well-known/agent.json'']"
        \<open>ok_json ''{"description":"an agent"}''\<close> \<open>''{"description":"an agent"}''\<close>
        "JObj [(''description'', JStr ''an agent'')]"]
  note S = C7_short_circuit [where P = example_platform and net = net_card
      and baseUrl = "JStr ''https://x.test/card.json''", THEN conjunct2, THEN conjunct1,
      rule_format, of "''https://x.test/card.json''"
        "[''https://x.test/card.json/.well-known/agent.json'',
          ''https://x.test/.well-known/agent.json'']"
        \<open>ok_json ''{"name":"agent"}''\<close> "JObj [(''name'', JStr ''agent'')]"]
  have 1: "fetchAgentCard_route example_platform net_description (JStr ''https://x.test/agent'') [] =
     Inr (\<lparr>card = JObj [(''description'', JStr ''an agent'')],
           resolvedUrl = ''https://x.test/agent'', fetch_error = None\<rparr>,
          [''https://x.test/agent''])"
    using R ex_route_description by blast
  have 2: "fetchAgentCard_scanner example_platform net_card (JStr ''https://x.test/card.json'') =
     (Inr \<lparr>sc_card = JObj [(''name'', JStr ''agent'')],
           sc_resolvedUrl = ''https://x.test/card.json''\<rparr>,
      [''https://x.test/card.json''])"
    using S ex_scanner_card by simp
  show ?thesis by (intro 1 2 conjI)
qed


section \<open>Discovery of the agent card: the candidate locations\<close>

lemma unique_acc_distinct: "distinct seen \<Longrightarrow> distinct (unique_acc seen xs)"
  by (induction xs arbitrary: seen) simp_all

lemma unique_distinct: "distinct (unique xs)"
  by (simp add: unique_def unique_acc_distinct)

lemma uniqueAttempts_distinct: "uniqueAttempts P u = Inr as \<Longrightarrow> distinct as"
  by (auto simp add: uniqueAttempts_def unique_distinct split: jsval.splits option.splits)

lemma try_attempts_requested:
  "\<exists>k. snd (try_attempts P net as requested) = requested @ take k as"
proof (induction as arbitrary: requested)
  case Nil
  show ?case by simp
next
  case (Cons a as)
  show ?case
  proof (cases "try_attempt P net a")
    case None
    from Cons [of "requested @ [a]"] obtain k
      where "snd (try_attempts P net as (requested @ [a])) = (requested @ [a]) @ take k as"
      by blast
    with None have "snd (try_attempts P net (a # as) requested) = requested @ take (Suc k) (a # as)"
      by simp
    then show ?thesis by blast
  next
    case (Some data)
    then have "snd (try_attempts P net (a # as) requested) = requested @ take 1 (a # as)"
      by simp
    then show ?thesis by blast
  qed
qed

lemma scanner_requests_once: "distinct (snd (fetchAgentCard_scanner P net u))"
proof (cases "uniqueAttempts P u")
  case (Inl e)
  then show ?thesis by (simp add: fetchAgentCard_scanner_def)
next
  case (Inr as)
  then have d: "distinct as" by (rule uniqueAttempts_distinct)
  from try_attempts_requested [of P net as "[]"] obtain k
    where "snd (try_attempts P net as []) = take k as" by auto
  with d Inr show ?thesis by (simp add: fetchAgentCard_scanner_def)
qed

text \<open>
  Claim C8.  The candidate locations of one discovery are to hold no location twice.
  The scanner removes the duplicates from its list, so it requests no location twice,
  whatever the identity and the network.  The compliance route does not: for the
  identity \<^verbatim>\<open>https://x.test\<close>, whose path is empty, the well-known location under the
  path and the one under the origin are the same, the list of the route holds it twice,
  and when no location answers the route requests it twice.
\<close>

theorem C8_route_requests_twice:
  "urlsToTry example_platform (JStr ''https://x.test'') =
     Inr [''https://x.test'', ''https://x.test/.well-known/agent.json'',
          ''https://x.test/.well-known/agent.json''] \<and>
   map_option snd
     (returned (fetchAgentCard_route example_platform net_404 (JStr ''https://x.test'') [])) =
     Some [''https://x.test'', ''https://x.test/.well-known/agent.json'',
           ''https://x.test/.well-known/agent.json''] \<and>
   uniqueAttempts example_platform (JStr ''https://x.test'') =
     Inr [''https://x.test'', ''https://x.test/.well-known/agent.json''] \<and>
   snd (fetchAgentCard_scanner example_platform net_404 (JStr ''https://x.test'')) =
     [''https://x.test'', ''https://x.test/.well-known/agent.json'']"
  by code_simp

end
